theory Spec2Isabelle
  imports Complex_Main "HOL-Library.AList"
begin

section \<open>The Iodine network object model (rkviewer/iodine.py)\<close>

text \<open>
  Conventions of the embedding.
  \<^item> A Python \<open>dict\<close> is an association list in insertion order: \<open>k in d\<close> is
    \<open>map_of d k \<noteq> None\<close>, \<open>d[k] = v\<close> is \<open>AList.update k v d\<close>, \<open>del d[k]\<close> is
    \<open>AList.delete k d\<close>, and the mutation of the object stored under \<open>k\<close> is
    \<open>AList.map_entry k f d\<close>.
  \<^item> A Python \<open>set\<close> of indices is an \<open>int set\<close>; a \<open>defaultdict(set)\<close> is the total
    function \<open>int \<Rightarrow> int set\<close> that reads the empty set at a key never written.
  \<^item> Python integers are \<open>int\<close>; floats are \<open>real\<close> (the code only compares them
    with constants and stores them).
  \<^item> The module's global variables are the fields of the record \<open>iodine\<close>; every function
    takes the state and returns its result together with the new state. A raised
    exception is the result \<open>Inl e\<close>, paired with the state the raise leaves behind.
  \<^item> A \<open>TFont\<close> is the one mutable object that several nodes can refer to: the dataclass
    default of \<open>TNode.font\<close> is a single \<open>TFont()\<close>, made when the class is defined, and every
    node built without a font argument refers to it. A node carries the value of its font
    object (\<open>node_font\<close>) and a name for the object (\<open>node_fontObj\<close>): within one registry
    value, two nodes refer to the same object exactly when they carry the same name. A write
    through one node (\<open>write_font\<close>) changes the value at every node of the registry that
    carries the name, and the class default when it is that object. The state holds the
    class default's value and its name (\<open>defaultFont\<close>, \<open>defaultFontObj\<close>).
  \<^item> \<open>copy.deepcopy\<close> yields equal values with the same sharing among them and no object
    in common with the original; on this representation it is the identity, so
    \<open>TStack.push\<close> appends the value. When a snapshot becomes the registry (\<open>undo\<close>,
    \<open>redo\<close>), none of its font objects is the class default, which therefore takes a name
    that no node carries (lemma \<open>font_names_reachable\<close>).
  \<^item> Record fields carry the owner's prefix (\<open>node_\<close>, \<open>rea_\<close>, \<open>sp_\<close>, \<open>comp_\<close>,
    \<open>net_\<close>, \<open>col_\<close>, \<open>font_\<close>), since several classes share field names; a function
    whose Python name starts with an underscore carries the prefix \<open>priv\<close>.
  \<^item> \<open>Vec2\<close> (rkviewer/canvas/geometry.py) is an immutable pair of floats.
\<close>

subsection \<open>Classes\<close>

type_synonym Vec2 = "real \<times> real"

record TColor =
  col_r :: int
  col_g :: int
  col_b :: int
  col_a :: int

definition mkTColor :: "int \<Rightarrow> int \<Rightarrow> int \<Rightarrow> int \<Rightarrow> TColor" where
  "mkTColor r g b a = \<lparr>col_r = r, col_g = g, col_b = b, col_a = a\<rparr>"

definition swapped :: "int option \<Rightarrow> int option \<Rightarrow> int option \<Rightarrow> int option \<Rightarrow> TColor \<Rightarrow> TColor" where
  "swapped r g b a c =
     mkTColor (case r of None \<Rightarrow> col_r c | Some v \<Rightarrow> v)
              (case g of None \<Rightarrow> col_g c | Some v \<Rightarrow> v)
              (case b of None \<Rightarrow> col_b c | Some v \<Rightarrow> v)
              (case a of None \<Rightarrow> col_a c | Some v \<Rightarrow> v)"

record TFont =
  font_pointSize :: int
  font_family :: string
  font_style :: string
  font_weight :: string
  font_name :: string
  font_color :: TColor

definition TFont_init :: TFont where
  "TFont_init = \<lparr>font_pointSize = 20, font_family = ''default'', font_style = ''normal'',
                 font_weight = ''default'', font_name = '''', font_color = mkTColor 0 0 0 255\<rparr>"

record TNode =
  node_id :: string
  node_position :: Vec2
  node_rectSize :: Vec2
  node_floating :: bool
  node_compi :: int
  node_fillColor :: TColor
  node_outlineColor :: TColor
  node_outlineThickness :: real
  node_font :: TFont
  node_fontObj :: nat

text \<open>
  \<open>TNode(id, position, rectSize, floating)\<close> with the dataclass defaults, the font default
  as it is when the module is loaded. \<open>TNode_new\<close> below is the call on a running module.
\<close>

definition TNode_init :: "string \<Rightarrow> Vec2 \<Rightarrow> Vec2 \<Rightarrow> bool \<Rightarrow> TNode" where
  "TNode_init i p sz fl =
     \<lparr>node_id = i, node_position = p, node_rectSize = sz, node_floating = fl, node_compi = -1,
      node_fillColor = mkTColor 255 150 80 255, node_outlineColor = mkTColor 255 100 80 255,
      node_outlineThickness = 3, node_font = TFont_init, node_fontObj = 0\<rparr>"

record TSpeciesNode =
  sp_stoich :: real
  sp_handlePos :: Vec2

definition TSpeciesNode_init :: "real \<Rightarrow> TSpeciesNode" where
  "TSpeciesNode_init st = \<lparr>sp_stoich = st, sp_handlePos = (0, 0)\<rparr>"

record TReaction =
  rea_id :: string
  rea_centerPos :: "Vec2 option"
  rea_rateLaw :: string
  rea_reactants :: "(int \<times> TSpeciesNode) list"
  rea_products :: "(int \<times> TSpeciesNode) list"
  rea_fillColor :: TColor
  rea_thickness :: real
  rea_centerHandlePos :: Vec2
  rea_bezierCurves :: bool

definition TReaction_init :: "string \<Rightarrow> TReaction" where
  "TReaction_init i =
     \<lparr>rea_id = i, rea_centerPos = None, rea_rateLaw = '''', rea_reactants = [], rea_products = [],
      rea_fillColor = mkTColor 255 150 80 255, rea_thickness = 3, rea_centerHandlePos = (0, 0),
      rea_bezierCurves = True\<rparr>"

record TCompartment =
  comp_id :: string
  comp_position :: Vec2
  comp_rectSize :: Vec2
  comp_node_indices :: "int set"
  comp_volume :: real
  comp_fillColor :: TColor
  comp_outlineColor :: TColor
  comp_outlineThickness :: real

definition TCompartment_init :: "string \<Rightarrow> Vec2 \<Rightarrow> Vec2 \<Rightarrow> TCompartment" where
  "TCompartment_init i p sz =
     \<lparr>comp_id = i, comp_position = p, comp_rectSize = sz, comp_node_indices = {}, comp_volume = 1,
      comp_fillColor = mkTColor 0 247 255 255, comp_outlineColor = mkTColor 0 106 255 255,
      comp_outlineThickness = 2\<rparr>"

record TNetwork =
  net_id :: string
  net_nodes :: "(int \<times> TNode) list"
  net_reactions :: "(int \<times> TReaction) list"
  net_compartments :: "(int \<times> TCompartment) list"
  net_baseNodes :: "int set"
  net_srcMap :: "int \<Rightarrow> int set"
  net_destMap :: "int \<Rightarrow> int set"
  net_lastNodeIdx :: int
  net_lastReactionIdx :: int
  net_lastCompartmentIdx :: int

text \<open>\<open>max(keys, default=d)\<close>.\<close>

definition py_max :: "int list \<Rightarrow> int \<Rightarrow> int" where
  "py_max ks d = (case ks of [] \<Rightarrow> d | k # rest \<Rightarrow> fold max rest k)"

text \<open>\<open>for k in keys: m[k].add(index)\<close> on a \<open>defaultdict(set)\<close>.\<close>

definition add_index :: "int \<Rightarrow> int list \<Rightarrow> (int \<Rightarrow> int set) \<Rightarrow> (int \<Rightarrow> int set)" where
  "add_index index ks m = fold (\<lambda>k m'. m'(k := insert index (m' k))) ks m"

text \<open>
  \<open>TNetwork.__init__\<close>. The base set is built with the truth value of \<open>n.compi\<close>, which
  is false exactly for the index 0.
\<close>

definition TNetwork_init ::
  "string \<Rightarrow> (int \<times> TNode) list \<Rightarrow> (int \<times> TReaction) list \<Rightarrow> (int \<times> TCompartment) list \<Rightarrow> TNetwork" where
  "TNetwork_init i ns rs cs =
     \<lparr>net_id = i, net_nodes = ns, net_reactions = rs, net_compartments = cs,
      net_baseNodes = set (map fst (filter (\<lambda>(index, n). node_compi n \<noteq> 0) ns)),
      net_srcMap = fold (\<lambda>(index, reaction). add_index index (map fst (rea_reactants reaction))) rs (\<lambda>_. {}),
      net_destMap = fold (\<lambda>(index, reaction). add_index index (map fst (rea_products reaction))) rs (\<lambda>_. {}),
      net_lastNodeIdx = py_max (map fst ns) (-1) + 1,
      net_lastReactionIdx = py_max (map fst rs) (-1) + 1,
      net_lastCompartmentIdx = py_max (map fst cs) (-1) + 1\<rparr>"

definition TNetwork_addNode :: "TNode \<Rightarrow> TNetwork \<Rightarrow> TNetwork" where
  "TNetwork_addNode node net =
     net\<lparr>net_nodes := AList.update (net_lastNodeIdx net) node (net_nodes net),
         net_baseNodes := insert (net_lastNodeIdx net) (net_baseNodes net),
         net_lastNodeIdx := net_lastNodeIdx net + 1\<rparr>"

definition TNetwork_addReaction :: "TReaction \<Rightarrow> TNetwork \<Rightarrow> TNetwork" where
  "TNetwork_addReaction rea net =
     net\<lparr>net_reactions := AList.update (net_lastReactionIdx net) rea (net_reactions net),
         net_srcMap := add_index (net_lastReactionIdx net) (map fst (rea_reactants rea)) (net_srcMap net),
         net_destMap := add_index (net_lastReactionIdx net) (map fst (rea_products rea)) (net_destMap net),
         net_lastReactionIdx := net_lastReactionIdx net + 1\<rparr>"

text \<open>\<open>TNetwork.addCompartment\<close> returns the index it used.\<close>

definition TNetwork_addCompartment :: "TCompartment \<Rightarrow> TNetwork \<Rightarrow> TNetwork" where
  "TNetwork_addCompartment cmp net =
     net\<lparr>net_compartments := AList.update (net_lastCompartmentIdx net) cmp (net_compartments net),
         net_lastCompartmentIdx := net_lastCompartmentIdx net + 1\<rparr>"

subsection \<open>Exceptions and the module state\<close>

datatype error =
    IDNotFoundError | IDRepeatError | NodeNotFreeError | NetIndexError | ReactionIndexError
  | NodeIndexError | CompartmentIndexError | StoichError | StackEmptyError | JSONError | FileError
  | ValueError | KeyError | AssertionError | ValidationError

definition ExceptionDict :: "int \<Rightarrow> error option" where
  "ExceptionDict = map_of
     [(-2, IDNotFoundError), (-3, IDRepeatError), (-4, NodeNotFreeError), (-5, NetIndexError),
      (-6, ReactionIndexError), (-7, NodeIndexError), (-8, StoichError), (-9, StackEmptyError),
      (-10, JSONError), (-11, FileError), (-12, ValueError), (-13, CompartmentIndexError)]"

type_synonym TNetworkDict = "(int \<times> TNetwork) list"

record iodine =
  stackFlag :: bool
  errCode :: int
  networkDict :: TNetworkDict
  netSetStack :: "TNetworkDict list"
  redoStack :: "TNetworkDict list"
  lastNetIndex :: int
  defaultFont :: TFont
  defaultFontObj :: nat

text \<open>
  The module as loaded. \<open>reset()\<close> assigns the six globals these values again; the default
  \<open>TFont\<close> object of the class \<open>TNode\<close> is not among them and stays as it is.
\<close>

definition reset :: iodine where
  "reset = \<lparr>stackFlag = True, errCode = 0, networkDict = [], netSetStack = [], redoStack = [],
            lastNetIndex = 0, defaultFont = TFont_init, defaultFontObj = 0\<rparr>"

definition reset_globals :: "iodine \<Rightarrow> iodine" where
  "reset_globals s = reset\<lparr>defaultFont := defaultFont s, defaultFontObj := defaultFontObj s\<rparr>"

text \<open>\<open>TNode(id, position, rectSize, floating)\<close>: the font is the class default object.\<close>

definition TNode_new :: "iodine \<Rightarrow> string \<Rightarrow> Vec2 \<Rightarrow> Vec2 \<Rightarrow> bool \<Rightarrow> TNode" where
  "TNode_new s i p sz fl =
     (TNode_init i p sz fl)\<lparr>node_font := defaultFont s, node_fontObj := defaultFontObj s\<rparr>"

text \<open>\<open>raise ExceptionDict[errCode](errorDict[errCode])\<close>, with the global \<open>errCode\<close>.\<close>

definition raise_errCode :: "iodine \<Rightarrow> (error + 'a) \<times> iodine" where
  "raise_errCode s = (case ExceptionDict (errCode s) of Some e \<Rightarrow> (Inl e, s) | None \<Rightarrow> (Inl KeyError, s))"

definition priv_raiseError :: "int \<Rightarrow> iodine \<Rightarrow> (error + 'a) \<times> iodine" where
  "priv_raiseError eCode s =
     (if \<not> eCode < 0 then (Inl AssertionError, s) else raise_errCode (s\<lparr>errCode := eCode\<rparr>))"

subsection \<open>Undo, redo and groups\<close>

text \<open>
  \<open>undo()\<close> and \<open>redo()\<close> make a popped snapshot the registry; the class default font
  object then takes the next name, which no node of any snapshot carries.
\<close>

definition priv_pushUndoStack :: "iodine \<Rightarrow> iodine" where
  "priv_pushUndoStack s =
     (if stackFlag s then s\<lparr>redoStack := [], netSetStack := netSetStack s @ [networkDict s]\<rparr> else s)"

definition undo :: "iodine \<Rightarrow> (error + unit) \<times> iodine" where
  "undo s0 =
     (let s = s0\<lparr>errCode := 0\<rparr> in
      if netSetStack s = [] then raise_errCode (s\<lparr>errCode := -9\<rparr>)
      else (Inr (), s\<lparr>redoStack := redoStack s @ [networkDict s],
                      networkDict := last (netSetStack s),
                      netSetStack := butlast (netSetStack s),
                      defaultFontObj := defaultFontObj s + 1\<rparr>))"

text \<open>\<open>redo()\<close> does not assign \<open>errCode = 0\<close> first: the final test reads what the last
  call left in the global.\<close>

definition redo :: "iodine \<Rightarrow> (error + unit) \<times> iodine" where
  "redo s =
     (let s1 = (if redoStack s = [] then s\<lparr>errCode := -9\<rparr>
                else s\<lparr>netSetStack := netSetStack s @ [networkDict s],
                       networkDict := last (redoStack s),
                       redoStack := butlast (redoStack s),
                       defaultFontObj := defaultFontObj s + 1\<rparr>)
      in if errCode s1 < 0 then raise_errCode s1 else (Inr (), s1))"

definition startGroup :: "iodine \<Rightarrow> iodine" where
  "startGroup s = s\<lparr>redoStack := [], netSetStack := netSetStack s @ [networkDict s], stackFlag := False\<rparr>"

definition endGroup :: "iodine \<Rightarrow> iodine" where
  "endGroup s = s\<lparr>stackFlag := True\<rparr>"

subsection \<open>The registry\<close>

definition priv_getNetwork :: "int \<Rightarrow> iodine \<Rightarrow> error + TNetwork" where
  "priv_getNetwork neti s =
     (case map_of (networkDict s) neti of None \<Rightarrow> Inl NetIndexError | Some n \<Rightarrow> Inr n)"

text \<open>In-place mutation of the network object stored at \<open>neti\<close>.\<close>

definition update_net :: "int \<Rightarrow> (TNetwork \<Rightarrow> TNetwork) \<Rightarrow> iodine \<Rightarrow> iodine" where
  "update_net neti f s = s\<lparr>networkDict := AList.map_entry neti f (networkDict s)\<rparr>"

definition newNetwork :: "string \<Rightarrow> iodine \<Rightarrow> (error + unit) \<times> iodine" where
  "newNetwork netID s0 =
     (let s = s0\<lparr>errCode := 0\<rparr> in
      if list_ex (\<lambda>network. net_id network = netID) (map snd (networkDict s))
      then raise_errCode (s\<lparr>errCode := -3\<rparr>)
      else (let s1 = priv_pushUndoStack s in
            (Inr (), s1\<lparr>networkDict := AList.update (lastNetIndex s1) (TNetwork_init netID [] [] []) (networkDict s1),
                        lastNetIndex := lastNetIndex s1 + 1\<rparr>)))"

definition deleteNetwork :: "int \<Rightarrow> iodine \<Rightarrow> (error + unit) \<times> iodine" where
  "deleteNetwork neti s0 =
     (let s = s0\<lparr>errCode := 0\<rparr> in
      if map_of (networkDict s) neti = None then raise_errCode (s\<lparr>errCode := -5\<rparr>)
      else (let s1 = priv_pushUndoStack s in
            (Inr (), s1\<lparr>networkDict := AList.delete neti (networkDict s1)\<rparr>)))"

definition clearNetworks :: "iodine \<Rightarrow> iodine" where
  "clearNetworks s0 =
     (let s1 = priv_pushUndoStack (s0\<lparr>errCode := 0\<rparr>) in s1\<lparr>networkDict := [], lastNetIndex := 0\<rparr>)"

definition clearNetwork :: "int \<Rightarrow> iodine \<Rightarrow> (error + unit) \<times> iodine" where
  "clearNetwork neti s0 =
     (let s = s0\<lparr>errCode := 0\<rparr> in
      if map_of (networkDict s) neti = None then raise_errCode (s\<lparr>errCode := -5\<rparr>)
      else (Inr (), update_net neti (\<lambda>n. TNetwork_init (net_id n) [] [] []) (priv_pushUndoStack s)))"

text \<open>\<open>_addNetwork\<close> returns the index of the network it added.\<close>

definition priv_addNetwork :: "TNetwork \<Rightarrow> iodine \<Rightarrow> (error + int) \<times> iodine" where
  "priv_addNetwork network s =
     (if list_ex (\<lambda>net. net_id net = net_id network) (map snd (networkDict s))
      then priv_raiseError (-3) s
      else (let s1 = priv_pushUndoStack s in
            (Inr (lastNetIndex s1),
             s1\<lparr>networkDict := AList.update (lastNetIndex s1) network (networkDict s1),
                lastNetIndex := lastNetIndex s1 + 1\<rparr>)))"

subsection \<open>Nodes\<close>

definition priv_getNode :: "int \<Rightarrow> int \<Rightarrow> iodine \<Rightarrow> (error + TNode) \<times> iodine" where
  "priv_getNode neti nodei s =
     (case priv_getNetwork neti s of
        Inl e \<Rightarrow> (Inl e, s)
      | Inr net \<Rightarrow>
          (case map_of (net_nodes net) nodei of
             None \<Rightarrow> priv_raiseError (-7) s
           | Some node \<Rightarrow> (Inr node, s)))"

text \<open>In-place mutation of the node object \<open>networkDict[neti].nodes[nodei]\<close>.\<close>

definition update_node :: "int \<Rightarrow> int \<Rightarrow> (TNode \<Rightarrow> TNode) \<Rightarrow> iodine \<Rightarrow> iodine" where
  "update_node neti nodei f s =
     update_net neti (\<lambda>n. n\<lparr>net_nodes := AList.map_entry nodei f (net_nodes n)\<rparr>) s"

text \<open>
  \<open>addNode\<close> runs in \<open>try ... finally\<close>: a \<open>return\<close> with a negative \<open>errCode\<close> raises from
  the \<open>finally\<close> block; the exception of \<open>_getNetwork\<close> passes through it, since that
  function assigns a local \<open>errCode\<close> only.
\<close>

definition addNode ::
  "int \<Rightarrow> string \<Rightarrow> real \<Rightarrow> real \<Rightarrow> real \<Rightarrow> real \<Rightarrow> bool \<Rightarrow> iodine \<Rightarrow> (error + unit) \<times> iodine" where
  "addNode neti nodeID x y w h floatingNode s0 =
     (let s = s0\<lparr>errCode := 0\<rparr> in
      case priv_getNetwork neti s of
        Inl e \<Rightarrow> (Inl e, s)
      | Inr n \<Rightarrow>
          if list_ex (\<lambda>i. node_id i = nodeID) (map snd (net_nodes n))
          then raise_errCode (s\<lparr>errCode := -3\<rparr>)
          else if x < 0 \<or> y < 0 \<or> w \<le> 0 \<or> h \<le> 0
          then raise_errCode (s\<lparr>errCode := -12\<rparr>)
          else (Inr (), update_net neti (TNetwork_addNode (TNode_new s nodeID (x, y) (w, h) floatingNode))
                          (priv_pushUndoStack s)))"

text \<open>
  \<open>deleteNode\<close>. \<open>set.remove\<close> and \<open>n.compartments[compi]\<close> raise \<open>KeyError\<close> on a missing
  element, after the snapshot was pushed.
\<close>

definition deleteNode :: "int \<Rightarrow> int \<Rightarrow> iodine \<Rightarrow> (error + unit) \<times> iodine" where
  "deleteNode neti nodei s =
     (case map_of (networkDict s) neti of
        None \<Rightarrow> raise_errCode (s\<lparr>errCode := -5\<rparr>)
      | Some n \<Rightarrow>
          (case map_of (net_nodes n) nodei of
             None \<Rightarrow> raise_errCode (s\<lparr>errCode := -7\<rparr>)
           | Some node \<Rightarrow>
               if net_srcMap n nodei = {} \<and> net_destMap n nodei = {} then
                 (let s1 = priv_pushUndoStack (s\<lparr>errCode := 0\<rparr>); ci = node_compi node in
                  if ci = -1 then
                    (if nodei \<in> net_baseNodes n
                     then (Inr (), update_net neti
                             (\<lambda>n'. n'\<lparr>net_baseNodes := net_baseNodes n' - {nodei},
                                       net_nodes := AList.delete nodei (net_nodes n')\<rparr>) s1)
                     else (Inl KeyError, s1))
                  else
                    (case map_of (net_compartments n) ci of
                       None \<Rightarrow> (Inl KeyError, s1)
                     | Some c \<Rightarrow>
                         if nodei \<in> comp_node_indices c
                         then (Inr (), update_net neti
                                 (\<lambda>n'. n'\<lparr>net_compartments :=
                                             AList.map_entry ci
                                               (\<lambda>c'. c'\<lparr>comp_node_indices := comp_node_indices c' - {nodei}\<rparr>)
                                               (net_compartments n'),
                                           net_nodes := AList.delete nodei (net_nodes n')\<rparr>) s1)
                         else (Inl KeyError, s1)))
               else raise_errCode (s\<lparr>errCode := -4\<rparr>)))"

definition setNodeID :: "int \<Rightarrow> int \<Rightarrow> string \<Rightarrow> iodine \<Rightarrow> (error + unit) \<times> iodine" where
  "setNodeID neti nodei newID s0 =
     (let s = s0\<lparr>errCode := 0\<rparr> in
      case map_of (networkDict s) neti of
        None \<Rightarrow> raise_errCode (s\<lparr>errCode := -5\<rparr>)
      | Some net \<Rightarrow>
          if map_of (net_nodes net) nodei = None then raise_errCode (s\<lparr>errCode := -7\<rparr>)
          else if list_ex (\<lambda>n. node_id n = newID) (map snd (net_nodes net))
          then raise_errCode (s\<lparr>errCode := -3\<rparr>)
          else (Inr (), update_node neti nodei (\<lambda>n. n\<lparr>node_id := newID\<rparr>) (priv_pushUndoStack s)))"

definition setNodeCoordinate ::
  "int \<Rightarrow> int \<Rightarrow> real \<Rightarrow> real \<Rightarrow> bool \<Rightarrow> iodine \<Rightarrow> (error + unit) \<times> iodine" where
  "setNodeCoordinate neti nodei x y allowNegativeCoordinates s0 =
     (let s = s0\<lparr>errCode := 0\<rparr>;
          lowerLimit = (if allowNegativeCoordinates then - (10 ^ 12) else 0) in
      case map_of (networkDict s) neti of
        None \<Rightarrow> raise_errCode (s\<lparr>errCode := -5\<rparr>)
      | Some n \<Rightarrow>
          if map_of (net_nodes n) nodei = None then raise_errCode (s\<lparr>errCode := -7\<rparr>)
          else if x < lowerLimit \<or> y < lowerLimit then raise_errCode (s\<lparr>errCode := -12\<rparr>)
          else (Inr (), update_node neti nodei (\<lambda>n. n\<lparr>node_position := (x, y)\<rparr>) (priv_pushUndoStack s)))"

definition setNodeSize :: "int \<Rightarrow> int \<Rightarrow> real \<Rightarrow> real \<Rightarrow> iodine \<Rightarrow> (error + unit) \<times> iodine" where
  "setNodeSize neti nodei w h s0 =
     (let s = s0\<lparr>errCode := 0\<rparr> in
      case map_of (networkDict s) neti of
        None \<Rightarrow> raise_errCode (s\<lparr>errCode := -5\<rparr>)
      | Some n \<Rightarrow>
          if map_of (net_nodes n) nodei = None then raise_errCode (s\<lparr>errCode := -7\<rparr>)
          else if w \<le> 0 \<or> h \<le> 0 then raise_errCode (s\<lparr>errCode := -12\<rparr>)
          else (Inr (), update_node neti nodei (\<lambda>n. n\<lparr>node_rectSize := (w, h)\<rparr>) (priv_pushUndoStack s)))"

definition setNodeFloatingStatus :: "int \<Rightarrow> int \<Rightarrow> bool \<Rightarrow> iodine \<Rightarrow> (error + unit) \<times> iodine" where
  "setNodeFloatingStatus neti nodei floatingStatus s0 =
     (let s = s0\<lparr>errCode := 0\<rparr> in
      case map_of (networkDict s) neti of
        None \<Rightarrow> raise_errCode (s\<lparr>errCode := -5\<rparr>)
      | Some n \<Rightarrow>
          if map_of (net_nodes n) nodei = None then raise_errCode (s\<lparr>errCode := -7\<rparr>)
          else (Inr (), update_node neti nodei (\<lambda>n. n\<lparr>node_floating := floatingStatus\<rparr>)
                          (priv_pushUndoStack s)))"

definition setNodeFillColorRGB :: "int \<Rightarrow> int \<Rightarrow> int \<Rightarrow> int \<Rightarrow> int \<Rightarrow> iodine \<Rightarrow> (error + unit) \<times> iodine" where
  "setNodeFillColorRGB neti nodei r g b s0 =
     (let s = s0\<lparr>errCode := 0\<rparr> in
      case map_of (networkDict s) neti of
        None \<Rightarrow> raise_errCode (s\<lparr>errCode := -5\<rparr>)
      | Some n \<Rightarrow>
          if map_of (net_nodes n) nodei = None then raise_errCode (s\<lparr>errCode := -7\<rparr>)
          else if r < 0 \<or> r > 255 \<or> g < 0 \<or> g > 255 \<or> b < 0 \<or> b > 255
          then raise_errCode (s\<lparr>errCode := -12\<rparr>)
          else (Inr (), update_node neti nodei
                          (\<lambda>n. n\<lparr>node_fillColor := swapped (Some r) (Some g) (Some b) None (node_fillColor n)\<rparr>)
                          (priv_pushUndoStack s)))"

text \<open>\<open>int(a * 255)\<close> truncates; on the accepted range \<open>[0, 1]\<close> that is the floor.\<close>

definition setNodeFillColorAlpha :: "int \<Rightarrow> int \<Rightarrow> real \<Rightarrow> iodine \<Rightarrow> (error + unit) \<times> iodine" where
  "setNodeFillColorAlpha neti nodei a s0 =
     (let s = s0\<lparr>errCode := 0\<rparr> in
      if map_of (networkDict s) neti = None then raise_errCode (s\<lparr>errCode := -5\<rparr>)
      else
        (case priv_getNode neti nodei s of
           (Inl e, s') \<Rightarrow> (Inl e, s')
         | (Inr node, s') \<Rightarrow>
             if a < 0 \<or> a > 1 then raise_errCode (s'\<lparr>errCode := -12\<rparr>)
             else (Inr (), update_node neti nodei
                             (\<lambda>n. n\<lparr>node_fillColor := swapped None None None (Some \<lfloor>a * 255\<rfloor>) (node_fillColor n)\<rparr>)
                             (priv_pushUndoStack s'))))"

definition setNodeOutlineColorRGB :: "int \<Rightarrow> int \<Rightarrow> int \<Rightarrow> int \<Rightarrow> int \<Rightarrow> iodine \<Rightarrow> (error + unit) \<times> iodine" where
  "setNodeOutlineColorRGB neti nodei r g b s0 =
     (let s = s0\<lparr>errCode := 0\<rparr> in
      case map_of (networkDict s) neti of
        None \<Rightarrow> raise_errCode (s\<lparr>errCode := -5\<rparr>)
      | Some n \<Rightarrow>
          if map_of (net_nodes n) nodei = None then raise_errCode (s\<lparr>errCode := -7\<rparr>)
          else if r < 0 \<or> r > 255 \<or> g < 0 \<or> g > 255 \<or> b < 0 \<or> b > 255
          then raise_errCode (s\<lparr>errCode := -12\<rparr>)
          else (Inr (), update_node neti nodei
                          (\<lambda>n. n\<lparr>node_outlineColor := swapped (Some r) (Some g) (Some b) None (node_outlineColor n)\<rparr>)
                          (priv_pushUndoStack s)))"

definition setNodeOutlineColorAlpha :: "int \<Rightarrow> int \<Rightarrow> real \<Rightarrow> iodine \<Rightarrow> (error + unit) \<times> iodine" where
  "setNodeOutlineColorAlpha neti nodei a s0 =
     (let s = s0\<lparr>errCode := 0\<rparr> in
      case map_of (networkDict s) neti of
        None \<Rightarrow> raise_errCode (s\<lparr>errCode := -5\<rparr>)
      | Some n \<Rightarrow>
          if map_of (net_nodes n) nodei = None then raise_errCode (s\<lparr>errCode := -7\<rparr>)
          else if a < 0 \<or> a > 1 then raise_errCode (s\<lparr>errCode := -12\<rparr>)
          else (Inr (), update_node neti nodei
                          (\<lambda>n. n\<lparr>node_outlineColor := swapped None None None (Some \<lfloor>a * 255\<rfloor>) (node_outlineColor n)\<rparr>)
                          (priv_pushUndoStack s)))"

definition setNodeOutlineThickness :: "int \<Rightarrow> int \<Rightarrow> real \<Rightarrow> iodine \<Rightarrow> (error + unit) \<times> iodine" where
  "setNodeOutlineThickness neti nodei thickness s0 =
     (let s = s0\<lparr>errCode := 0\<rparr> in
      case map_of (networkDict s) neti of
        None \<Rightarrow> raise_errCode (s\<lparr>errCode := -5\<rparr>)
      | Some n \<Rightarrow>
          if map_of (net_nodes n) nodei = None then raise_errCode (s\<lparr>errCode := -7\<rparr>)
          else if thickness \<le> 0 then raise_errCode (s\<lparr>errCode := -12\<rparr>)
          else (Inr (), update_node neti nodei (\<lambda>n. n\<lparr>node_outlineThickness := thickness\<rparr>)
                          (priv_pushUndoStack s)))"

text \<open>
  \<open>n.nodes[nodei].font.attr = v\<close>: an assignment to an attribute of the font object of
  a node, seen by every node that refers to the object.
\<close>

definition write_font :: "nat \<Rightarrow> (TFont \<Rightarrow> TFont) \<Rightarrow> iodine \<Rightarrow> iodine" where
  "write_font obj f s =
     s\<lparr>networkDict :=
         map (\<lambda>(neti, n).
                (neti, n\<lparr>net_nodes :=
                           map (\<lambda>(nodei, node).
                                  (nodei, if node_fontObj node = obj
                                          then node\<lparr>node_font := f (node_font node)\<rparr> else node))
                               (net_nodes n)\<rparr>))
             (networkDict s),
       defaultFont := (if defaultFontObj s = obj then f (defaultFont s) else defaultFont s)\<rparr>"

definition fontFamilyDict :: "(string \<times> int) list" where
  "fontFamilyDict = [(''default'', 0), (''decorative'', 1), (''roman'', 2), (''script'', 3),
                     (''swiss'', 4), (''modern'', 5)]"

definition fontStyleDict :: "(string \<times> int) list" where
  "fontStyleDict = [(''normal'', 0), (''italic'', 1)]"

definition fontWeightDict :: "(string \<times> int) list" where
  "fontWeightDict = [(''default'', 0), (''light'', 1), (''bold'', 2)]"

definition setNodeFontPointSize :: "int \<Rightarrow> int \<Rightarrow> int \<Rightarrow> iodine \<Rightarrow> (error + unit) \<times> iodine" where
  "setNodeFontPointSize neti nodei fontPointSize s0 =
     (let s = s0\<lparr>errCode := 0\<rparr> in
      case map_of (networkDict s) neti of
        None \<Rightarrow> raise_errCode (s\<lparr>errCode := -5\<rparr>)
      | Some n \<Rightarrow>
          (case map_of (net_nodes n) nodei of
             None \<Rightarrow> raise_errCode (s\<lparr>errCode := -7\<rparr>)
           | Some node \<Rightarrow>
               if fontPointSize \<le> 0 then raise_errCode (s\<lparr>errCode := -12\<rparr>)
               else (Inr (), write_font (node_fontObj node) (\<lambda>f. f\<lparr>font_pointSize := fontPointSize\<rparr>)
                               (priv_pushUndoStack s))))"

definition setNodeFontFamily :: "int \<Rightarrow> int \<Rightarrow> string \<Rightarrow> iodine \<Rightarrow> (error + unit) \<times> iodine" where
  "setNodeFontFamily neti nodei fontFamily s0 =
     (let s = s0\<lparr>errCode := 0\<rparr> in
      case map_of (networkDict s) neti of
        None \<Rightarrow> raise_errCode (s\<lparr>errCode := -5\<rparr>)
      | Some n \<Rightarrow>
          (case map_of (net_nodes n) nodei of
             None \<Rightarrow> raise_errCode (s\<lparr>errCode := -7\<rparr>)
           | Some node \<Rightarrow>
               if map_of fontFamilyDict fontFamily = None then raise_errCode (s\<lparr>errCode := -12\<rparr>)
               else (Inr (), write_font (node_fontObj node) (\<lambda>f. f\<lparr>font_family := fontFamily\<rparr>)
                               (priv_pushUndoStack s))))"

definition setNodeFontStyle :: "int \<Rightarrow> int \<Rightarrow> string \<Rightarrow> iodine \<Rightarrow> (error + unit) \<times> iodine" where
  "setNodeFontStyle neti nodei fontStyle s0 =
     (let s = s0\<lparr>errCode := 0\<rparr> in
      case map_of (networkDict s) neti of
        None \<Rightarrow> raise_errCode (s\<lparr>errCode := -5\<rparr>)
      | Some n \<Rightarrow>
          (case map_of (net_nodes n) nodei of
             None \<Rightarrow> raise_errCode (s\<lparr>errCode := -7\<rparr>)
           | Some node \<Rightarrow>
               if map_of fontStyleDict fontStyle = None then raise_errCode (s\<lparr>errCode := -12\<rparr>)
               else (Inr (), write_font (node_fontObj node) (\<lambda>f. f\<lparr>font_style := fontStyle\<rparr>)
                               (priv_pushUndoStack s))))"

definition setNodeFontWeight :: "int \<Rightarrow> int \<Rightarrow> string \<Rightarrow> iodine \<Rightarrow> (error + unit) \<times> iodine" where
  "setNodeFontWeight neti nodei fontWeight s0 =
     (let s = s0\<lparr>errCode := 0\<rparr> in
      case map_of (networkDict s) neti of
        None \<Rightarrow> raise_errCode (s\<lparr>errCode := -5\<rparr>)
      | Some n \<Rightarrow>
          (case map_of (net_nodes n) nodei of
             None \<Rightarrow> raise_errCode (s\<lparr>errCode := -7\<rparr>)
           | Some node \<Rightarrow>
               if map_of fontWeightDict fontWeight = None then raise_errCode (s\<lparr>errCode := -12\<rparr>)
               else (Inr (), write_font (node_fontObj node) (\<lambda>f. f\<lparr>font_weight := fontWeight\<rparr>)
                               (priv_pushUndoStack s))))"

definition setNodeFontName :: "int \<Rightarrow> int \<Rightarrow> string \<Rightarrow> iodine \<Rightarrow> (error + unit) \<times> iodine" where
  "setNodeFontName neti nodei fontName s0 =
     (let s = s0\<lparr>errCode := 0\<rparr> in
      case map_of (networkDict s) neti of
        None \<Rightarrow> raise_errCode (s\<lparr>errCode := -5\<rparr>)
      | Some n \<Rightarrow>
          (case map_of (net_nodes n) nodei of
             None \<Rightarrow> raise_errCode (s\<lparr>errCode := -7\<rparr>)
           | Some node \<Rightarrow>
               (Inr (), write_font (node_fontObj node) (\<lambda>f. f\<lparr>font_name := fontName\<rparr>)
                          (priv_pushUndoStack s))))"

definition setNodeFontColorRGB :: "int \<Rightarrow> int \<Rightarrow> int \<Rightarrow> int \<Rightarrow> int \<Rightarrow> iodine \<Rightarrow> (error + unit) \<times> iodine" where
  "setNodeFontColorRGB neti nodei r g b s0 =
     (let s = s0\<lparr>errCode := 0\<rparr> in
      case map_of (networkDict s) neti of
        None \<Rightarrow> raise_errCode (s\<lparr>errCode := -5\<rparr>)
      | Some n \<Rightarrow>
          (case map_of (net_nodes n) nodei of
             None \<Rightarrow> raise_errCode (s\<lparr>errCode := -7\<rparr>)
           | Some node \<Rightarrow>
               if r < 0 \<or> r > 255 \<or> g < 0 \<or> g > 255 \<or> b < 0 \<or> b > 255
               then raise_errCode (s\<lparr>errCode := -12\<rparr>)
               else (Inr (), write_font (node_fontObj node)
                               (\<lambda>f. f\<lparr>font_color := swapped (Some r) (Some g) (Some b) None (font_color f)\<rparr>)
                               (priv_pushUndoStack s))))"

definition setNodeFontColorAlpha :: "int \<Rightarrow> int \<Rightarrow> real \<Rightarrow> iodine \<Rightarrow> (error + unit) \<times> iodine" where
  "setNodeFontColorAlpha neti nodei a s0 =
     (let s = s0\<lparr>errCode := 0\<rparr> in
      case map_of (networkDict s) neti of
        None \<Rightarrow> raise_errCode (s\<lparr>errCode := -5\<rparr>)
      | Some n \<Rightarrow>
          (case map_of (net_nodes n) nodei of
             None \<Rightarrow> raise_errCode (s\<lparr>errCode := -7\<rparr>)
           | Some node \<Rightarrow>
               if a < 0 \<or> a > 1 then raise_errCode (s\<lparr>errCode := -12\<rparr>)
               else (Inr (), write_font (node_fontObj node)
                               (\<lambda>f. f\<lparr>font_color := swapped None None None (Some \<lfloor>a * 255\<rfloor>) (font_color f)\<rparr>)
                               (priv_pushUndoStack s))))"

definition getNodeFontPointSize :: "int \<Rightarrow> int \<Rightarrow> iodine \<Rightarrow> (error + int) \<times> iodine" where
  "getNodeFontPointSize neti nodei s0 =
     (let s = s0\<lparr>errCode := 0\<rparr> in
      case map_of (networkDict s) neti of
        None \<Rightarrow> raise_errCode (s\<lparr>errCode := -5\<rparr>)
      | Some n \<Rightarrow>
          (case map_of (net_nodes n) nodei of
             None \<Rightarrow> raise_errCode (s\<lparr>errCode := -7\<rparr>)
           | Some node \<Rightarrow> (Inr (font_pointSize (node_font node)), s)))"

subsection \<open>Reactions\<close>

definition priv_getReaction :: "int \<Rightarrow> int \<Rightarrow> iodine \<Rightarrow> (error + TReaction) \<times> iodine" where
  "priv_getReaction neti reai s =
     (case priv_getNetwork neti s of
        Inl e \<Rightarrow> (Inl e, s)
      | Inr net \<Rightarrow>
          (case map_of (net_reactions net) reai of
             None \<Rightarrow> priv_raiseError (-6) s
           | Some rea \<Rightarrow> (Inr rea, s)))"

text \<open>In-place mutation of the reaction object \<open>networkDict[neti].reactions[reai]\<close>.\<close>

definition update_reaction :: "int \<Rightarrow> int \<Rightarrow> (TReaction \<Rightarrow> TReaction) \<Rightarrow> iodine \<Rightarrow> iodine" where
  "update_reaction neti reai f s =
     update_net neti (\<lambda>n. n\<lparr>net_reactions := AList.map_entry reai f (net_reactions n)\<rparr>) s"

text \<open>\<open>for k in ks: d[k] = TSpeciesNode(1)\<close> on an empty dict.\<close>

definition species_of :: "int list \<Rightarrow> (int \<times> TSpeciesNode) list" where
  "species_of ks = fold (\<lambda>k d. AList.update k (TSpeciesNode_init 1) d) ks []"

definition createReaction ::
  "int \<Rightarrow> string \<Rightarrow> int list \<Rightarrow> int list \<Rightarrow> iodine \<Rightarrow> (error + unit) \<times> iodine" where
  "createReaction neti reaID sources targets s0 =
     (let s = s0\<lparr>errCode := 0\<rparr> in
      if length sources = 0 \<or> length targets = 0 then (Inl ValueError, s)
      else
        (case priv_getNetwork neti s of
           Inl e \<Rightarrow> (Inl e, s)
         | Inr net \<Rightarrow>
             if list_ex (\<lambda>r. rea_id r = reaID) (map snd (net_reactions net))
             then raise_errCode (s\<lparr>errCode := -3\<rparr>)
             else if list_ex (\<lambda>nodei. map_of (net_nodes net) nodei = None) sources
             then priv_raiseError (-7) s
             else if list_ex (\<lambda>nodei. map_of (net_nodes net) nodei = None) targets
             then priv_raiseError (-7) s
             else if set sources = set targets then (Inl ValueError, s)
             else (Inr (), update_net neti
                             (TNetwork_addReaction
                                ((TReaction_init reaID)\<lparr>rea_reactants := species_of sources,
                                                        rea_products := species_of targets\<rparr>))
                             (priv_pushUndoStack s))))"

definition getReactionIndex :: "int \<Rightarrow> string \<Rightarrow> iodine \<Rightarrow> (error + int) \<times> iodine" where
  "getReactionIndex neti reaID s0 =
     (let s = s0\<lparr>errCode := 0\<rparr> in
      case map_of (networkDict s) neti of
        None \<Rightarrow> raise_errCode (s\<lparr>errCode := -5\<rparr>)
      | Some n \<Rightarrow>
          (case find (\<lambda>(i, r). rea_id r = reaID) (net_reactions n) of
             Some (i, r) \<Rightarrow> (Inr i, s\<lparr>errCode := 0\<rparr>)
           | None \<Rightarrow> raise_errCode (s\<lparr>errCode := -2\<rparr>)))"

text \<open>
  \<open>for k in ks: m[k].remove(index)\<close>: \<open>set.remove\<close> raises \<open>KeyError\<close> when the index is
  not in the set; the flag is False then, and the map is as the loop left it.
\<close>

fun remove_index :: "int \<Rightarrow> int list \<Rightarrow> (int \<Rightarrow> int set) \<Rightarrow> bool \<times> (int \<Rightarrow> int set)" where
  "remove_index index [] m = (True, m)"
| "remove_index index (k # ks) m =
     (if index \<in> m k then remove_index index ks (m(k := m k - {index})) else (False, m))"

definition deleteReaction :: "int \<Rightarrow> int \<Rightarrow> iodine \<Rightarrow> (error + unit) \<times> iodine" where
  "deleteReaction neti reai s0 =
     (let s = s0\<lparr>errCode := 0\<rparr> in
      case map_of (networkDict s) neti of
        None \<Rightarrow> raise_errCode (s\<lparr>errCode := -5\<rparr>)
      | Some net \<Rightarrow>
          (case map_of (net_reactions net) reai of
             None \<Rightarrow> raise_errCode (s\<lparr>errCode := -6\<rparr>)
           | Some reaction \<Rightarrow>
               (let s1 = priv_pushUndoStack s;
                    (ok1, sm) = remove_index reai (map fst (rea_reactants reaction)) (net_srcMap net) in
                if \<not> ok1 then (Inl KeyError, update_net neti (\<lambda>n. n\<lparr>net_srcMap := sm\<rparr>) s1)
                else
                  (let (ok2, dm) = remove_index reai (map fst (rea_products reaction)) (net_destMap net) in
                   if \<not> ok2
                   then (Inl KeyError, update_net neti (\<lambda>n. n\<lparr>net_srcMap := sm, net_destMap := dm\<rparr>) s1)
                   else (Inr (), update_net neti
                                   (\<lambda>n. n\<lparr>net_srcMap := sm, net_destMap := dm,
                                           net_reactions := AList.delete reai (net_reactions n)\<rparr>) s1)))))"

definition clearReactions :: "int \<Rightarrow> iodine \<Rightarrow> (error + unit) \<times> iodine" where
  "clearReactions neti s0 =
     (let s = s0\<lparr>errCode := 0\<rparr> in
      if map_of (networkDict s) neti = None then raise_errCode (s\<lparr>errCode := -5\<rparr>)
      else (Inr (), update_net neti
                      (\<lambda>n. n\<lparr>net_reactions := [], net_srcMap := (\<lambda>_. {}), net_destMap := (\<lambda>_. {})\<rparr>)
                      (priv_pushUndoStack s)))"

definition setReactionID :: "int \<Rightarrow> int \<Rightarrow> string \<Rightarrow> iodine \<Rightarrow> (error + unit) \<times> iodine" where
  "setReactionID neti reai newID s0 =
     (let s = s0\<lparr>errCode := 0\<rparr> in
      case map_of (networkDict s) neti of
        None \<Rightarrow> raise_errCode (s\<lparr>errCode := -5\<rparr>)
      | Some net \<Rightarrow>
          if map_of (net_reactions net) reai = None then raise_errCode (s\<lparr>errCode := -6\<rparr>)
          else if list_ex (\<lambda>r. rea_id r = newID) (map snd (net_reactions net))
          then raise_errCode (s\<lparr>errCode := -3\<rparr>)
          else (Inr (), update_reaction neti reai (\<lambda>r. r\<lparr>rea_id := newID\<rparr>) (priv_pushUndoStack s)))"

definition setRateLaw :: "int \<Rightarrow> int \<Rightarrow> string \<Rightarrow> iodine \<Rightarrow> (error + unit) \<times> iodine" where
  "setRateLaw neti reai rateLaw s0 =
     (let s = s0\<lparr>errCode := 0\<rparr> in
      case map_of (networkDict s) neti of
        None \<Rightarrow> raise_errCode (s\<lparr>errCode := -5\<rparr>)
      | Some net \<Rightarrow>
          if map_of (net_reactions net) reai = None then raise_errCode (s\<lparr>errCode := -6\<rparr>)
          else (Inr (), update_reaction neti reai (\<lambda>r. r\<lparr>rea_rateLaw := rateLaw\<rparr>) (priv_pushUndoStack s)))"

text \<open>\<open>setReactionCenterPos\<close> pushes no snapshot and does not reset \<open>errCode\<close>.\<close>

definition setReactionCenterPos :: "int \<Rightarrow> int \<Rightarrow> Vec2 option \<Rightarrow> iodine \<Rightarrow> (error + unit) \<times> iodine" where
  "setReactionCenterPos neti reai centerPos s =
     (case priv_getReaction neti reai s of
        (Inl e, s') \<Rightarrow> (Inl e, s')
      | (Inr r, s') \<Rightarrow> (Inr (), update_reaction neti reai (\<lambda>r. r\<lparr>rea_centerPos := centerPos\<rparr>) s'))"

definition setReactionSrcNodeStoich :: "int \<Rightarrow> int \<Rightarrow> int \<Rightarrow> real \<Rightarrow> iodine \<Rightarrow> (error + unit) \<times> iodine" where
  "setReactionSrcNodeStoich neti reai srcNodeIdx newStoich s0 =
     (let s = s0\<lparr>errCode := 0\<rparr> in
      case map_of (networkDict s) neti of
        None \<Rightarrow> raise_errCode (s\<lparr>errCode := -5\<rparr>)
      | Some net \<Rightarrow>
          (case map_of (net_reactions net) reai of
             None \<Rightarrow> raise_errCode (s\<lparr>errCode := -6\<rparr>)
           | Some rea \<Rightarrow>
               if map_of (net_nodes net) srcNodeIdx = None then raise_errCode (s\<lparr>errCode := -7\<rparr>)
               else if map_of (rea_reactants rea) srcNodeIdx = None then (Inl ValueError, s)
               else if newStoich \<le> 0 then raise_errCode (s\<lparr>errCode := -8\<rparr>)
               else (Inr (), update_reaction neti reai
                               (\<lambda>r. r\<lparr>rea_reactants :=
                                        AList.map_entry srcNodeIdx (\<lambda>sp. sp\<lparr>sp_stoich := newStoich\<rparr>)
                                          (rea_reactants r)\<rparr>)
                               (priv_pushUndoStack s))))"

definition setReactionDestNodeStoich :: "int \<Rightarrow> int \<Rightarrow> int \<Rightarrow> real \<Rightarrow> iodine \<Rightarrow> (error + unit) \<times> iodine" where
  "setReactionDestNodeStoich neti reai destNodeIdx newStoich s0 =
     (let s = s0\<lparr>errCode := 0\<rparr> in
      case map_of (networkDict s) neti of
        None \<Rightarrow> raise_errCode (s\<lparr>errCode := -5\<rparr>)
      | Some net \<Rightarrow>
          (case map_of (net_reactions net) reai of
             None \<Rightarrow> raise_errCode (s\<lparr>errCode := -6\<rparr>)
           | Some rea \<Rightarrow>
               if map_of (net_nodes net) destNodeIdx = None then raise_errCode (s\<lparr>errCode := -7\<rparr>)
               else if map_of (rea_products rea) destNodeIdx = None then (Inl ValueError, s)
               else if newStoich \<le> 0 then raise_errCode (s\<lparr>errCode := -8\<rparr>)
               else (Inr (), update_reaction neti reai
                               (\<lambda>r. r\<lparr>rea_products :=
                                        AList.map_entry destNodeIdx (\<lambda>sp. sp\<lparr>sp_stoich := newStoich\<rparr>)
                                          (rea_products r)\<rparr>)
                               (priv_pushUndoStack s))))"

definition setReactionSrcNodeHandlePosition ::
  "int \<Rightarrow> int \<Rightarrow> int \<Rightarrow> real \<Rightarrow> real \<Rightarrow> iodine \<Rightarrow> (error + unit) \<times> iodine" where
  "setReactionSrcNodeHandlePosition neti reai srcNodeIdx handlePosX handlePosY s0 =
     (let s = s0\<lparr>errCode := 0\<rparr> in
      case map_of (networkDict s) neti of
        None \<Rightarrow> raise_errCode (s\<lparr>errCode := -5\<rparr>)
      | Some net \<Rightarrow>
          (case map_of (net_reactions net) reai of
             None \<Rightarrow> raise_errCode (s\<lparr>errCode := -6\<rparr>)
           | Some rea \<Rightarrow>
               if map_of (net_nodes net) srcNodeIdx = None then priv_raiseError (-7) s
               else if map_of (rea_reactants rea) srcNodeIdx = None then (Inl ValueError, s)
               else (Inr (), update_reaction neti reai
                               (\<lambda>r. r\<lparr>rea_reactants :=
                                        AList.map_entry srcNodeIdx
                                          (\<lambda>sp. sp\<lparr>sp_handlePos := (handlePosX, handlePosY)\<rparr>)
                                          (rea_reactants r)\<rparr>)
                               (priv_pushUndoStack s))))"

definition setReactionDestNodeHandlePosition ::
  "int \<Rightarrow> int \<Rightarrow> int \<Rightarrow> real \<Rightarrow> real \<Rightarrow> iodine \<Rightarrow> (error + unit) \<times> iodine" where
  "setReactionDestNodeHandlePosition neti reai destNodeIdx handlePosX handlePosY s0 =
     (let s = s0\<lparr>errCode := 0\<rparr> in
      case map_of (networkDict s) neti of
        None \<Rightarrow> raise_errCode (s\<lparr>errCode := -5\<rparr>)
      | Some net \<Rightarrow>
          (case map_of (net_reactions net) reai of
             None \<Rightarrow> raise_errCode (s\<lparr>errCode := -6\<rparr>)
           | Some rea \<Rightarrow>
               if map_of (net_nodes net) destNodeIdx = None then priv_raiseError (-7) s
               else if map_of (rea_products rea) destNodeIdx = None then (Inl ValueError, s)
               else (Inr (), update_reaction neti reai
                               (\<lambda>r. r\<lparr>rea_products :=
                                        AList.map_entry destNodeIdx
                                          (\<lambda>sp. sp\<lparr>sp_handlePos := (handlePosX, handlePosY)\<rparr>)
                                          (rea_products r)\<rparr>)
                               (priv_pushUndoStack s))))"

definition setReactionFillColorRGB :: "int \<Rightarrow> int \<Rightarrow> int \<Rightarrow> int \<Rightarrow> int \<Rightarrow> iodine \<Rightarrow> (error + unit) \<times> iodine" where
  "setReactionFillColorRGB neti reai R G B s0 =
     (let s = s0\<lparr>errCode := 0\<rparr> in
      case map_of (networkDict s) neti of
        None \<Rightarrow> raise_errCode (s\<lparr>errCode := -5\<rparr>)
      | Some net \<Rightarrow>
          if map_of (net_reactions net) reai = None then raise_errCode (s\<lparr>errCode := -6\<rparr>)
          else if R < 0 \<or> R > 255 \<or> G < 0 \<or> G > 255 \<or> B < 0 \<or> B > 255
          then raise_errCode (s\<lparr>errCode := -12\<rparr>)
          else (Inr (), update_reaction neti reai
                          (\<lambda>r. r\<lparr>rea_fillColor := swapped (Some R) (Some G) (Some B) None (rea_fillColor r)\<rparr>)
                          (priv_pushUndoStack s)))"

definition setReactionFillColorAlpha :: "int \<Rightarrow> int \<Rightarrow> real \<Rightarrow> iodine \<Rightarrow> (error + unit) \<times> iodine" where
  "setReactionFillColorAlpha neti reai a s0 =
     (let s = s0\<lparr>errCode := 0\<rparr> in
      case map_of (networkDict s) neti of
        None \<Rightarrow> raise_errCode (s\<lparr>errCode := -5\<rparr>)
      | Some net \<Rightarrow>
          if map_of (net_reactions net) reai = None then raise_errCode (s\<lparr>errCode := -6\<rparr>)
          else if a < 0 \<or> a > 1 then raise_errCode (s\<lparr>errCode := -12\<rparr>)
          else (Inr (), update_reaction neti reai
                          (\<lambda>r. r\<lparr>rea_fillColor := swapped None None None (Some \<lfloor>a * 255\<rfloor>) (rea_fillColor r)\<rparr>)
                          (priv_pushUndoStack s)))"

definition setReactionLineThickness :: "int \<Rightarrow> int \<Rightarrow> real \<Rightarrow> iodine \<Rightarrow> (error + unit) \<times> iodine" where
  "setReactionLineThickness neti reai thickness s0 =
     (let s = s0\<lparr>errCode := 0\<rparr> in
      case map_of (networkDict s) neti of
        None \<Rightarrow> raise_errCode (s\<lparr>errCode := -5\<rparr>)
      | Some net \<Rightarrow>
          if map_of (net_reactions net) reai = None then raise_errCode (s\<lparr>errCode := -6\<rparr>)
          else if thickness \<le> 0 then raise_errCode (s\<lparr>errCode := -12\<rparr>)
          else (Inr (), update_reaction neti reai (\<lambda>r. r\<lparr>rea_thickness := thickness\<rparr>)
                          (priv_pushUndoStack s)))"

definition setReactionBezierCurves :: "int \<Rightarrow> int \<Rightarrow> bool \<Rightarrow> iodine \<Rightarrow> (error + unit) \<times> iodine" where
  "setReactionBezierCurves neti reai bezierCurves s0 =
     (let s = s0\<lparr>errCode := 0\<rparr> in
      case map_of (networkDict s) neti of
        None \<Rightarrow> raise_errCode (s\<lparr>errCode := -5\<rparr>)
      | Some net \<Rightarrow>
          if map_of (net_reactions net) reai = None then raise_errCode (s\<lparr>errCode := -6\<rparr>)
          else (Inr (), update_reaction neti reai (\<lambda>r. r\<lparr>rea_bezierCurves := bezierCurves\<rparr>)
                          (priv_pushUndoStack s)))"

definition setReactionCenterHandlePosition ::
  "int \<Rightarrow> int \<Rightarrow> real \<Rightarrow> real \<Rightarrow> iodine \<Rightarrow> (error + unit) \<times> iodine" where
  "setReactionCenterHandlePosition neti reai centerHandlePosX centerHandlePosY s0 =
     (let s = s0\<lparr>errCode := 0\<rparr> in
      case map_of (networkDict s) neti of
        None \<Rightarrow> raise_errCode (s\<lparr>errCode := -5\<rparr>)
      | Some net \<Rightarrow>
          if map_of (net_reactions net) reai = None then raise_errCode (s\<lparr>errCode := -6\<rparr>)
          else (Inr (), update_reaction neti reai
                          (\<lambda>r. r\<lparr>rea_centerHandlePos := (centerHandlePosX, centerHandlePosY)\<rparr>)
                          (priv_pushUndoStack s)))"

subsection \<open>Compartments\<close>

definition priv_getCompartment :: "int \<Rightarrow> int \<Rightarrow> iodine \<Rightarrow> (error + TCompartment) \<times> iodine" where
  "priv_getCompartment neti ci s =
     (case priv_getNetwork neti s of
        Inl e \<Rightarrow> (Inl e, s)
      | Inr net \<Rightarrow>
          (case map_of (net_compartments net) ci of
             None \<Rightarrow> (Inl CompartmentIndexError, s\<lparr>errCode := -13\<rparr>)
           | Some c \<Rightarrow> (Inr c, s)))"

text \<open>In-place mutation of the compartment object \<open>networkDict[neti].compartments[ci]\<close>.\<close>

definition update_compartment :: "int \<Rightarrow> int \<Rightarrow> (TCompartment \<Rightarrow> TCompartment) \<Rightarrow> iodine \<Rightarrow> iodine" where
  "update_compartment neti ci f s =
     update_net neti (\<lambda>n. n\<lparr>net_compartments := AList.map_entry ci f (net_compartments n)\<rparr>) s"

text \<open>\<open>addCompartment\<close> returns the index of the compartment it added.\<close>

definition addCompartment ::
  "int \<Rightarrow> string \<Rightarrow> real \<Rightarrow> real \<Rightarrow> real \<Rightarrow> real \<Rightarrow> iodine \<Rightarrow> (error + int) \<times> iodine" where
  "addCompartment neti compID x y w h s =
     (if x < 0 \<or> y < 0 \<or> w < 0 \<or> h < 0 then priv_raiseError (-12) s
      else
        (case priv_getNetwork neti s of
           Inl e \<Rightarrow> (Inl e, s)
         | Inr net \<Rightarrow>
             if list_ex (\<lambda>c. compID = comp_id c) (map snd (net_compartments net))
             then priv_raiseError (-3) s
             else (Inr (net_lastCompartmentIdx net),
                   update_net neti (TNetwork_addCompartment (TCompartment_init compID (x, y) (w, h)))
                     (priv_pushUndoStack s))))"

text \<open>
  The loop of \<open>deleteCompartment\<close> over the compartment's node set. Python leaves the
  iteration order of a set open; the model visits the indices in ascending order. The
  order only shows when the loop raises (\<open>net.nodes[nodei]\<close> on a missing node, or the
  \<open>assert\<close>), in what was already moved.
\<close>

fun move_to_base :: "int list \<Rightarrow> int \<Rightarrow> TNetwork \<Rightarrow> error option \<times> TNetwork" where
  "move_to_base [] ci net = (None, net)"
| "move_to_base (nodei # rest) ci net =
     (case map_of (net_nodes net) nodei of
        None \<Rightarrow> (Some KeyError, net)
      | Some node \<Rightarrow>
          if node_compi node \<noteq> ci then (Some AssertionError, net)
          else move_to_base rest ci
                 (net\<lparr>net_nodes := AList.map_entry nodei (\<lambda>n. n\<lparr>node_compi := -1\<rparr>) (net_nodes net),
                      net_baseNodes := insert nodei (net_baseNodes net)\<rparr>))"

definition deleteCompartment :: "int \<Rightarrow> int \<Rightarrow> iodine \<Rightarrow> (error + unit) \<times> iodine" where
  "deleteCompartment neti ci s =
     (case priv_getNetwork neti s of
        Inl e \<Rightarrow> (Inl e, s)
      | Inr net \<Rightarrow>
          (case map_of (net_compartments net) ci of
             None \<Rightarrow> priv_raiseError (-13) s
           | Some c \<Rightarrow>
               (let s1 = priv_pushUndoStack s in
                case move_to_base (sorted_list_of_set (comp_node_indices c)) ci net of
                  (Some e, net') \<Rightarrow> (Inl e, update_net neti (\<lambda>_. net') s1)
                | (None, net') \<Rightarrow>
                    (Inr (), update_net neti
                               (\<lambda>_. net'\<lparr>net_compartments := AList.delete ci (net_compartments net')\<rparr>) s1))))"

definition getCompartmentOfNode :: "int \<Rightarrow> int \<Rightarrow> iodine \<Rightarrow> (error + int) \<times> iodine" where
  "getCompartmentOfNode neti nodei s =
     (case priv_getNetwork neti s of
        Inl e \<Rightarrow> (Inl e, s)
      | Inr net \<Rightarrow>
          (case map_of (net_nodes net) nodei of
             None \<Rightarrow> priv_raiseError (-7) s
           | Some node \<Rightarrow> (Inr (node_compi node), s)))"

text \<open>
  \<open>setCompartmentOfNode\<close>, in the order of the source: the snapshot, the removal from the
  old container, then \<open>_getCompartment\<close> for the new one, then \<open>node.compi\<close>.
\<close>

definition setCompartmentOfNode :: "int \<Rightarrow> int \<Rightarrow> int \<Rightarrow> iodine \<Rightarrow> (error + unit) \<times> iodine" where
  "setCompartmentOfNode neti nodei ci s =
     (case priv_getNetwork neti s of
        Inl e \<Rightarrow> (Inl e, s)
      | Inr net \<Rightarrow>
          (case priv_getNode neti nodei s of
             (Inl e, s') \<Rightarrow> (Inl e, s')
           | (Inr node, s') \<Rightarrow>
               (let s1 = priv_pushUndoStack s';
                    removed =
                      (if node_compi node \<noteq> -1 then
                         (case map_of (net_compartments net) (node_compi node) of
                            None \<Rightarrow> None
                          | Some c \<Rightarrow>
                              if nodei \<in> comp_node_indices c
                              then Some (update_compartment neti (node_compi node)
                                           (\<lambda>c'. c'\<lparr>comp_node_indices := comp_node_indices c' - {nodei}\<rparr>) s1)
                              else None)
                       else if nodei \<in> net_baseNodes net
                       then Some (update_net neti (\<lambda>n. n\<lparr>net_baseNodes := net_baseNodes n - {nodei}\<rparr>) s1)
                       else None) in
                case removed of
                  None \<Rightarrow> (Inl KeyError, s1)
                | Some s2 \<Rightarrow>
                    if ci \<noteq> -1 then
                      (case priv_getCompartment neti ci s2 of
                         (Inl e, s3) \<Rightarrow> (Inl e, s3)
                       | (Inr newComp, s3) \<Rightarrow>
                           (Inr (), update_node neti nodei (\<lambda>n. n\<lparr>node_compi := ci\<rparr>)
                                      (update_compartment neti ci
                                         (\<lambda>c'. c'\<lparr>comp_node_indices := insert nodei (comp_node_indices c')\<rparr>) s3)))
                    else
                      (Inr (), update_node neti nodei (\<lambda>n. n\<lparr>node_compi := ci\<rparr>)
                                 (update_net neti (\<lambda>n. n\<lparr>net_baseNodes := insert nodei (net_baseNodes n)\<rparr>) s2)))))"

text \<open>The compartment setters push the snapshot before \<open>_getCompartment\<close> looks the index up.\<close>

definition setCompartmentPosition :: "int \<Rightarrow> int \<Rightarrow> real \<Rightarrow> real \<Rightarrow> iodine \<Rightarrow> (error + unit) \<times> iodine" where
  "setCompartmentPosition neti ci x y s =
     (if x < 0 \<or> y < 0 then priv_raiseError (-12) s
      else
        (case priv_getCompartment neti ci (priv_pushUndoStack s) of
           (Inl e, s') \<Rightarrow> (Inl e, s')
         | (Inr c, s') \<Rightarrow> (Inr (), update_compartment neti ci (\<lambda>c'. c'\<lparr>comp_position := (x, y)\<rparr>) s')))"

definition setCompartmentSize :: "int \<Rightarrow> int \<Rightarrow> real \<Rightarrow> real \<Rightarrow> iodine \<Rightarrow> (error + unit) \<times> iodine" where
  "setCompartmentSize neti ci w h s =
     (if w < 0 \<or> h < 0 then priv_raiseError (-12) s
      else
        (case priv_getCompartment neti ci (priv_pushUndoStack s) of
           (Inl e, s') \<Rightarrow> (Inl e, s')
         | (Inr c, s') \<Rightarrow> (Inr (), update_compartment neti ci (\<lambda>c'. c'\<lparr>comp_rectSize := (w, h)\<rparr>) s')))"

definition setCompartmentVolume :: "int \<Rightarrow> int \<Rightarrow> real \<Rightarrow> iodine \<Rightarrow> (error + unit) \<times> iodine" where
  "setCompartmentVolume neti ci volume s =
     (case priv_getCompartment neti ci (priv_pushUndoStack s) of
        (Inl e, s') \<Rightarrow> (Inl e, s')
      | (Inr c, s') \<Rightarrow> (Inr (), update_compartment neti ci (\<lambda>c'. c'\<lparr>comp_volume := volume\<rparr>) s'))"

text \<open>\<open>setCompartmentID\<close> compares the new id with no other compartment's.\<close>

definition setCompartmentID :: "int \<Rightarrow> int \<Rightarrow> string \<Rightarrow> iodine \<Rightarrow> (error + unit) \<times> iodine" where
  "setCompartmentID neti ci newID s =
     (case priv_getCompartment neti ci (priv_pushUndoStack s) of
        (Inl e, s') \<Rightarrow> (Inl e, s')
      | (Inr c, s') \<Rightarrow> (Inr (), update_compartment neti ci (\<lambda>c'. c'\<lparr>comp_id := newID\<rparr>) s'))"

definition setCompartmentFillColor :: "int \<Rightarrow> int \<Rightarrow> TColor \<Rightarrow> iodine \<Rightarrow> (error + unit) \<times> iodine" where
  "setCompartmentFillColor neti ci color s =
     (case priv_getCompartment neti ci (priv_pushUndoStack s) of
        (Inl e, s') \<Rightarrow> (Inl e, s')
      | (Inr c, s') \<Rightarrow> (Inr (), update_compartment neti ci (\<lambda>c'. c'\<lparr>comp_fillColor := color\<rparr>) s'))"

definition setCompartmentOutlineColor :: "int \<Rightarrow> int \<Rightarrow> TColor \<Rightarrow> iodine \<Rightarrow> (error + unit) \<times> iodine" where
  "setCompartmentOutlineColor neti ci color s =
     (case priv_getCompartment neti ci (priv_pushUndoStack s) of
        (Inl e, s') \<Rightarrow> (Inl e, s')
      | (Inr c, s') \<Rightarrow> (Inr (), update_compartment neti ci (\<lambda>c'. c'\<lparr>comp_outlineColor := color\<rparr>) s'))"

definition setCompartmentOutlineThickness :: "int \<Rightarrow> int \<Rightarrow> real \<Rightarrow> iodine \<Rightarrow> (error + unit) \<times> iodine" where
  "setCompartmentOutlineThickness neti ci thickness s =
     (case priv_getCompartment neti ci (priv_pushUndoStack s) of
        (Inl e, s') \<Rightarrow> (Inl e, s')
      | (Inr c, s') \<Rightarrow>
          (Inr (), update_compartment neti ci (\<lambda>c'. c'\<lparr>comp_outlineThickness := thickness\<rparr>) s'))"

subsection \<open>Compound operations\<close>

text \<open>Sequencing: an exception ends the function; the state is as the raise left it.\<close>

definition then_do ::
  "(error + 'a) \<times> iodine \<Rightarrow> ('a \<Rightarrow> iodine \<Rightarrow> (error + 'b) \<times> iodine) \<Rightarrow> (error + 'b) \<times> iodine" where
  "then_do m f = (case m of (Inl e, s) \<Rightarrow> (Inl e, s) | (Inr v, s) \<Rightarrow> f v s)"

definition createUniUni ::
  "int \<Rightarrow> string \<Rightarrow> string \<Rightarrow> int \<Rightarrow> int \<Rightarrow> real \<Rightarrow> real \<Rightarrow> iodine \<Rightarrow> (error + unit) \<times> iodine" where
  "createUniUni neti reaID rateLaw srci desti srcStoich destStoich s =
     then_do (createReaction neti reaID [srci] [desti] (startGroup s)) (\<lambda>_ s.
     then_do (getReactionIndex neti reaID s) (\<lambda>reai s.
     then_do (setReactionSrcNodeStoich neti reai srci srcStoich s) (\<lambda>_ s.
     then_do (setReactionDestNodeStoich neti reai desti destStoich s) (\<lambda>_ s.
     then_do (setRateLaw neti reai rateLaw s) (\<lambda>_ s. (Inr (), endGroup s))))))"

definition CreateUniBi ::
  "int \<Rightarrow> string \<Rightarrow> string \<Rightarrow> int \<Rightarrow> int \<Rightarrow> int \<Rightarrow> real \<Rightarrow> real \<Rightarrow> real \<Rightarrow> iodine
     \<Rightarrow> (error + unit) \<times> iodine" where
  "CreateUniBi neti reaID rateLaw srci dest1i dest2i srcStoich dest1Stoich dest2Stoich s =
     then_do (createReaction neti reaID [srci] [dest1i, dest2i] (startGroup s)) (\<lambda>_ s.
     then_do (getReactionIndex neti reaID s) (\<lambda>reai s.
     then_do (setReactionSrcNodeStoich neti reai srci srcStoich s) (\<lambda>_ s.
     then_do (setReactionDestNodeStoich neti reai dest1i dest1Stoich s) (\<lambda>_ s.
     then_do (setReactionDestNodeStoich neti reai dest2i dest2Stoich s) (\<lambda>_ s.
     then_do (setRateLaw neti reai rateLaw s) (\<lambda>_ s. (Inr (), endGroup s)))))))"

definition CreateBiUni ::
  "int \<Rightarrow> string \<Rightarrow> string \<Rightarrow> int \<Rightarrow> int \<Rightarrow> int \<Rightarrow> real \<Rightarrow> real \<Rightarrow> real \<Rightarrow> iodine
     \<Rightarrow> (error + unit) \<times> iodine" where
  "CreateBiUni neti reaID rateLaw src1i src2i desti src1Stoich src2Stoich destStoich s =
     then_do (createReaction neti reaID [src1i, src2i] [desti] (startGroup s)) (\<lambda>_ s.
     then_do (getReactionIndex neti reaID s) (\<lambda>reai s.
     then_do (setReactionSrcNodeStoich neti reai src1i src1Stoich s) (\<lambda>_ s.
     then_do (setReactionSrcNodeStoich neti reai src2i src2Stoich s) (\<lambda>_ s.
     then_do (setReactionDestNodeStoich neti reai desti destStoich s) (\<lambda>_ s.
     then_do (setRateLaw neti reai rateLaw s) (\<lambda>_ s. (Inr (), endGroup s)))))))"

definition CreateBiBi ::
  "int \<Rightarrow> string \<Rightarrow> string \<Rightarrow> int \<Rightarrow> int \<Rightarrow> int \<Rightarrow> int \<Rightarrow> real \<Rightarrow> real \<Rightarrow> real \<Rightarrow> real \<Rightarrow> iodine
     \<Rightarrow> (error + unit) \<times> iodine" where
  "CreateBiBi neti reaID rateLaw src1i src2i dest1i dest2i src1Stoich src2Stoich dest1Stoich dest2Stoich s =
     then_do (createReaction neti reaID [src1i, src2i] [dest1i, dest2i] (startGroup s)) (\<lambda>_ s.
     then_do (getReactionIndex neti reaID s) (\<lambda>reai s.
     then_do (setReactionSrcNodeStoich neti reai src1i src1Stoich s) (\<lambda>_ s.
     then_do (setReactionSrcNodeStoich neti reai src2i src2Stoich s) (\<lambda>_ s.
     then_do (setReactionDestNodeStoich neti reai dest1i dest1Stoich s) (\<lambda>_ s.
     then_do (setReactionDestNodeStoich neti reai dest2i dest2Stoich s) (\<lambda>_ s.
     then_do (setRateLaw neti reai rateLaw s) (\<lambda>_ s. (Inr (), endGroup s))))))))"

subsection \<open>Serialization\<close>

text \<open>
  \<open>dumpNetwork\<close> and \<open>loadNetwork\<close> go through the marshmallow schemas declared in the
  module. The library is not part of the repository; the model follows its documented
  rules: \<open>Schema.dump\<close> reads each declared field from the attribute of the same name and
  writes no key for a field whose attribute the object lacks; \<open>Schema.load\<close> runs each
  field's validators and hands the loaded fields to \<open>post_load\<close> as keyword arguments.
  The objects below have exactly the keys that \<open>dump\<close> writes:
  \<^item> \<open>NodeSchema.compartment\<close> finds no attribute \<open>compartment\<close> on a \<open>TNode\<close> (the
    attribute is \<open>compi\<close>), and no schema field reads \<open>font\<close>;
  \<^item> \<open>CompartmentSchema.nodes\<close> finds no attribute \<open>nodes\<close> on a \<open>TCompartment\<close> (the
    attribute is \<open>node_indices\<close>);
  \<^item> \<open>ReactionSchema\<close> declares no field for \<open>centerPos\<close> or \<open>bezierCurves\<close>.
\<close>

record NodeObj =
  jn_id :: string
  jn_position :: Vec2
  jn_rectSize :: Vec2
  jn_floating :: bool
  jn_fillColor :: "int list"
  jn_outlineColor :: "int list"
  jn_outlineThickness :: real

record SpeciesObj =
  js_stoich :: real
  js_handlePos :: Vec2

record ReactionObj =
  jr_id :: string
  jr_rateLaw :: string
  jr_reactants :: "(int \<times> SpeciesObj) list"
  jr_products :: "(int \<times> SpeciesObj) list"
  jr_fillColor :: "int list"
  jr_thickness :: real
  jr_centerHandlePos :: Vec2

record CompartmentObj =
  jc_id :: string
  jc_position :: Vec2
  jc_rectSize :: Vec2
  jc_volume :: real
  jc_fillColor :: "int list"
  jc_outlineColor :: "int list"
  jc_outlineThickness :: real

record NetworkObj =
  jnet_id :: string
  jnet_nodes :: "(int \<times> NodeObj) list"
  jnet_reactions :: "(int \<times> ReactionObj) list"
  jnet_compartments :: "(int \<times> CompartmentObj) list"

definition Color_serialize :: "TColor \<Rightarrow> int list" where
  "Color_serialize c = [col_r c, col_g c, col_b c] @ (if col_a c \<noteq> 255 then [col_a c] else [])"

definition Color_deserialize :: "int list \<Rightarrow> error + TColor" where
  "Color_deserialize v =
     (if \<not> (3 \<le> length v \<and> length v \<le> 4) then Inl ValidationError
      else if list_ex (\<lambda>val. val < 0 \<or> val > 255) v then Inl ValidationError
      else (case v of
              [r, g, b] \<Rightarrow> Inr (mkTColor r g b 255)
            | [r, g, b, a] \<Rightarrow> Inr (mkTColor r g b a)
            | _ \<Rightarrow> Inl ValidationError))"

text \<open>\<open>Dim\<close>: a float field with \<open>validate.Range(min=0)\<close>.\<close>

definition Dim_deserialize :: "real \<Rightarrow> error + real" where
  "Dim_deserialize v = (if v < 0 then Inl ValidationError else Inr v)"

definition dump_node :: "TNode \<Rightarrow> NodeObj" where
  "dump_node n =
     \<lparr>jn_id = node_id n, jn_position = node_position n, jn_rectSize = node_rectSize n,
      jn_floating = node_floating n, jn_fillColor = Color_serialize (node_fillColor n),
      jn_outlineColor = Color_serialize (node_outlineColor n),
      jn_outlineThickness = node_outlineThickness n\<rparr>"

definition dump_species :: "TSpeciesNode \<Rightarrow> SpeciesObj" where
  "dump_species sp = \<lparr>js_stoich = sp_stoich sp, js_handlePos = sp_handlePos sp\<rparr>"

definition dump_reaction :: "TReaction \<Rightarrow> ReactionObj" where
  "dump_reaction r =
     \<lparr>jr_id = rea_id r, jr_rateLaw = rea_rateLaw r,
      jr_reactants = map (\<lambda>(k, sp). (k, dump_species sp)) (rea_reactants r),
      jr_products = map (\<lambda>(k, sp). (k, dump_species sp)) (rea_products r),
      jr_fillColor = Color_serialize (rea_fillColor r), jr_thickness = rea_thickness r,
      jr_centerHandlePos = rea_centerHandlePos r\<rparr>"

definition dump_compartment :: "TCompartment \<Rightarrow> CompartmentObj" where
  "dump_compartment c =
     \<lparr>jc_id = comp_id c, jc_position = comp_position c, jc_rectSize = comp_rectSize c,
      jc_volume = comp_volume c, jc_fillColor = Color_serialize (comp_fillColor c),
      jc_outlineColor = Color_serialize (comp_outlineColor c),
      jc_outlineThickness = comp_outlineThickness c\<rparr>"

definition net_schema_dump :: "TNetwork \<Rightarrow> NetworkObj" where
  "net_schema_dump net =
     \<lparr>jnet_id = net_id net,
      jnet_nodes = map (\<lambda>(k, n). (k, dump_node n)) (net_nodes net),
      jnet_reactions = map (\<lambda>(k, r). (k, dump_reaction r)) (net_reactions net),
      jnet_compartments = map (\<lambda>(k, c). (k, dump_compartment c)) (net_compartments net)\<rparr>"

definition dumpNetwork :: "int \<Rightarrow> iodine \<Rightarrow> error + NetworkObj" where
  "dumpNetwork neti s =
     (case priv_getNetwork neti s of Inl e \<Rightarrow> Inl e | Inr net \<Rightarrow> Inr (net_schema_dump net))"

text \<open>\<open>post_load\<close> builds the object from the loaded keys; every other field takes the
  default of its dataclass, the font of a node being the class default object.\<close>

definition load_node :: "iodine \<Rightarrow> NodeObj \<Rightarrow> error + TNode" where
  "load_node s obj =
     (case Color_deserialize (jn_fillColor obj) of
        Inl e \<Rightarrow> Inl e
      | Inr fc \<Rightarrow>
          (case Color_deserialize (jn_outlineColor obj) of
             Inl e \<Rightarrow> Inl e
           | Inr oc \<Rightarrow>
               (case Dim_deserialize (jn_outlineThickness obj) of
                  Inl e \<Rightarrow> Inl e
                | Inr ot \<Rightarrow>
                    Inr ((TNode_new s (jn_id obj) (jn_position obj) (jn_rectSize obj) (jn_floating obj))
                           \<lparr>node_fillColor := fc, node_outlineColor := oc,
                            node_outlineThickness := ot\<rparr>))))"

definition load_species :: "SpeciesObj \<Rightarrow> TSpeciesNode" where
  "load_species obj = \<lparr>sp_stoich = js_stoich obj, sp_handlePos = js_handlePos obj\<rparr>"

text \<open>A mapping field: every value is loaded; one failure fails the load.\<close>

fun load_mapping :: "('a \<Rightarrow> error + 'b) \<Rightarrow> (int \<times> 'a) list \<Rightarrow> error + (int \<times> 'b) list" where
  "load_mapping f [] = Inr []"
| "load_mapping f ((k, v) # rest) =
     (case f v of
        Inl e \<Rightarrow> Inl e
      | Inr v' \<Rightarrow> (case load_mapping f rest of Inl e \<Rightarrow> Inl e | Inr rest' \<Rightarrow> Inr ((k, v') # rest')))"

definition load_reaction :: "ReactionObj \<Rightarrow> error + TReaction" where
  "load_reaction obj =
     (case Color_deserialize (jr_fillColor obj) of
        Inl e \<Rightarrow> Inl e
      | Inr fc \<Rightarrow>
          (case Dim_deserialize (jr_thickness obj) of
             Inl e \<Rightarrow> Inl e
           | Inr th \<Rightarrow>
               Inr ((TReaction_init (jr_id obj))
                      \<lparr>rea_rateLaw := jr_rateLaw obj,
                       rea_reactants := map (\<lambda>(k, sp). (k, load_species sp)) (jr_reactants obj),
                       rea_products := map (\<lambda>(k, sp). (k, load_species sp)) (jr_products obj),
                       rea_fillColor := fc, rea_thickness := th,
                       rea_centerHandlePos := jr_centerHandlePos obj\<rparr>)))"

definition load_compartment :: "CompartmentObj \<Rightarrow> error + TCompartment" where
  "load_compartment obj =
     (case Dim_deserialize (jc_volume obj) of
        Inl e \<Rightarrow> Inl e
      | Inr vol \<Rightarrow>
          (case Color_deserialize (jc_fillColor obj) of
             Inl e \<Rightarrow> Inl e
           | Inr fc \<Rightarrow>
               (case Color_deserialize (jc_outlineColor obj) of
                  Inl e \<Rightarrow> Inl e
                | Inr oc \<Rightarrow>
                    (case Dim_deserialize (jc_outlineThickness obj) of
                       Inl e \<Rightarrow> Inl e
                     | Inr ot \<Rightarrow>
                         Inr ((TCompartment_init (jc_id obj) (jc_position obj) (jc_rectSize obj))
                                \<lparr>comp_volume := vol, comp_fillColor := fc, comp_outlineColor := oc,
                                 comp_outlineThickness := ot\<rparr>)))))"

definition net_schema_load :: "iodine \<Rightarrow> NetworkObj \<Rightarrow> error + TNetwork" where
  "net_schema_load s obj =
     (case load_mapping (load_node s) (jnet_nodes obj) of
        Inl e \<Rightarrow> Inl e
      | Inr ns \<Rightarrow>
          (case load_mapping load_reaction (jnet_reactions obj) of
             Inl e \<Rightarrow> Inl e
           | Inr rs \<Rightarrow>
               (case load_mapping load_compartment (jnet_compartments obj) of
                  Inl e \<Rightarrow> Inl e
                | Inr cs \<Rightarrow> Inr (TNetwork_init (jnet_id obj) ns rs cs))))"

definition loadNetwork :: "NetworkObj \<Rightarrow> iodine \<Rightarrow> (error + int) \<times> iodine" where
  "loadNetwork net_object s =
     (case net_schema_load s net_object of
        Inl e \<Rightarrow> (Inl e, s)
      | Inr net \<Rightarrow> then_do (priv_addNetwork net (clearNetworks s)) (\<lambda>_ s'. (Inr 0, s')))"

subsection \<open>Getters used below\<close>

definition getNumberOfNodes :: "int \<Rightarrow> iodine \<Rightarrow> (error + nat) \<times> iodine" where
  "getNumberOfNodes neti s0 =
     (let s = s0\<lparr>errCode := 0\<rparr> in
      case map_of (networkDict s) neti of
        None \<Rightarrow> raise_errCode (s\<lparr>errCode := -5\<rparr>)
      | Some n \<Rightarrow> (Inr (length (net_nodes n)), s))"

subsection \<open>Sequences of calls\<close>

text \<open>
  The mutating calls of the API, one constructor per modelled function, and the state a
  call leaves behind, whether it returned or raised.
\<close>

datatype net_op =
    Op_newNetwork string
  | Op_deleteNetwork int
  | Op_clearNetworks
  | Op_clearNetwork int
  | Op_loadNetwork NetworkObj

primrec apply_net_op :: "net_op \<Rightarrow> iodine \<Rightarrow> iodine" where
  "apply_net_op (Op_newNetwork i) s =
     snd (newNetwork i s)"
| "apply_net_op (Op_deleteNetwork neti) s =
     snd (deleteNetwork neti s)"
| "apply_net_op Op_clearNetworks s =
     clearNetworks s"
| "apply_net_op (Op_clearNetwork neti) s =
     snd (clearNetwork neti s)"
| "apply_net_op (Op_loadNetwork obj) s =
     snd (loadNetwork obj s)"

datatype node_op =
    Op_addNode int string real real real real bool
  | Op_deleteNode int int
  | Op_setNodeID int int string
  | Op_setNodeCoordinate int int real real bool
  | Op_setNodeSize int int real real
  | Op_setNodeFloatingStatus int int bool
  | Op_setNodeFillColorRGB int int int int int
  | Op_setNodeFillColorAlpha int int real
  | Op_setNodeOutlineColorRGB int int int int int
  | Op_setNodeOutlineColorAlpha int int real
  | Op_setNodeOutlineThickness int int real
  | Op_setNodeFontPointSize int int int
  | Op_setNodeFontFamily int int string
  | Op_setNodeFontStyle int int string
  | Op_setNodeFontWeight int int string
  | Op_setNodeFontName int int string
  | Op_setNodeFontColorRGB int int int int int
  | Op_setNodeFontColorAlpha int int real

primrec apply_node_op :: "node_op \<Rightarrow> iodine \<Rightarrow> iodine" where
  "apply_node_op (Op_addNode neti i x y w h fl) s =
     snd (addNode neti i x y w h fl s)"
| "apply_node_op (Op_deleteNode neti nodei) s =
     snd (deleteNode neti nodei s)"
| "apply_node_op (Op_setNodeID neti nodei i) s =
     snd (setNodeID neti nodei i s)"
| "apply_node_op (Op_setNodeCoordinate neti nodei x y neg) s =
     snd (setNodeCoordinate neti nodei x y neg s)"
| "apply_node_op (Op_setNodeSize neti nodei w h) s =
     snd (setNodeSize neti nodei w h s)"
| "apply_node_op (Op_setNodeFloatingStatus neti nodei fl) s =
     snd (setNodeFloatingStatus neti nodei fl s)"
| "apply_node_op (Op_setNodeFillColorRGB neti nodei r g b) s =
     snd (setNodeFillColorRGB neti nodei r g b s)"
| "apply_node_op (Op_setNodeFillColorAlpha neti nodei a) s =
     snd (setNodeFillColorAlpha neti nodei a s)"
| "apply_node_op (Op_setNodeOutlineColorRGB neti nodei r g b) s =
     snd (setNodeOutlineColorRGB neti nodei r g b s)"
| "apply_node_op (Op_setNodeOutlineColorAlpha neti nodei a) s =
     snd (setNodeOutlineColorAlpha neti nodei a s)"
| "apply_node_op (Op_setNodeOutlineThickness neti nodei t) s =
     snd (setNodeOutlineThickness neti nodei t s)"
| "apply_node_op (Op_setNodeFontPointSize neti nodei v) s =
     snd (setNodeFontPointSize neti nodei v s)"
| "apply_node_op (Op_setNodeFontFamily neti nodei v) s =
     snd (setNodeFontFamily neti nodei v s)"
| "apply_node_op (Op_setNodeFontStyle neti nodei v) s =
     snd (setNodeFontStyle neti nodei v s)"
| "apply_node_op (Op_setNodeFontWeight neti nodei v) s =
     snd (setNodeFontWeight neti nodei v s)"
| "apply_node_op (Op_setNodeFontName neti nodei v) s =
     snd (setNodeFontName neti nodei v s)"
| "apply_node_op (Op_setNodeFontColorRGB neti nodei r g b) s =
     snd (setNodeFontColorRGB neti nodei r g b s)"
| "apply_node_op (Op_setNodeFontColorAlpha neti nodei a) s =
     snd (setNodeFontColorAlpha neti nodei a s)"

datatype reaction_op =
    Op_createReaction int string "int list" "int list"
  | Op_deleteReaction int int
  | Op_clearReactions int
  | Op_setReactionID int int string
  | Op_setRateLaw int int string
  | Op_setReactionCenterPos int int "Vec2 option"
  | Op_setReactionSrcNodeStoich int int int real
  | Op_setReactionDestNodeStoich int int int real
  | Op_setReactionSrcNodeHandlePosition int int int real real
  | Op_setReactionDestNodeHandlePosition int int int real real
  | Op_setReactionFillColorRGB int int int int int
  | Op_setReactionFillColorAlpha int int real
  | Op_setReactionLineThickness int int real
  | Op_setReactionBezierCurves int int bool
  | Op_setReactionCenterHandlePosition int int real real

primrec apply_reaction_op :: "reaction_op \<Rightarrow> iodine \<Rightarrow> iodine" where
  "apply_reaction_op (Op_createReaction neti i srcs tgts) s =
     snd (createReaction neti i srcs tgts s)"
| "apply_reaction_op (Op_deleteReaction neti reai) s =
     snd (deleteReaction neti reai s)"
| "apply_reaction_op (Op_clearReactions neti) s =
     snd (clearReactions neti s)"
| "apply_reaction_op (Op_setReactionID neti reai i) s =
     snd (setReactionID neti reai i s)"
| "apply_reaction_op (Op_setRateLaw neti reai l) s =
     snd (setRateLaw neti reai l s)"
| "apply_reaction_op (Op_setReactionCenterPos neti reai p) s =
     snd (setReactionCenterPos neti reai p s)"
| "apply_reaction_op (Op_setReactionSrcNodeStoich neti reai n st) s =
     snd (setReactionSrcNodeStoich neti reai n st s)"
| "apply_reaction_op (Op_setReactionDestNodeStoich neti reai n st) s =
     snd (setReactionDestNodeStoich neti reai n st s)"
| "apply_reaction_op (Op_setReactionSrcNodeHandlePosition neti reai n x y) s =
     snd (setReactionSrcNodeHandlePosition neti reai n x y s)"
| "apply_reaction_op (Op_setReactionDestNodeHandlePosition neti reai n x y) s =
     snd (setReactionDestNodeHandlePosition neti reai n x y s)"
| "apply_reaction_op (Op_setReactionFillColorRGB neti reai r g b) s =
     snd (setReactionFillColorRGB neti reai r g b s)"
| "apply_reaction_op (Op_setReactionFillColorAlpha neti reai a) s =
     snd (setReactionFillColorAlpha neti reai a s)"
| "apply_reaction_op (Op_setReactionLineThickness neti reai t) s =
     snd (setReactionLineThickness neti reai t s)"
| "apply_reaction_op (Op_setReactionBezierCurves neti reai bz) s =
     snd (setReactionBezierCurves neti reai bz s)"
| "apply_reaction_op (Op_setReactionCenterHandlePosition neti reai x y) s =
     snd (setReactionCenterHandlePosition neti reai x y s)"

datatype compartment_op =
    Op_addCompartment int string real real real real
  | Op_deleteCompartment int int
  | Op_setCompartmentOfNode int int int
  | Op_setCompartmentPosition int int real real
  | Op_setCompartmentSize int int real real
  | Op_setCompartmentVolume int int real
  | Op_setCompartmentID int int string
  | Op_setCompartmentFillColor int int TColor
  | Op_setCompartmentOutlineColor int int TColor
  | Op_setCompartmentOutlineThickness int int real

primrec apply_compartment_op :: "compartment_op \<Rightarrow> iodine \<Rightarrow> iodine" where
  "apply_compartment_op (Op_addCompartment neti i x y w h) s =
     snd (addCompartment neti i x y w h s)"
| "apply_compartment_op (Op_deleteCompartment neti ci) s =
     snd (deleteCompartment neti ci s)"
| "apply_compartment_op (Op_setCompartmentOfNode neti nodei ci) s =
     snd (setCompartmentOfNode neti nodei ci s)"
| "apply_compartment_op (Op_setCompartmentPosition neti ci x y) s =
     snd (setCompartmentPosition neti ci x y s)"
| "apply_compartment_op (Op_setCompartmentSize neti ci w h) s =
     snd (setCompartmentSize neti ci w h s)"
| "apply_compartment_op (Op_setCompartmentVolume neti ci v) s =
     snd (setCompartmentVolume neti ci v s)"
| "apply_compartment_op (Op_setCompartmentID neti ci i) s =
     snd (setCompartmentID neti ci i s)"
| "apply_compartment_op (Op_setCompartmentFillColor neti ci c) s =
     snd (setCompartmentFillColor neti ci c s)"
| "apply_compartment_op (Op_setCompartmentOutlineColor neti ci c) s =
     snd (setCompartmentOutlineColor neti ci c s)"
| "apply_compartment_op (Op_setCompartmentOutlineThickness neti ci t) s =
     snd (setCompartmentOutlineThickness neti ci t s)"

datatype op = Net net_op | Node node_op | Reaction reaction_op | Compartment compartment_op

primrec apply_op :: "op \<Rightarrow> iodine \<Rightarrow> iodine" where
  "apply_op (Net m) s = apply_net_op m s"
| "apply_op (Node m) s = apply_node_op m s"
| "apply_op (Reaction m) s = apply_reaction_op m s"
| "apply_op (Compartment m) s = apply_compartment_op m s"


text \<open>
  Every call of the module that changes its state: the mutating calls, the compound
  operations, and the history calls.
\<close>

datatype call =
    Mutate op
  | Undo
  | Redo
  | StartGroup
  | EndGroup
  | Reset
  | Call_createUniUni int string string int int real real
  | Call_CreateUniBi int string string int int int real real real
  | Call_CreateBiUni int string string int int int real real real
  | Call_CreateBiBi int string string int int int int real real real real

primrec apply_call :: "call \<Rightarrow> iodine \<Rightarrow> iodine" where
  "apply_call (Mutate m) s = apply_op m s"
| "apply_call Undo s = snd (undo s)"
| "apply_call Redo s = snd (redo s)"
| "apply_call StartGroup s = startGroup s"
| "apply_call EndGroup s = endGroup s"
| "apply_call Reset s = reset_globals s"
| "apply_call (Call_createUniUni neti i l a b sa sb) s = snd (createUniUni neti i l a b sa sb s)"
| "apply_call (Call_CreateUniBi neti i l a b c sa sb sc) s = snd (CreateUniBi neti i l a b c sa sb sc s)"
| "apply_call (Call_CreateBiUni neti i l a b c sa sb sc) s = snd (CreateBiUni neti i l a b c sa sb sc s)"
| "apply_call (Call_CreateBiBi neti i l a b c d sa sb sc sd) s =
     snd (CreateBiBi neti i l a b c d sa sb sc sd s)"

definition run_calls :: "call list \<Rightarrow> iodine \<Rightarrow> iodine" where
  "run_calls cs s = fold apply_call cs s"

subsection \<open>Stated properties of a network\<close>

text \<open>
  A node sits in the container its \<open>compi\<close> names: the base set for \<open>-1\<close>, the node set
  of the compartment with that index otherwise.
\<close>

definition in_own_container :: "TNetwork \<Rightarrow> int \<Rightarrow> TNode \<Rightarrow> bool" where
  "in_own_container net i n =
     (if node_compi n = -1 then i \<in> net_baseNodes net
      else (case map_of (net_compartments net) (node_compi n) of
              None \<Rightarrow> False
            | Some c \<Rightarrow> i \<in> comp_node_indices c))"

text \<open>A node sits in the container its \<open>compi\<close> names and in no other.\<close>

definition node_placed :: "TNetwork \<Rightarrow> int \<Rightarrow> TNode \<Rightarrow> bool" where
  "node_placed net i n =
     (in_own_container net i n
      \<and> (if node_compi n = -1
         then \<not> list_ex (\<lambda>(ci, c). i \<in> comp_node_indices c) (net_compartments net)
         else i \<notin> net_baseNodes net
              \<and> list_all (\<lambda>(ci, c). (i \<in> comp_node_indices c) = (ci = node_compi n))
                   (net_compartments net)))"

text \<open>
  The partition of the spec: every node is in exactly the container its \<open>compi\<close> names,
  and the containers hold indices of existing nodes only.
\<close>

definition partition_ok :: "TNetwork \<Rightarrow> bool" where
  "partition_ok net =
     (list_all (\<lambda>(i, n). node_placed net i n) (net_nodes net)
      \<and> net_baseNodes net \<subseteq> fst ` set (net_nodes net)
      \<and> list_all (\<lambda>(ci, c). comp_node_indices c \<subseteq> fst ` set (net_nodes net)) (net_compartments net))"

text \<open>What a full scan of a reactions map yields for one node index.\<close>

definition scan_src :: "(int \<times> TReaction) list \<Rightarrow> int \<Rightarrow> int set" where
  "scan_src rs n = {i. \<exists>r. map_of rs i = Some r \<and> n \<in> fst ` set (rea_reactants r)}"

definition scan_dest :: "(int \<times> TReaction) list \<Rightarrow> int \<Rightarrow> int set" where
  "scan_dest rs n = {i. \<exists>r. map_of rs i = Some r \<and> n \<in> fst ` set (rea_products r)}"

text \<open>A call that raised left the registry as it was.\<close>

definition atomic_failure :: "(error + 'a) \<times> iodine \<Rightarrow> iodine \<Rightarrow> bool" where
  "atomic_failure r s = (case fst r of Inl e \<Rightarrow> networkDict (snd r) = networkDict s | Inr v \<Rightarrow> True)"

text \<open>The history part of the state is the same in two states.\<close>

definition same_history :: "iodine \<Rightarrow> iodine \<Rightarrow> bool" where
  "same_history s s' = (stackFlag s' = stackFlag s \<and> netSetStack s' = netSetStack s \<and> redoStack s' = redoStack s)"



text \<open>The keys of a Python dict are distinct.\<close>

definition reaction_keys_ok :: "TReaction \<Rightarrow> bool" where
  "reaction_keys_ok r = (distinct (map fst (rea_reactants r)) \<and> distinct (map fst (rea_products r)))"

text \<open>Both indices of a network read, at every node index, what the full scan yields.\<close>

definition indices_ok :: "TNetwork \<Rightarrow> bool" where
  "indices_ok net =
     (\<forall>n. net_srcMap net n = scan_src (net_reactions net) n
          \<and> net_destMap net n = scan_dest (net_reactions net) n)"

text \<open>
  The invariant that carries the indices through the calls: the indices are right, the
  reaction indices are distinct and below the counter that \<open>addReaction\<close> takes the next
  one from, and every reaction has distinct reactant and product keys.
\<close>

definition net_inv :: "TNetwork \<Rightarrow> bool" where
  "net_inv net =
     (indices_ok net
      \<and> distinct (map fst (net_reactions net))
      \<and> list_all (\<lambda>(i, r). i < net_lastReactionIdx net \<and> reaction_keys_ok r) (net_reactions net))"

definition dict_inv :: "TNetworkDict \<Rightarrow> bool" where
  "dict_inv d = list_all (\<lambda>(i, net). net_inv net) d"

definition state_inv :: "iodine \<Rightarrow> bool" where
  "state_inv s = (dict_inv (networkDict s) \<and> list_all dict_inv (netSetStack s) \<and> list_all dict_inv (redoStack s))"

text \<open>
  An object handed to \<open>loadNetwork\<close> is a Python dict of dicts; in the association-list
  model that is the distinctness of the reaction keys and of each reaction's species keys.
\<close>

definition obj_keys_ok :: "NetworkObj \<Rightarrow> bool" where
  "obj_keys_ok obj =
     (distinct (map fst (jnet_reactions obj))
      \<and> list_all (\<lambda>(k, r). distinct (map fst (jr_reactants r)) \<and> distinct (map fst (jr_products r)))
           (jnet_reactions obj))"

fun call_ok :: "call \<Rightarrow> bool" where
  "call_ok (Mutate (Net (Op_loadNetwork obj))) = obj_keys_ok obj"
| "call_ok _ = True"

text \<open>
  The font objects of a registry value, as pairs of a name and a value, and what the
  names mean: no name stands for two values, and no name is beyond that of the class
  default. In a state this is to hold of the registry together with the class default,
  and of every snapshot on the two stacks.
\<close>

definition node_cells :: "(int \<times> TNode) list \<Rightarrow> (nat \<times> TFont) set" where
  "node_cells ns = (\<lambda>(k, node). (node_fontObj node, node_font node)) ` set ns"

definition font_cells :: "TNetworkDict \<Rightarrow> (nat \<times> TFont) set" where
  "font_cells d = (\<Union>(i, n) \<in> set d. node_cells (net_nodes n))"

definition cells_ok :: "nat \<Rightarrow> (nat \<times> 'a) set \<Rightarrow> bool" where
  "cells_ok k C = ((\<forall>a v w. (a, v) \<in> C \<longrightarrow> (a, w) \<in> C \<longrightarrow> v = w) \<and> (\<forall>a v. (a, v) \<in> C \<longrightarrow> a \<le> k))"

definition font_inv :: "iodine \<Rightarrow> bool" where
  "font_inv s =
     (cells_ok (defaultFontObj s) (insert (defaultFontObj s, defaultFont s) (font_cells (networkDict s)))
      \<and> list_all (\<lambda>d. cells_ok (defaultFontObj s) (font_cells d)) (netSetStack s)
      \<and> list_all (\<lambda>d. cells_ok (defaultFontObj s) (font_cells d)) (redoStack s))"

subsection \<open>Example states\<close>

definition state_one_node :: iodine where
  "state_one_node = snd (addNode 0 ''A'' 0 0 10 10 False (snd (newNetwork ''net'' reset)))"

definition state_two_nodes :: iodine where
  "state_two_nodes = snd (addNode 0 ''B'' 20 0 10 10 False state_one_node)"

definition state_with_reaction :: iodine where
  "state_with_reaction = snd (createReaction 0 ''r'' [0] [1] state_two_nodes)"

definition state_with_compartment :: iodine where
  "state_with_compartment = snd (addCompartment 0 ''C'' 0 0 100 100 state_one_node)"

definition state_node_in_compartment :: iodine where
  "state_node_in_compartment = snd (setCompartmentOfNode 0 0 0 state_with_compartment)"

definition state_full :: iodine where
  "state_full = snd (addCompartment 0 ''C'' 0 0 100 100 state_with_reaction)"


definition state_two_compartments :: iodine where
  "state_two_compartments = snd (addCompartment 0 ''D'' 0 0 50 50 state_with_compartment)"

text \<open>The state that the raising call \<open>setCompartmentOfNode(0, 0, 7)\<close> leaves.\<close>

definition state_node_nowhere :: iodine where
  "state_node_nowhere = snd (setCompartmentOfNode 0 0 7 state_one_node)"




text \<open>Node 0 got the point size 30; then the call was undone.\<close>

definition state_font_set :: iodine where
  "state_font_set = snd (setNodeFontPointSize 0 0 30 state_two_nodes)"

definition state_font_undone :: iodine where
  "state_font_undone = snd (undo state_font_set)"

section \<open>Properties\<close>

subsection \<open>Evaluation rules\<close>

lemmas eval_defs =
  reset_def raise_errCode_def ExceptionDict_def priv_raiseError_def priv_pushUndoStack_def
  undo_def redo_def startGroup_def endGroup_def
  priv_getNetwork_def update_net_def newNetwork_def deleteNetwork_def clearNetworks_def
  clearNetwork_def priv_addNetwork_def
  mkTColor_def swapped_def TFont_init_def TNode_init_def TSpeciesNode_init_def TReaction_init_def
  TCompartment_init_def py_max_def add_index_def TNetwork_init_def TNetwork_addNode_def
  TNetwork_addReaction_def TNetwork_addCompartment_def
  TNode_new_def priv_getNode_def update_node_def addNode_def
  priv_getReaction_def update_reaction_def species_of_def createReaction_def
  priv_getCompartment_def update_compartment_def addCompartment_def setCompartmentOfNode_def
  then_do_def Let_def

lemmas example_defs =
  state_one_node_def state_two_nodes_def state_with_reaction_def state_with_compartment_def
  state_node_in_compartment_def state_two_compartments_def state_full_def
  state_font_set_def state_font_undone_def

lemmas ser_defs = dumpNetwork_def net_schema_dump_def dump_node_def dump_reaction_def dump_compartment_def
  dump_species_def Color_serialize_def Color_deserialize_def Dim_deserialize_def load_node_def
  load_reaction_def load_compartment_def load_species_def net_schema_load_def loadNetwork_def

lemma raise_errCode_simps:
  "raise_errCode (s\<lparr>errCode := -2\<rparr>) = (Inl IDNotFoundError, s\<lparr>errCode := -2\<rparr>)"
  "raise_errCode (s\<lparr>errCode := -3\<rparr>) = (Inl IDRepeatError, s\<lparr>errCode := -3\<rparr>)"
  "raise_errCode (s\<lparr>errCode := -4\<rparr>) = (Inl NodeNotFreeError, s\<lparr>errCode := -4\<rparr>)"
  "raise_errCode (s\<lparr>errCode := -5\<rparr>) = (Inl NetIndexError, s\<lparr>errCode := -5\<rparr>)"
  "raise_errCode (s\<lparr>errCode := -6\<rparr>) = (Inl ReactionIndexError, s\<lparr>errCode := -6\<rparr>)"
  "raise_errCode (s\<lparr>errCode := -7\<rparr>) = (Inl NodeIndexError, s\<lparr>errCode := -7\<rparr>)"
  "raise_errCode (s\<lparr>errCode := -8\<rparr>) = (Inl StoichError, s\<lparr>errCode := -8\<rparr>)"
  "raise_errCode (s\<lparr>errCode := -9\<rparr>) = (Inl StackEmptyError, s\<lparr>errCode := -9\<rparr>)"
  "raise_errCode (s\<lparr>errCode := -12\<rparr>) = (Inl ValueError, s\<lparr>errCode := -12\<rparr>)"
  "raise_errCode (s\<lparr>errCode := -13\<rparr>) = (Inl CompartmentIndexError, s\<lparr>errCode := -13\<rparr>)"
  by (simp_all add: raise_errCode_def ExceptionDict_def)

lemma priv_raiseError_simps:
  "priv_raiseError (-3) s = (Inl IDRepeatError, s\<lparr>errCode := -3\<rparr>)"
  "priv_raiseError (-6) s = (Inl ReactionIndexError, s\<lparr>errCode := -6\<rparr>)"
  "priv_raiseError (-7) s = (Inl NodeIndexError, s\<lparr>errCode := -7\<rparr>)"
  "priv_raiseError (-12) s = (Inl ValueError, s\<lparr>errCode := -12\<rparr>)"
  "priv_raiseError (-13) s = (Inl CompartmentIndexError, s\<lparr>errCode := -13\<rparr>)"
  by (simp_all add: priv_raiseError_def raise_errCode_simps)

subsection \<open>Undo and redo\<close>

text \<open>\<open>undo()\<close> raises \<open>StackEmptyError\<close> exactly on an empty undo stack, and then changes
  nothing but \<open>errCode\<close>.\<close>

lemma undo_raises_iff:
  "(fst (undo s) = Inl StackEmptyError) = (netSetStack s = [])"
  "(fst (undo s) = Inr ()) = (netSetStack s \<noteq> [])"
  "netSetStack s = [] \<Longrightarrow> snd (undo s) = s\<lparr>errCode := -9\<rparr>"
  by (simp_all add: undo_def Let_def raise_errCode_simps)

text \<open>\<open>redo()\<close> on an empty redo stack raises \<open>StackEmptyError\<close> and changes nothing but
  \<open>errCode\<close>; on a non-empty one it returns when the last call left no error code.\<close>

lemma redo_empty:
  "redoStack s = [] \<Longrightarrow> redo s = (Inl StackEmptyError, s\<lparr>errCode := -9\<rparr>)"
  by (simp add: redo_def Let_def raise_errCode_simps)

lemma redo_nonempty_clean:
  "redoStack s \<noteq> [] \<Longrightarrow> 0 \<le> errCode s \<Longrightarrow> fst (redo s) = Inr ()"
  by (simp add: redo_def Let_def)

text \<open>
  C4, at the failing input. On the freshly loaded module: \<open>newNetwork("net")\<close>, \<open>undo()\<close>,
  a second \<open>undo()\<close> (which raises, the undo stack being empty, and leaves \<open>errCode = -9\<close>),
  then \<open>redo()\<close>. The redo stack is not empty, \<open>redo()\<close> moves its top into the registry,
  and then raises \<open>StackEmptyError\<close> from the stale \<open>errCode\<close>.
\<close>

theorem redo_raises_on_nonempty_stack:
  "fst (undo (snd (newNetwork ''net'' reset))) = Inr ()
   \<and> fst (undo (snd (undo (snd (newNetwork ''net'' reset))))) = Inl StackEmptyError
   \<and> redoStack (snd (undo (snd (undo (snd (newNetwork ''net'' reset)))))) \<noteq> []
   \<and> fst (redo (snd (undo (snd (undo (snd (newNetwork ''net'' reset))))))) = Inl StackEmptyError
   \<and> networkDict (snd (redo (snd (undo (snd (undo (snd (newNetwork ''net'' reset)))))))) \<noteq>
       networkDict (snd (undo (snd (undo (snd (newNetwork ''net'' reset))))))
   \<and> redoStack (snd (redo (snd (undo (snd (undo (snd (newNetwork ''net'' reset)))))))) = []"
  by (simp add: eval_defs)

text \<open>
  C10. \<open>undo()\<close> never changes the counter \<open>lastNetIndex\<close>: a snapshot holds the network
  dictionary only. When \<open>newNetwork(a)\<close> returns, the network sits at the old counter
  value; after an \<open>undo()\<close> (whether it returns or raises) the counter is still one more,
  and the next \<open>newNetwork(b)\<close> that returns puts its network at that next index.
\<close>

theorem undo_keeps_lastNetIndex:
  "lastNetIndex (snd (undo s)) = lastNetIndex s
   \<and> (fst (newNetwork a s) = Inr () \<longrightarrow>
        map_of (networkDict (snd (newNetwork a s))) (lastNetIndex s) = Some (TNetwork_init a [] [] [])
        \<and> lastNetIndex (snd (undo (snd (newNetwork a s)))) = lastNetIndex s + 1
        \<and> (fst (newNetwork b (snd (undo (snd (newNetwork a s))))) = Inr () \<longrightarrow>
             map_of (networkDict (snd (newNetwork b (snd (undo (snd (newNetwork a s)))))))
               (lastNetIndex s + 1) = Some (TNetwork_init b [] [] [])))"
proof -
  have u: "\<And>t. lastNetIndex (snd (undo t)) = lastNetIndex t"
    by (simp add: undo_def Let_def raise_errCode_simps)
  have n1: "\<And>c t. fst (newNetwork c t) = Inr () \<Longrightarrow>
      map_of (networkDict (snd (newNetwork c t))) (lastNetIndex t) = Some (TNetwork_init c [] [] [])
      \<and> lastNetIndex (snd (newNetwork c t)) = lastNetIndex t + 1"
    by (auto simp add: newNetwork_def Let_def raise_errCode_simps priv_pushUndoStack_def update_conv'
        split: if_splits)
  show ?thesis
    using u n1 by metis
qed

text \<open>
  An instance: on the freshly loaded module \<open>newNetwork("net")\<close> puts the network at
  index 0; after \<open>undo()\<close> the registry is empty again, and a second \<open>newNetwork("net")\<close>
  puts its network at index 1, leaving index 0 unused.
\<close>

theorem undo_keeps_lastNetIndex_witness:
  "fst (newNetwork ''net'' reset) = Inr ()
   \<and> fst (undo (snd (newNetwork ''net'' reset))) = Inr ()
   \<and> networkDict (snd (undo (snd (newNetwork ''net'' reset)))) = []
   \<and> fst (newNetwork ''net'' (snd (undo (snd (newNetwork ''net'' reset))))) = Inr ()
   \<and> map_of (networkDict (snd (newNetwork ''net'' (snd (undo (snd (newNetwork ''net'' reset))))))) 1
       = Some (TNetwork_init ''net'' [] [] [])
   \<and> map_of (networkDict (snd (newNetwork ''net'' (snd (undo (snd (newNetwork ''net'' reset))))))) 0 = None"
proof -
  have h1: "fst (newNetwork ''net'' reset) = Inr ()"
    by (simp add: eval_defs)
  have h2: "fst (newNetwork ''net'' (snd (undo (snd (newNetwork ''net'' reset))))) = Inr ()"
    by (simp add: eval_defs)
  have l: "lastNetIndex reset = 0" by (simp add: reset_def)
  from undo_keeps_lastNetIndex [of reset "''net''" "''net''"] h1 h2 l
  have "map_of (networkDict (snd (newNetwork ''net'' (snd (undo (snd (newNetwork ''net'' reset))))))) 1
       = Some (TNetwork_init ''net'' [] [] [])" by simp
  then show ?thesis using h1 h2 by (simp add: eval_defs)
qed

subsection \<open>Font objects\<close>

text \<open>
  The nodes \<open>A\<close> and \<open>B\<close> of network 0 were built by \<open>addNode\<close> and refer to the default
  font object. \<open>setNodeFontPointSize(0, 0, 30)\<close> writes the object: node 1 reads 30 as
  well, and so does a node added afterwards. After \<open>undo()\<close> the two nodes refer to the
  font of the snapshot, with the point size 20 again; the default object was not part of
  the snapshot, and a node added now still gets the point size 30.
\<close>

lemma font_object_shared:
  "fst (setNodeFontPointSize 0 0 30 state_two_nodes) = Inr ()
   \<and> fst (getNodeFontPointSize 0 0 state_font_set) = Inr 30
   \<and> fst (getNodeFontPointSize 0 1 state_font_set) = Inr 30
   \<and> fst (getNodeFontPointSize 0 2 (snd (addNode 0 ''C'' 0 0 1 1 False state_font_set))) = Inr 30
   \<and> fst (getNodeFontPointSize 0 0 state_font_undone) = Inr 20
   \<and> fst (getNodeFontPointSize 0 1 state_font_undone) = Inr 20
   \<and> fst (getNodeFontPointSize 0 2 (snd (addNode 0 ''C'' 0 0 1 1 False state_font_undone))) = Inr 30"
  by (simp add: setNodeFontPointSize_def getNodeFontPointSize_def write_font_def example_defs eval_defs)

text \<open>
  In the state after that \<open>undo()\<close>, a write through node 0 reaches node 1, which shares
  the font of the snapshot, and not the node added after the \<open>undo()\<close>, which refers to the
  default object; a write through the new node reaches neither of the two.
\<close>

lemma font_object_of_snapshot:
  "fst (getNodeFontPointSize 0 1
          (snd (setNodeFontPointSize 0 0 50 (snd (addNode 0 ''C'' 0 0 1 1 False state_font_undone))))) = Inr 50
   \<and> fst (getNodeFontPointSize 0 2
          (snd (setNodeFontPointSize 0 0 50 (snd (addNode 0 ''C'' 0 0 1 1 False state_font_undone))))) = Inr 30
   \<and> fst (getNodeFontPointSize 0 0
          (snd (setNodeFontPointSize 0 2 40 (snd (addNode 0 ''C'' 0 0 1 1 False state_font_undone))))) = Inr 20
   \<and> fst (getNodeFontPointSize 0 1
          (snd (setNodeFontPointSize 0 2 40 (snd (addNode 0 ''C'' 0 0 1 1 False state_font_undone))))) = Inr 20"
  by (simp add: setNodeFontPointSize_def getNodeFontPointSize_def write_font_def example_defs eval_defs)

subsection \<open>Failure of setCompartmentOfNode, and the partition\<close>

text \<open>
  C2, at the failing input. Network 0 holds the single node 0, in the base set.
  \<open>setCompartmentOfNode(0, 0, 7)\<close> raises \<open>CompartmentIndexError\<close> (there is no compartment
  7), but only after it removed the node from the base set: afterwards the node exists,
  its \<open>compi\<close> is still \<open>-1\<close>, and the base set is empty.
\<close>

theorem setCompartmentOfNode_fails_after_removal:
  "fst (setCompartmentOfNode 0 0 7 state_one_node) = Inl CompartmentIndexError
   \<and> map_option net_baseNodes (map_of (networkDict state_one_node) 0) = Some {0}
   \<and> map_option net_baseNodes
        (map_of (networkDict (snd (setCompartmentOfNode 0 0 7 state_one_node))) 0) = Some {}
   \<and> map_option (map (\<lambda>(i, n). (i, node_compi n)) \<circ> net_nodes)
        (map_of (networkDict (snd (setCompartmentOfNode 0 0 7 state_one_node))) 0) = Some [(0, -1)]
   \<and> networkDict (snd (setCompartmentOfNode 0 0 7 state_one_node)) \<noteq> networkDict state_one_node"
  by (simp add: example_defs eval_defs)

text \<open>
  C8, at the failing input. \<open>TNetwork("net", nodes, {}, compartments)\<close> with node 0 whose
  \<open>compi\<close> is 1 and compartment 1 whose node set is \<open>{0}\<close>: the constructor tests the
  truth value of \<open>compi\<close>, so node 0 lands in the base set as well, and the base set and
  the compartment overlap. The second half is the state that C2's failing call leaves:
  before it the partition holds, after it node 0 is in no container.
\<close>

theorem TNetwork_init_breaks_partition:
  "net_baseNodes (TNetwork_init ''net''
        [(0, (TNode_init ''A'' (0, 0) (10, 10) False)\<lparr>node_compi := 1\<rparr>)] []
        [(1, (TCompartment_init ''C'' (0, 0) (100, 100))\<lparr>comp_node_indices := {0}\<rparr>)]) = {0}
   \<and> \<not> partition_ok (TNetwork_init ''net''
        [(0, (TNode_init ''A'' (0, 0) (10, 10) False)\<lparr>node_compi := 1\<rparr>)] []
        [(1, (TCompartment_init ''C'' (0, 0) (100, 100))\<lparr>comp_node_indices := {0}\<rparr>)])
   \<and> list_all (partition_ok \<circ> snd) (networkDict state_one_node)
   \<and> \<not> list_all (partition_ok \<circ> snd) (networkDict (snd (setCompartmentOfNode 0 0 7 state_one_node)))"
  by (simp add: partition_ok_def node_placed_def in_own_container_def example_defs eval_defs)

subsection \<open>Deleting a node\<close>

lemma map_of_map_entry_same:
  "map_of (AList.map_entry k f al) k = map_option f (map_of al k)"
  by (simp add: map_of_map_entry split: option.splits)

text \<open>
  C6, at the failing input. Network 0 holds the single node 0, and the raising call
  \<open>setCompartmentOfNode(0, 0, 7)\<close> of C2 has taken it out of the base set. The node is
  in no reaction: \<open>srcMap[0]\<close> and \<open>destMap[0]\<close> are empty. \<open>deleteNode(0, 0)\<close> passes
  the test of the two sets, pushes a snapshot and raises \<open>KeyError\<close> from
  \<open>n.baseNodes.remove(nodei)\<close>; the node is still there.
\<close>

theorem deleteNode_raises_on_free_node:
  "fst (setCompartmentOfNode 0 0 7 state_one_node) = Inl CompartmentIndexError
   \<and> map_option (\<lambda>n. (net_srcMap n 0, net_destMap n 0)) (map_of (networkDict state_node_nowhere) 0)
       = Some ({}, {})
   \<and> map_option (\<lambda>n. (map fst (net_nodes n), net_baseNodes n)) (map_of (networkDict state_node_nowhere) 0)
       = Some ([0], {})
   \<and> fst (deleteNode 0 0 state_node_nowhere) = Inl KeyError
   \<and> fst (getNumberOfNodes 0 (snd (deleteNode 0 0 state_node_nowhere))) = Inr 1
   \<and> length (netSetStack (snd (deleteNode 0 0 state_node_nowhere)))
       = length (netSetStack state_node_nowhere) + 1"
  by (simp add: state_node_nowhere_def deleteNode_def getNumberOfNodes_def example_defs eval_defs)

text \<open>
  What \<open>deleteNode\<close> does on an existing node of an existing network. When the node is a
  reactant or a product of some reaction (one of the two index sets is not empty), it
  raises \<open>NodeNotFreeError\<close> and changes nothing but \<open>errCode\<close>, so the node count stays.
  When the node sits in the container its \<open>compi\<close> names, it returns exactly when both
  index sets are empty. When it returns, the node sat in that container, and the network
  afterwards is the old one without the node in its node map and in that container.
\<close>

lemma deleteNode_guard:
  assumes net: "map_of (networkDict s) neti = Some net"
      and node: "map_of (net_nodes net) nodei = Some node"
  shows
   "(net_srcMap net nodei \<noteq> {} \<or> net_destMap net nodei \<noteq> {} \<longrightarrow>
        deleteNode neti nodei s = (Inl NodeNotFreeError, s\<lparr>errCode := -4\<rparr>)
        \<and> fst (getNumberOfNodes neti (snd (deleteNode neti nodei s))) = fst (getNumberOfNodes neti s))
    \<and> (in_own_container net nodei node \<longrightarrow>
        (fst (deleteNode neti nodei s) = Inr ()) = (net_srcMap net nodei = {} \<and> net_destMap net nodei = {}))
    \<and> (fst (deleteNode neti nodei s) = Inr () \<longrightarrow>
        in_own_container net nodei node
        \<and> map_of (networkDict (snd (deleteNode neti nodei s))) neti =
            Some (if node_compi node = -1
                  then net\<lparr>net_baseNodes := net_baseNodes net - {nodei},
                           net_nodes := AList.delete nodei (net_nodes net)\<rparr>
                  else net\<lparr>net_compartments :=
                             AList.map_entry (node_compi node)
                               (\<lambda>c. c\<lparr>comp_node_indices := comp_node_indices c - {nodei}\<rparr>)
                               (net_compartments net),
                           net_nodes := AList.delete nodei (net_nodes net)\<rparr>))"
proof -
  have notfree: "net_srcMap net nodei \<noteq> {} \<or> net_destMap net nodei \<noteq> {} \<Longrightarrow>
      deleteNode neti nodei s = (Inl NodeNotFreeError, s\<lparr>errCode := -4\<rparr>)"
    using net node by (auto simp add: deleteNode_def raise_errCode_simps)
  have count: "fst (getNumberOfNodes neti (s\<lparr>errCode := -4\<rparr>)) = fst (getNumberOfNodes neti s)"
    by (simp add: getNumberOfNodes_def Let_def raise_errCode_simps split: option.splits)
  have iff: "in_own_container net nodei node \<Longrightarrow>
      (fst (deleteNode neti nodei s) = Inr ()) = (net_srcMap net nodei = {} \<and> net_destMap net nodei = {})"
    using net node
    by (auto simp add: deleteNode_def in_own_container_def raise_errCode_simps Let_def
        split: option.splits if_splits)
  have succ: "fst (deleteNode neti nodei s) = Inr () \<Longrightarrow>
        in_own_container net nodei node
        \<and> map_of (networkDict (snd (deleteNode neti nodei s))) neti =
            Some (if node_compi node = -1
                  then net\<lparr>net_baseNodes := net_baseNodes net - {nodei},
                           net_nodes := AList.delete nodei (net_nodes net)\<rparr>
                  else net\<lparr>net_compartments :=
                             AList.map_entry (node_compi node)
                               (\<lambda>c. c\<lparr>comp_node_indices := comp_node_indices c - {nodei}\<rparr>)
                               (net_compartments net),
                           net_nodes := AList.delete nodei (net_nodes net)\<rparr>)"
    using net node
    by (auto simp add: deleteNode_def in_own_container_def raise_errCode_simps Let_def
        update_net_def priv_pushUndoStack_def map_of_map_entry_same
        split: option.splits if_splits)
  show ?thesis using notfree count iff succ by simp
qed

text \<open>
  Two instances: node 0 of the network with the reaction \<open>r\<close> from node 0 to node 1 is not
  free, the call raises and the network still has two nodes; node 0 of the one-node
  network is free and in the base set, the call returns and leaves no node and an empty
  base set.
\<close>

lemma deleteNode_guard_instances:
  "deleteNode 0 0 state_with_reaction = (Inl NodeNotFreeError, state_with_reaction\<lparr>errCode := -4\<rparr>)
   \<and> fst (getNumberOfNodes 0 (snd (deleteNode 0 0 state_with_reaction))) = Inr 2
   \<and> fst (deleteNode 0 0 state_one_node) = Inr ()
   \<and> map_option net_baseNodes (map_of (networkDict (snd (deleteNode 0 0 state_one_node))) 0) = Some {}
   \<and> map_option net_nodes (map_of (networkDict (snd (deleteNode 0 0 state_one_node))) 0) = Some []"
proof -
  define net1 where "net1 = the (map_of (networkDict state_with_reaction) 0)"
  define node1 where "node1 = the (map_of (net_nodes net1) 0)"
  define net2 where "net2 = the (map_of (networkDict state_one_node) 0)"
  define node2 where "node2 = the (map_of (net_nodes net2) 0)"
  have a1: "map_of (networkDict state_with_reaction) 0 = Some net1"
    unfolding net1_def by (simp add: example_defs eval_defs)
  have a2: "map_of (net_nodes net1) 0 = Some node1"
    unfolding node1_def net1_def by (simp add: example_defs eval_defs)
  have a3: "net_srcMap net1 0 \<noteq> {} \<or> net_destMap net1 0 \<noteq> {}"
    unfolding net1_def by (simp add: example_defs eval_defs)
  have a4: "fst (getNumberOfNodes 0 state_with_reaction) = Inr 2"
    by (simp add: getNumberOfNodes_def example_defs eval_defs)
  have b1: "map_of (networkDict state_one_node) 0 = Some net2"
    unfolding net2_def by (simp add: example_defs eval_defs)
  have b2: "map_of (net_nodes net2) 0 = Some node2"
    unfolding node2_def net2_def by (simp add: example_defs eval_defs)
  have b3: "in_own_container net2 0 node2"
    unfolding node2_def net2_def by (simp add: in_own_container_def example_defs eval_defs)
  have b4: "net_srcMap net2 0 = {} \<and> net_destMap net2 0 = {}"
    unfolding net2_def by (simp add: example_defs eval_defs)
  have b5: "node_compi node2 = -1"
    unfolding node2_def net2_def by (simp add: example_defs eval_defs)
  have b6: "net_baseNodes net2 = {0}" "net_nodes net2 = [(0, node2)]"
    unfolding node2_def net2_def by (simp_all add: example_defs eval_defs)
  from deleteNode_guard [OF a1 a2] a3
  have q: "deleteNode 0 0 state_with_reaction = (Inl NodeNotFreeError, state_with_reaction\<lparr>errCode := -4\<rparr>)
     \<and> fst (getNumberOfNodes 0 (snd (deleteNode 0 0 state_with_reaction)))
         = fst (getNumberOfNodes 0 state_with_reaction)"
    by blast
  have p1: "deleteNode 0 0 state_with_reaction = (Inl NodeNotFreeError, state_with_reaction\<lparr>errCode := -4\<rparr>)
     \<and> fst (getNumberOfNodes 0 (snd (deleteNode 0 0 state_with_reaction))) = Inr 2"
    using conjunct1 [OF q] trans [OF conjunct2 [OF q] a4] by (rule conjI)
  from deleteNode_guard [OF b1 b2] b3 b4
  have p2: "fst (deleteNode 0 0 state_one_node) = Inr ()" by simp
  with deleteNode_guard [OF b1 b2] b5
  have p3: "map_of (networkDict (snd (deleteNode 0 0 state_one_node))) 0 =
      Some (net2\<lparr>net_baseNodes := net_baseNodes net2 - {0}, net_nodes := AList.delete 0 (net_nodes net2)\<rparr>)"
    by simp
  from p3 b6
  have p4: "map_option net_baseNodes (map_of (networkDict (snd (deleteNode 0 0 state_one_node))) 0) = Some {}"
    and p5: "map_option net_nodes (map_of (networkDict (snd (deleteNode 0 0 state_one_node))) 0) = Some []"
    by simp_all
  show ?thesis
    by (rule conjI [OF conjunct1 [OF p1] conjI [OF conjunct2 [OF p1] conjI [OF p2 conjI [OF p4 p5]]]])
qed

subsection \<open>Duplicate ids\<close>

text \<open>
  C5, as amended. In an existing network, a proposed id that some entity of the same kind
  already carries makes the call raise \<open>IDRepeatError\<close> and change nothing but \<open>errCode\<close>,
  for \<open>addNode\<close>; for \<open>setNodeID\<close> and \<open>setReactionID\<close> on an existing node or reaction;
  for \<open>createReaction\<close> with non-empty source and target lists; and for \<open>addCompartment\<close>
  with non-negative coordinates and sizes. (Those other checks come first in the code
  and raise their own errors.) \<open>setCompartmentID\<close> is not covered.
\<close>

theorem duplicate_id_rejected:
  assumes net: "map_of (networkDict s) neti = Some net"
  shows
   "(list_ex (\<lambda>n. node_id n = newID) (map snd (net_nodes net)) \<longrightarrow>
        addNode neti newID x y w h fl s = (Inl IDRepeatError, s\<lparr>errCode := -3\<rparr>))
    \<and> (map_of (net_nodes net) nodei \<noteq> None \<and> list_ex (\<lambda>n. node_id n = newID) (map snd (net_nodes net)) \<longrightarrow>
        setNodeID neti nodei newID s = (Inl IDRepeatError, s\<lparr>errCode := -3\<rparr>))
    \<and> (sources \<noteq> [] \<and> targets \<noteq> [] \<and> list_ex (\<lambda>r. rea_id r = newID) (map snd (net_reactions net)) \<longrightarrow>
        createReaction neti newID sources targets s = (Inl IDRepeatError, s\<lparr>errCode := -3\<rparr>))
    \<and> (map_of (net_reactions net) reai \<noteq> None \<and> list_ex (\<lambda>r. rea_id r = newID) (map snd (net_reactions net)) \<longrightarrow>
        setReactionID neti reai newID s = (Inl IDRepeatError, s\<lparr>errCode := -3\<rparr>))
    \<and> (0 \<le> x \<and> 0 \<le> y \<and> 0 \<le> w \<and> 0 \<le> h
         \<and> list_ex (\<lambda>c. comp_id c = newID) (map snd (net_compartments net)) \<longrightarrow>
        addCompartment neti newID x y w h s = (Inl IDRepeatError, s\<lparr>errCode := -3\<rparr>))"
proof -
  have same: "(\<lambda>c. newID = comp_id c) = (\<lambda>c. comp_id c = newID)" by auto
  have 1: "list_ex (\<lambda>n. node_id n = newID) (map snd (net_nodes net)) \<Longrightarrow>
        addNode neti newID x y w h fl s = (Inl IDRepeatError, s\<lparr>errCode := -3\<rparr>)"
    using net by (simp add: addNode_def priv_getNetwork_def Let_def raise_errCode_simps)
  have 2: "map_of (net_nodes net) nodei \<noteq> None \<Longrightarrow> list_ex (\<lambda>n. node_id n = newID) (map snd (net_nodes net)) \<Longrightarrow>
        setNodeID neti nodei newID s = (Inl IDRepeatError, s\<lparr>errCode := -3\<rparr>)"
    using net by (simp add: setNodeID_def Let_def raise_errCode_simps)
  have 3: "sources \<noteq> [] \<Longrightarrow> targets \<noteq> [] \<Longrightarrow> list_ex (\<lambda>r. rea_id r = newID) (map snd (net_reactions net)) \<Longrightarrow>
        createReaction neti newID sources targets s = (Inl IDRepeatError, s\<lparr>errCode := -3\<rparr>)"
    using net by (simp add: createReaction_def priv_getNetwork_def Let_def raise_errCode_simps)
  have 4: "map_of (net_reactions net) reai \<noteq> None \<Longrightarrow> list_ex (\<lambda>r. rea_id r = newID) (map snd (net_reactions net)) \<Longrightarrow>
        setReactionID neti reai newID s = (Inl IDRepeatError, s\<lparr>errCode := -3\<rparr>)"
    using net by (simp add: setReactionID_def Let_def raise_errCode_simps)
  have 5: "0 \<le> x \<Longrightarrow> 0 \<le> y \<Longrightarrow> 0 \<le> w \<Longrightarrow> 0 \<le> h \<Longrightarrow>
         list_ex (\<lambda>c. comp_id c = newID) (map snd (net_compartments net)) \<Longrightarrow>
        addCompartment neti newID x y w h s = (Inl IDRepeatError, s\<lparr>errCode := -3\<rparr>)"
    using net by (simp add: addCompartment_def priv_getNetwork_def same priv_raiseError_simps not_less [symmetric])
  show ?thesis using 1 2 3 4 5 by blast
qed

text \<open>
  Instances on the network with the nodes \<open>A\<close> and \<open>B\<close>, the reaction \<open>r\<close> and the
  compartment \<open>C\<close>: each of the five calls raises \<open>IDRepeatError\<close> and leaves the state as
  it was, up to \<open>errCode\<close>.
\<close>

theorem duplicate_id_rejected_witness:
  "addNode 0 ''A'' 5 5 10 10 False state_full = (Inl IDRepeatError, state_full\<lparr>errCode := -3\<rparr>)
   \<and> setNodeID 0 1 ''A'' state_full = (Inl IDRepeatError, state_full\<lparr>errCode := -3\<rparr>)
   \<and> createReaction 0 ''r'' [1] [0] state_full = (Inl IDRepeatError, state_full\<lparr>errCode := -3\<rparr>)
   \<and> setReactionID 0 0 ''r'' state_full = (Inl IDRepeatError, state_full\<lparr>errCode := -3\<rparr>)
   \<and> addCompartment 0 ''C'' 1 1 5 5 state_full = (Inl IDRepeatError, state_full\<lparr>errCode := -3\<rparr>)"
proof -
  define net where "net = the (map_of (networkDict state_full) 0)"
  have h: "map_of (networkDict state_full) 0 = Some net"
    unfolding net_def by (simp add: example_defs eval_defs)
  have n: "list_ex (\<lambda>n. node_id n = ''A'') (map snd (net_nodes net))"
          "map_of (net_nodes net) 1 \<noteq> None"
    unfolding net_def by (simp_all add: example_defs eval_defs)
  have r: "list_ex (\<lambda>r. rea_id r = ''r'') (map snd (net_reactions net))"
          "map_of (net_reactions net) 0 \<noteq> None"
    unfolding net_def by (simp_all add: example_defs eval_defs)
  have c: "list_ex (\<lambda>c. comp_id c = ''C'') (map snd (net_compartments net))"
    unfolding net_def by (simp add: example_defs eval_defs)
  have p1: "addNode 0 ''A'' 5 5 10 10 False state_full = (Inl IDRepeatError, state_full\<lparr>errCode := -3\<rparr>)"
    using duplicate_id_rejected [OF h, of "''A''" 5 5 10 10 False] n by blast
  have p2: "setNodeID 0 1 ''A'' state_full = (Inl IDRepeatError, state_full\<lparr>errCode := -3\<rparr>)"
    using duplicate_id_rejected [OF h, of "''A''" _ _ _ _ _ 1] n by blast
  have p3: "createReaction 0 ''r'' [1] [0] state_full = (Inl IDRepeatError, state_full\<lparr>errCode := -3\<rparr>)"
    using duplicate_id_rejected [OF h, of "''r''" _ _ _ _ _ _ "[1]" "[0]"] r by blast
  have p4: "setReactionID 0 0 ''r'' state_full = (Inl IDRepeatError, state_full\<lparr>errCode := -3\<rparr>)"
    using duplicate_id_rejected [OF h, of "''r''" _ _ _ _ _ _ _ _ 0] r by blast
  have p5: "addCompartment 0 ''C'' 1 1 5 5 state_full = (Inl IDRepeatError, state_full\<lparr>errCode := -3\<rparr>)"
    using duplicate_id_rejected [OF h, of "''C''" 1 1 5 5] c by simp
  show ?thesis
    by (rule conjI [OF p1 conjI [OF p2 conjI [OF p3 conjI [OF p4 p5]]]])
qed

text \<open>
  C5 as stated fails: network 0 holds a reaction with id \<open>r\<close>, and
  \<open>createReaction(0, "r", [], [1])\<close> raises \<open>ValueError\<close> (the empty source list is
  tested first), not \<open>IDRepeatError\<close>.
\<close>

theorem duplicate_id_counterexample:
  "list_ex (\<lambda>r. rea_id r = ''r'') (map snd (net_reactions (the (map_of (networkDict state_with_reaction) 0))))
   \<and> map_of (networkDict state_with_reaction) 0 \<noteq> None
   \<and> fst (createReaction 0 ''r'' [] [1] state_with_reaction) = Inl ValueError
   \<and> fst (createReaction 0 ''r'' [] [1] state_with_reaction) \<noteq> Inl IDRepeatError"
  by (simp add: example_defs eval_defs)

text \<open>
  \<open>setCompartmentID\<close> has no check at all. With compartments \<open>C\<close> and \<open>D\<close> at the indices 0
  and 1, \<open>setCompartmentID(0, 1, "C")\<close> returns, and both compartments carry the id \<open>C\<close>.
\<close>

lemma setCompartmentID_dup:
  "map_option (map (\<lambda>(i, c). (i, comp_id c)) \<circ> net_compartments) (map_of (networkDict state_two_compartments) 0)
     = Some [(0, ''C''), (1, ''D'')]
   \<and> fst (setCompartmentID 0 1 ''C'' state_two_compartments) = Inr ()
   \<and> map_option (map (\<lambda>(i, c). (i, comp_id c)) \<circ> net_compartments)
       (map_of (networkDict (snd (setCompartmentID 0 1 ''C'' state_two_compartments))) 0)
     = Some [(0, ''C''), (1, ''C'')]"
  by (simp add: setCompartmentID_def example_defs eval_defs)

subsection \<open>Dump and load\<close>









lemma list_all_mono': "list_all P xs \<Longrightarrow> (\<And>x. P x \<Longrightarrow> Q x) \<Longrightarrow> list_all Q xs"
  by (induction xs) auto






text \<open>
  Compartment membership does not survive the round trip: node 0 is in compartment 0;
  after dump and load its \<open>compi\<close> is \<open>-1\<close>, the compartment's node set is empty, and
  the node is in the base set.
\<close>

lemma roundtrip_drops_membership:
  "map_option (map (\<lambda>(i, n). (i, node_compi n)) \<circ> net_nodes)
      (map_of (networkDict state_node_in_compartment) 0) = Some [(0, 0)]
   \<and> map_option (map (\<lambda>(i, c). (i, comp_node_indices c)) \<circ> net_compartments)
      (map_of (networkDict state_node_in_compartment) 0) = Some [(0, {0})]
   \<and> (case dumpNetwork 0 state_node_in_compartment of
        Inl e \<Rightarrow> False
      | Inr obj \<Rightarrow>
          fst (loadNetwork obj reset) = Inr 0
          \<and> map_option (map (\<lambda>(i, n). (i, node_compi n)) \<circ> net_nodes)
               (map_of (networkDict (snd (loadNetwork obj reset))) 0) = Some [(0, -1)]
          \<and> map_option (map (\<lambda>(i, c). (i, comp_node_indices c)) \<circ> net_compartments)
               (map_of (networkDict (snd (loadNetwork obj reset))) 0) = Some [(0, {})]
          \<and> map_option net_baseNodes (map_of (networkDict (snd (loadNetwork obj reset))) 0) = Some {0})"
  by (simp add: ser_defs example_defs eval_defs)

text \<open>
  A node's font does not survive the round trip either: node 0 has the point size 20, the
  default font object has 30; after dump and load node 0 refers to the default object and
  reads 30.
\<close>

lemma roundtrip_font_is_default:
  "fst (getNodeFontPointSize 0 0 state_font_undone) = Inr 20
   \<and> font_pointSize (defaultFont state_font_undone) = 30
   \<and> (case dumpNetwork 0 state_font_undone of
        Inl e \<Rightarrow> False
      | Inr obj \<Rightarrow>
          fst (loadNetwork obj state_font_undone) = Inr 0
          \<and> fst (getNodeFontPointSize 0 0 (snd (loadNetwork obj state_font_undone))) = Inr 30)"
  by (simp add: setNodeFontPointSize_def getNodeFontPointSize_def write_font_def ser_defs
      example_defs eval_defs)

subsection \<open>The reaction indices\<close>


lemma add_index_apply:
  "add_index i ks m n = (if n \<in> set ks then insert i (m n) else m n)"
  unfolding add_index_def
  by (induction ks arbitrary: m) auto

lemma remove_index_ok:
  "distinct ks \<Longrightarrow> (\<And>k. k \<in> set ks \<Longrightarrow> i \<in> m k) \<Longrightarrow>
   remove_index i ks m = (True, \<lambda>n. if n \<in> set ks then m n - {i} else m n)"
proof (induction ks arbitrary: m)
  case Nil
  then show ?case by simp
next
  case (Cons k ks)
  have "remove_index i ks (m(k := m k - {i})) =
      (True, \<lambda>n. if n \<in> set ks then (m(k := m k - {i})) n - {i} else (m(k := m k - {i})) n)"
    using Cons.prems by (intro Cons.IH) auto
  then show ?case using Cons.prems by (auto simp add: fun_eq_iff)
qed

lemma scan_src_update:
  "map_of rs k = None \<Longrightarrow>
   scan_src (AList.update k r rs) n = (if n \<in> fst ` set (rea_reactants r) then insert k (scan_src rs n) else scan_src rs n)"
  by (auto simp add: scan_src_def update_conv')

lemma scan_dest_update:
  "map_of rs k = None \<Longrightarrow>
   scan_dest (AList.update k r rs) n = (if n \<in> fst ` set (rea_products r) then insert k (scan_dest rs n) else scan_dest rs n)"
  by (auto simp add: scan_dest_def update_conv')

lemma scan_src_delete:
  "map_of rs k = Some r \<Longrightarrow>
   scan_src (AList.delete k rs) n = (if n \<in> fst ` set (rea_reactants r) then scan_src rs n - {k} else scan_src rs n)"
  by (auto simp add: scan_src_def delete_conv')

lemma scan_dest_delete:
  "map_of rs k = Some r \<Longrightarrow>
   scan_dest (AList.delete k rs) n = (if n \<in> fst ` set (rea_products r) then scan_dest rs n - {k} else scan_dest rs n)"
  by (auto simp add: scan_dest_def delete_conv')

lemma scan_src_map_entry:
  "(\<And>r. map fst (rea_reactants (f r)) = map fst (rea_reactants r)) \<Longrightarrow>
   scan_src (AList.map_entry k f rs) n = scan_src rs n"
proof -
  assume a: "\<And>r. map fst (rea_reactants (f r)) = map fst (rea_reactants r)"
  have b: "\<And>r. fst ` set (rea_reactants (f r)) = fst ` set (rea_reactants r)"
    using a by (metis set_map)
  show ?thesis
    by (auto simp add: scan_src_def map_of_map_entry b split: option.splits if_splits)
qed

lemma scan_dest_map_entry:
  "(\<And>r. map fst (rea_products (f r)) = map fst (rea_products r)) \<Longrightarrow>
   scan_dest (AList.map_entry k f rs) n = scan_dest rs n"
proof -
  assume a: "\<And>r. map fst (rea_products (f r)) = map fst (rea_products r)"
  have b: "\<And>r. fst ` set (rea_products (f r)) = fst ` set (rea_products r)"
    using a by (metis set_map)
  show ?thesis
    by (auto simp add: scan_dest_def map_of_map_entry b split: option.splits if_splits)
qed

lemma py_max_ge: "k \<in> set ks \<Longrightarrow> k \<le> py_max ks d"
proof (cases ks)
  case Nil
  assume "k \<in> set ks"
  with Nil show ?thesis by simp
next
  case (Cons a xs)
  assume k: "k \<in> set ks"
  have "py_max ks d = Max (set (a # xs))"
    using Cons Max.set_eq_fold [of a xs] by (simp add: py_max_def)
  moreover have "k \<le> Max (set (a # xs))"
    using k Cons by (intro Max_ge) auto
  ultimately show ?thesis by simp
qed

lemma fold_scan_src:
  "fold (\<lambda>(index, reaction). add_index index (map fst (rea_reactants reaction))) rs m n
     = m n \<union> {i. \<exists>r. (i, r) \<in> set rs \<and> n \<in> fst ` set (rea_reactants r)}"
  by (induction rs arbitrary: m) (force simp add: add_index_apply split: if_splits)+

lemma fold_scan_dest:
  "fold (\<lambda>(index, reaction). add_index index (map fst (rea_products reaction))) rs m n
     = m n \<union> {i. \<exists>r. (i, r) \<in> set rs \<and> n \<in> fst ` set (rea_products r)}"
  by (induction rs arbitrary: m) (force simp add: add_index_apply split: if_splits)+

lemma TNetwork_init_indices:
  "distinct (map fst rs) \<Longrightarrow> indices_ok (TNetwork_init i ns rs cs)"
  by (auto simp add: indices_ok_def TNetwork_init_def fold_scan_src fold_scan_dest scan_src_def scan_dest_def)



lemma net_inv_other_fields [simp]:
  "net_inv (n\<lparr>net_nodes := ns\<rparr>) = net_inv n"
  "net_inv (n\<lparr>net_baseNodes := bs\<rparr>) = net_inv n"
  "net_inv (n\<lparr>net_compartments := cs\<rparr>) = net_inv n"
  "net_inv (n\<lparr>net_lastNodeIdx := a\<rparr>) = net_inv n"
  "net_inv (n\<lparr>net_lastCompartmentIdx := b\<rparr>) = net_inv n"
  by (simp_all add: net_inv_def indices_ok_def)

lemma net_inv_addNode [simp]: "net_inv (TNetwork_addNode node n) = net_inv n"
  by (simp add: TNetwork_addNode_def)

lemma net_inv_addCompartment [simp]: "net_inv (TNetwork_addCompartment c n) = net_inv n"
  by (simp add: TNetwork_addCompartment_def)

lemma list_all_map_entry:
  "list_all (\<lambda>(i, r). P i r) al \<Longrightarrow> (\<And>i r. P i r \<Longrightarrow> P i (f r))
   \<Longrightarrow> list_all (\<lambda>(i, r). P i r) (AList.map_entry k f al)"
  by (induction al) auto

lemma list_all_update:
  "list_all (\<lambda>(i, r). P i r) al \<Longrightarrow> P k v \<Longrightarrow> list_all (\<lambda>(i, r). P i r) (AList.update k v al)"
  by (induction al) auto

lemma list_all_delete:
  "list_all P al \<Longrightarrow> list_all P (AList.delete k al)"
  by (induction al) auto

lemma map_fst_map_entry: "map fst (AList.map_entry k f al) = map fst al"
  by (induction al) auto

lemma net_inv_map_entry:
  assumes inv: "net_inv n"
      and r: "\<And>r. map fst (rea_reactants (f r)) = map fst (rea_reactants r)"
      and p: "\<And>r. map fst (rea_products (f r)) = map fst (rea_products r)"
  shows "net_inv (n\<lparr>net_reactions := AList.map_entry k f (net_reactions n)\<rparr>)"
proof -
  have k: "\<And>x. reaction_keys_ok (f x) = reaction_keys_ok x"
    by (simp add: reaction_keys_ok_def r p)
  have "list_all (\<lambda>(i, r). i < net_lastReactionIdx n \<and> reaction_keys_ok r)
          (AList.map_entry k f (net_reactions n))"
    using inv by (intro list_all_map_entry) (auto simp add: net_inv_def k)
  then show ?thesis
    using inv
    by (simp add: net_inv_def indices_ok_def scan_src_map_entry [OF r] scan_dest_map_entry [OF p]
        map_fst_map_entry)
qed

lemma fresh_key:
  "list_all (\<lambda>(i, r). i < (b::int) \<and> Q r) al \<Longrightarrow> map_of al b = None"
  by (induction al) auto

lemma list_all_bound_mono:
  "list_all (\<lambda>(i, r). i < (b::int) \<and> Q r) al \<Longrightarrow> list_all (\<lambda>(i, r). i < b + 1 \<and> Q r) al"
  by (induction al) auto

lemma net_inv_addReaction:
  assumes inv: "net_inv n" and ok: "reaction_keys_ok r"
  shows "net_inv (TNetwork_addReaction r n)"
proof -
  let ?b = "net_lastReactionIdx n"
  have all: "list_all (\<lambda>(i, r). i < ?b \<and> reaction_keys_ok r) (net_reactions n)"
    using inv by (simp add: net_inv_def)
  have fresh: "map_of (net_reactions n) ?b = None"
    using all by (rule fresh_key)
  have all': "list_all (\<lambda>(i, r). i < ?b + 1 \<and> reaction_keys_ok r) (AList.update ?b r (net_reactions n))"
    using list_all_bound_mono [OF all] ok by (intro list_all_update) auto
  have d: "distinct (map fst (AList.update ?b r (net_reactions n)))"
    using inv by (simp add: net_inv_def distinct_update)
  have i: "\<And>x. net_srcMap n x = scan_src (net_reactions n) x"
          "\<And>x. net_destMap n x = scan_dest (net_reactions n) x"
    using inv by (simp_all add: net_inv_def indices_ok_def)
  show ?thesis
    using all' d
    by (simp add: net_inv_def indices_ok_def TNetwork_addReaction_def add_index_apply
        scan_src_update [OF fresh] scan_dest_update [OF fresh] i)
qed

lemma distinct_fold_update:
  "distinct (map fst acc) \<Longrightarrow> distinct (map fst (fold (\<lambda>k d. AList.update k v d) ks acc))"
  by (induction ks arbitrary: acc) (auto simp add: distinct_update)

lemma species_of_distinct: "distinct (map fst (species_of ks))"
  by (simp add: species_of_def distinct_fold_update)

lemma new_reaction_keys_ok:
  "reaction_keys_ok ((TReaction_init i)\<lparr>rea_reactants := species_of srcs, rea_products := species_of tgts\<rparr>)"
  by (simp add: reaction_keys_ok_def species_of_distinct)

lemma net_inv_clearReactions:
  "net_inv (n\<lparr>net_reactions := [], net_srcMap := (\<lambda>_. {}), net_destMap := (\<lambda>_. {})\<rparr>)"
  by (simp add: net_inv_def indices_ok_def scan_src_def scan_dest_def)

lemma net_inv_init:
  assumes d: "distinct (map fst rs)" and k: "list_all (\<lambda>(i, r). reaction_keys_ok r) rs"
  shows "net_inv (TNetwork_init i ns rs cs)"
proof -
  have b: "list_all (\<lambda>(i, r). i < py_max (map fst rs) (-1) + 1 \<and> reaction_keys_ok r) rs"
    using k py_max_ge [of _ "map fst rs" "-1"]
    by (auto simp add: list_all_iff) force
  have "indices_ok (TNetwork_init i ns rs cs)" using d by (rule TNetwork_init_indices)
  then show ?thesis
    using d b by (simp add: net_inv_def TNetwork_init_def)
qed

lemma net_inv_init_empty [simp]: "net_inv (TNetwork_init i [] [] [])"
  by (rule net_inv_init) simp_all

lemma net_inv_deleteReaction:
  assumes inv: "net_inv n" and r: "map_of (net_reactions n) reai = Some r"
  shows "remove_index reai (map fst (rea_reactants r)) (net_srcMap n)
           = (True, \<lambda>x. if x \<in> fst ` set (rea_reactants r) then net_srcMap n x - {reai} else net_srcMap n x)"
    and "remove_index reai (map fst (rea_products r)) (net_destMap n)
           = (True, \<lambda>x. if x \<in> fst ` set (rea_products r) then net_destMap n x - {reai} else net_destMap n x)"
    and "net_inv (n\<lparr>net_srcMap := (\<lambda>x. if x \<in> fst ` set (rea_reactants r) then net_srcMap n x - {reai} else net_srcMap n x),
                   net_destMap := (\<lambda>x. if x \<in> fst ` set (rea_products r) then net_destMap n x - {reai} else net_destMap n x),
                   net_reactions := AList.delete reai (net_reactions n)\<rparr>)"
proof -
  have mem: "(reai, r) \<in> set (net_reactions n)" using r by (rule map_of_SomeD)
  have ok: "reaction_keys_ok r"
    using inv mem by (auto simp add: net_inv_def list_all_iff)
  have i: "\<And>x. net_srcMap n x = scan_src (net_reactions n) x"
          "\<And>x. net_destMap n x = scan_dest (net_reactions n) x"
    using inv by (simp_all add: net_inv_def indices_ok_def)
  have s: "\<And>k. k \<in> set (map fst (rea_reactants r)) \<Longrightarrow> reai \<in> net_srcMap n k"
    using r by (auto simp add: i scan_src_def)
  have t: "\<And>k. k \<in> set (map fst (rea_products r)) \<Longrightarrow> reai \<in> net_destMap n k"
    using r by (auto simp add: i scan_dest_def)
  show "remove_index reai (map fst (rea_reactants r)) (net_srcMap n)
           = (True, \<lambda>x. if x \<in> fst ` set (rea_reactants r) then net_srcMap n x - {reai} else net_srcMap n x)"
    using remove_index_ok [OF _ s, of "map fst (rea_reactants r)"] ok
    by (simp add: reaction_keys_ok_def)
  show "remove_index reai (map fst (rea_products r)) (net_destMap n)
           = (True, \<lambda>x. if x \<in> fst ` set (rea_products r) then net_destMap n x - {reai} else net_destMap n x)"
    using remove_index_ok [OF _ t, of "map fst (rea_products r)"] ok
    by (simp add: reaction_keys_ok_def)
  have all: "list_all (\<lambda>(i, r). i < net_lastReactionIdx n \<and> reaction_keys_ok r)
      (AList.delete reai (net_reactions n))"
    using inv by (intro list_all_delete) (simp add: net_inv_def)
  show "net_inv (n\<lparr>net_srcMap := (\<lambda>x. if x \<in> fst ` set (rea_reactants r) then net_srcMap n x - {reai} else net_srcMap n x),
                   net_destMap := (\<lambda>x. if x \<in> fst ` set (rea_products r) then net_destMap n x - {reai} else net_destMap n x),
                   net_reactions := AList.delete reai (net_reactions n)\<rparr>)"
    using inv all
    by (simp add: net_inv_def indices_ok_def scan_src_delete [OF r] scan_dest_delete [OF r] i distinct_delete)
qed

lemma move_to_base_fields:
  "move_to_base ks ci net = (e, net') \<Longrightarrow>
   net_reactions net' = net_reactions net \<and> net_srcMap net' = net_srcMap net
   \<and> net_destMap net' = net_destMap net \<and> net_lastReactionIdx net' = net_lastReactionIdx net"
  by (induction ks ci net rule: move_to_base.induct) (auto split: option.splits if_splits)

lemma move_to_base_inv: "move_to_base ks ci net = (e, net') \<Longrightarrow> net_inv net' = net_inv net"
  using move_to_base_fields [of ks ci net e net']
  by (simp add: net_inv_def indices_ok_def)



lemma dict_inv_update: "dict_inv d \<Longrightarrow> net_inv v \<Longrightarrow> dict_inv (AList.update k v d)"
  unfolding dict_inv_def by (induction d) auto

lemma dict_inv_delete: "dict_inv d \<Longrightarrow> dict_inv (AList.delete k d)"
  unfolding dict_inv_def by (rule list_all_delete)

lemma dict_inv_lookup: "dict_inv d \<Longrightarrow> map_of d k = Some net \<Longrightarrow> net_inv net"
  unfolding dict_inv_def by (induction d) (auto split: if_splits)

lemma dict_inv_map_entry:
  "dict_inv d \<Longrightarrow> (\<And>net. map_of d k = Some net \<Longrightarrow> net_inv net \<Longrightarrow> net_inv (f net))
   \<Longrightarrow> dict_inv (AList.map_entry k f d)"
  unfolding dict_inv_def by (induction d) auto


lemma state_inv_errCode [simp]: "state_inv (s\<lparr>errCode := c\<rparr>) = state_inv s"
  by (simp add: state_inv_def)

lemma state_inv_raise [simp]: "state_inv (snd (raise_errCode s)) = state_inv s"
  by (simp add: raise_errCode_def split: option.splits)

lemma state_inv_push [simp]: "state_inv s \<Longrightarrow> state_inv (priv_pushUndoStack s)"
  by (simp add: state_inv_def priv_pushUndoStack_def)

lemma networkDict_push [simp]: "networkDict (priv_pushUndoStack s) = networkDict s"
  by (simp add: priv_pushUndoStack_def)

lemma lastNetIndex_push [simp]: "lastNetIndex (priv_pushUndoStack s) = lastNetIndex s"
  by (simp add: priv_pushUndoStack_def)

lemma state_inv_networkDict:
  "state_inv s \<Longrightarrow> dict_inv d \<Longrightarrow> state_inv (s\<lparr>networkDict := d\<rparr>)"
  by (simp add: state_inv_def)

lemma state_inv_lastNetIndex [simp]: "state_inv (s\<lparr>lastNetIndex := k\<rparr>) = state_inv s"
  by (simp add: state_inv_def)

lemma state_inv_update_net:
  "state_inv s \<Longrightarrow> (\<And>net. map_of (networkDict s) neti = Some net \<Longrightarrow> net_inv net \<Longrightarrow> net_inv (f net))
   \<Longrightarrow> state_inv (update_net neti f s)"
  by (simp add: state_inv_def update_net_def dict_inv_map_entry)

lemma state_inv_update_net_any [simp]:
  "(\<And>net. net_inv net \<Longrightarrow> net_inv (f net)) \<Longrightarrow> state_inv s \<Longrightarrow> state_inv (update_net neti f s)"
  by (rule state_inv_update_net)

lemma state_inv_update_node [simp]: "state_inv s \<Longrightarrow> state_inv (update_node neti k f s)"
  by (simp add: update_node_def)

lemma state_inv_update_compartment [simp]: "state_inv s \<Longrightarrow> state_inv (update_compartment neti k f s)"
  by (simp add: update_compartment_def)

lemma state_inv_update_reaction [simp]:
  "(\<And>r. map fst (rea_reactants (f r)) = map fst (rea_reactants r)) \<Longrightarrow>
   (\<And>r. map fst (rea_products (f r)) = map fst (rea_products r)) \<Longrightarrow>
   state_inv s \<Longrightarrow> state_inv (update_reaction neti k f s)"
  unfolding update_reaction_def
  by (rule state_inv_update_net) (simp_all add: net_inv_map_entry)

lemma dict_inv_map_nodes:
  "dict_inv (map (\<lambda>(neti, n). (neti, n\<lparr>net_nodes := g n\<rparr>)) d) = dict_inv d"
  unfolding dict_inv_def by (induction d) auto

lemma state_inv_write_font [simp]: "state_inv (write_font obj f s) = state_inv s"
  by (simp add: state_inv_def write_font_def dict_inv_map_nodes)

lemma state_inv_lookup:
  "state_inv s \<Longrightarrow> map_of (networkDict s) neti = Some net \<Longrightarrow> net_inv net"
  by (auto simp add: state_inv_def intro: dict_inv_lookup)

lemma state_inv_dict: "state_inv s \<Longrightarrow> dict_inv (networkDict s)"
  by (simp add: state_inv_def)

lemma dict_inv_Nil [simp]: "dict_inv []"
  by (simp add: dict_inv_def)

lemma newNetwork_inv: "state_inv s \<Longrightarrow> state_inv (snd (newNetwork i s))"
  by (auto simp add: newNetwork_def Let_def
      intro!: state_inv_networkDict dict_inv_update dest: state_inv_dict)

lemma deleteNetwork_inv: "state_inv s \<Longrightarrow> state_inv (snd (deleteNetwork neti s))"
  by (auto simp add: deleteNetwork_def Let_def
      intro!: state_inv_networkDict dict_inv_delete dest: state_inv_dict)

lemma clearNetworks_inv: "state_inv s \<Longrightarrow> state_inv (clearNetworks s)"
  by (auto simp add: clearNetworks_def Let_def intro!: state_inv_networkDict)

lemma clearNetwork_inv: "state_inv s \<Longrightarrow> state_inv (snd (clearNetwork neti s))"
  by (simp add: clearNetwork_def priv_getNetwork_def priv_getNode_def priv_getReaction_def priv_getCompartment_def
        priv_raiseError_simps Let_def map_fst_map_entry split: option.splits sum.splits prod.splits)

lemma addNode_inv: "state_inv s \<Longrightarrow> state_inv (snd (addNode neti i x y w h fl s))"
  by (simp add: addNode_def priv_getNetwork_def priv_getNode_def priv_getReaction_def priv_getCompartment_def
        priv_raiseError_simps Let_def map_fst_map_entry split: option.splits sum.splits prod.splits)

lemma deleteNode_inv: "state_inv s \<Longrightarrow> state_inv (snd (deleteNode neti nodei s))"
  by (simp add: deleteNode_def priv_getNetwork_def priv_getNode_def priv_getReaction_def priv_getCompartment_def
        priv_raiseError_simps Let_def map_fst_map_entry split: option.splits sum.splits prod.splits)

lemma setNodeID_inv: "state_inv s \<Longrightarrow> state_inv (snd (setNodeID neti nodei i s))"
  by (simp add: setNodeID_def priv_getNetwork_def priv_getNode_def priv_getReaction_def priv_getCompartment_def
        priv_raiseError_simps Let_def map_fst_map_entry split: option.splits sum.splits prod.splits)

lemma setNodeCoordinate_inv: "state_inv s \<Longrightarrow> state_inv (snd (setNodeCoordinate neti nodei x y neg s))"
  by (simp add: setNodeCoordinate_def priv_getNetwork_def priv_getNode_def priv_getReaction_def priv_getCompartment_def
        priv_raiseError_simps Let_def map_fst_map_entry split: option.splits sum.splits prod.splits)

lemma setNodeSize_inv: "state_inv s \<Longrightarrow> state_inv (snd (setNodeSize neti nodei w h s))"
  by (simp add: setNodeSize_def priv_getNetwork_def priv_getNode_def priv_getReaction_def priv_getCompartment_def
        priv_raiseError_simps Let_def map_fst_map_entry split: option.splits sum.splits prod.splits)

lemma setNodeFloatingStatus_inv: "state_inv s \<Longrightarrow> state_inv (snd (setNodeFloatingStatus neti nodei fl s))"
  by (simp add: setNodeFloatingStatus_def priv_getNetwork_def priv_getNode_def priv_getReaction_def priv_getCompartment_def
        priv_raiseError_simps Let_def map_fst_map_entry split: option.splits sum.splits prod.splits)

lemma setNodeFillColorRGB_inv: "state_inv s \<Longrightarrow> state_inv (snd (setNodeFillColorRGB neti nodei r g b s))"
  by (simp add: setNodeFillColorRGB_def priv_getNetwork_def priv_getNode_def priv_getReaction_def priv_getCompartment_def
        priv_raiseError_simps Let_def map_fst_map_entry split: option.splits sum.splits prod.splits)

lemma setNodeFillColorAlpha_inv: "state_inv s \<Longrightarrow> state_inv (snd (setNodeFillColorAlpha neti nodei a s))"
  by (simp add: setNodeFillColorAlpha_def priv_getNetwork_def priv_getNode_def priv_getReaction_def priv_getCompartment_def
        priv_raiseError_simps Let_def map_fst_map_entry split: option.splits sum.splits prod.splits)

lemma setNodeOutlineColorRGB_inv: "state_inv s \<Longrightarrow> state_inv (snd (setNodeOutlineColorRGB neti nodei r g b s))"
  by (simp add: setNodeOutlineColorRGB_def priv_getNetwork_def priv_getNode_def priv_getReaction_def priv_getCompartment_def
        priv_raiseError_simps Let_def map_fst_map_entry split: option.splits sum.splits prod.splits)

lemma setNodeOutlineColorAlpha_inv: "state_inv s \<Longrightarrow> state_inv (snd (setNodeOutlineColorAlpha neti nodei a s))"
  by (simp add: setNodeOutlineColorAlpha_def priv_getNetwork_def priv_getNode_def priv_getReaction_def priv_getCompartment_def
        priv_raiseError_simps Let_def map_fst_map_entry split: option.splits sum.splits prod.splits)

lemma setNodeOutlineThickness_inv: "state_inv s \<Longrightarrow> state_inv (snd (setNodeOutlineThickness neti nodei t s))"
  by (simp add: setNodeOutlineThickness_def priv_getNetwork_def priv_getNode_def priv_getReaction_def priv_getCompartment_def
        priv_raiseError_simps Let_def map_fst_map_entry split: option.splits sum.splits prod.splits)

lemma setNodeFontPointSize_inv: "state_inv s \<Longrightarrow> state_inv (snd (setNodeFontPointSize neti nodei v s))"
  by (simp add: setNodeFontPointSize_def Let_def split: option.splits)

lemma setNodeFontFamily_inv: "state_inv s \<Longrightarrow> state_inv (snd (setNodeFontFamily neti nodei v s))"
  by (simp add: setNodeFontFamily_def Let_def split: option.splits)

lemma setNodeFontStyle_inv: "state_inv s \<Longrightarrow> state_inv (snd (setNodeFontStyle neti nodei v s))"
  by (simp add: setNodeFontStyle_def Let_def split: option.splits)

lemma setNodeFontWeight_inv: "state_inv s \<Longrightarrow> state_inv (snd (setNodeFontWeight neti nodei v s))"
  by (simp add: setNodeFontWeight_def Let_def split: option.splits)

lemma setNodeFontName_inv: "state_inv s \<Longrightarrow> state_inv (snd (setNodeFontName neti nodei v s))"
  by (simp add: setNodeFontName_def Let_def split: option.splits)

lemma setNodeFontColorRGB_inv: "state_inv s \<Longrightarrow> state_inv (snd (setNodeFontColorRGB neti nodei r g b s))"
  by (simp add: setNodeFontColorRGB_def Let_def split: option.splits)

lemma setNodeFontColorAlpha_inv: "state_inv s \<Longrightarrow> state_inv (snd (setNodeFontColorAlpha neti nodei a s))"
  by (simp add: setNodeFontColorAlpha_def Let_def split: option.splits)

lemma clearReactions_inv: "state_inv s \<Longrightarrow> state_inv (snd (clearReactions neti s))"
  by (simp add: clearReactions_def Let_def net_inv_clearReactions)

lemma setReactionID_inv: "state_inv s \<Longrightarrow> state_inv (snd (setReactionID neti reai i s))"
  by (simp add: setReactionID_def priv_getNetwork_def priv_getNode_def priv_getReaction_def priv_getCompartment_def
        priv_raiseError_simps Let_def map_fst_map_entry split: option.splits sum.splits prod.splits)

lemma setRateLaw_inv: "state_inv s \<Longrightarrow> state_inv (snd (setRateLaw neti reai l s))"
  by (simp add: setRateLaw_def priv_getNetwork_def priv_getNode_def priv_getReaction_def priv_getCompartment_def
        priv_raiseError_simps Let_def map_fst_map_entry split: option.splits sum.splits prod.splits)

lemma setReactionCenterPos_inv: "state_inv s \<Longrightarrow> state_inv (snd (setReactionCenterPos neti reai p s))"
  by (simp add: setReactionCenterPos_def priv_getNetwork_def priv_getNode_def priv_getReaction_def priv_getCompartment_def
        priv_raiseError_simps Let_def map_fst_map_entry split: option.splits sum.splits prod.splits)

lemma setReactionSrcNodeStoich_inv: "state_inv s \<Longrightarrow> state_inv (snd (setReactionSrcNodeStoich neti reai n st s))"
  by (simp add: setReactionSrcNodeStoich_def priv_getNetwork_def priv_getNode_def priv_getReaction_def priv_getCompartment_def
        priv_raiseError_simps Let_def map_fst_map_entry split: option.splits sum.splits prod.splits)

lemma setReactionDestNodeStoich_inv: "state_inv s \<Longrightarrow> state_inv (snd (setReactionDestNodeStoich neti reai n st s))"
  by (simp add: setReactionDestNodeStoich_def priv_getNetwork_def priv_getNode_def priv_getReaction_def priv_getCompartment_def
        priv_raiseError_simps Let_def map_fst_map_entry split: option.splits sum.splits prod.splits)

lemma setReactionSrcNodeHandlePosition_inv: "state_inv s \<Longrightarrow> state_inv (snd (setReactionSrcNodeHandlePosition neti reai n x y s))"
  by (simp add: setReactionSrcNodeHandlePosition_def priv_getNetwork_def priv_getNode_def priv_getReaction_def priv_getCompartment_def
        priv_raiseError_simps Let_def map_fst_map_entry split: option.splits sum.splits prod.splits)

lemma setReactionDestNodeHandlePosition_inv: "state_inv s \<Longrightarrow> state_inv (snd (setReactionDestNodeHandlePosition neti reai n x y s))"
  by (simp add: setReactionDestNodeHandlePosition_def priv_getNetwork_def priv_getNode_def priv_getReaction_def priv_getCompartment_def
        priv_raiseError_simps Let_def map_fst_map_entry split: option.splits sum.splits prod.splits)

lemma setReactionFillColorRGB_inv: "state_inv s \<Longrightarrow> state_inv (snd (setReactionFillColorRGB neti reai r g b s))"
  by (simp add: setReactionFillColorRGB_def priv_getNetwork_def priv_getNode_def priv_getReaction_def priv_getCompartment_def
        priv_raiseError_simps Let_def map_fst_map_entry split: option.splits sum.splits prod.splits)

lemma setReactionFillColorAlpha_inv: "state_inv s \<Longrightarrow> state_inv (snd (setReactionFillColorAlpha neti reai a s))"
  by (simp add: setReactionFillColorAlpha_def priv_getNetwork_def priv_getNode_def priv_getReaction_def priv_getCompartment_def
        priv_raiseError_simps Let_def map_fst_map_entry split: option.splits sum.splits prod.splits)

lemma setReactionLineThickness_inv: "state_inv s \<Longrightarrow> state_inv (snd (setReactionLineThickness neti reai t s))"
  by (simp add: setReactionLineThickness_def priv_getNetwork_def priv_getNode_def priv_getReaction_def priv_getCompartment_def
        priv_raiseError_simps Let_def map_fst_map_entry split: option.splits sum.splits prod.splits)

lemma setReactionBezierCurves_inv: "state_inv s \<Longrightarrow> state_inv (snd (setReactionBezierCurves neti reai bz s))"
  by (simp add: setReactionBezierCurves_def priv_getNetwork_def priv_getNode_def priv_getReaction_def priv_getCompartment_def
        priv_raiseError_simps Let_def map_fst_map_entry split: option.splits sum.splits prod.splits)

lemma setReactionCenterHandlePosition_inv: "state_inv s \<Longrightarrow> state_inv (snd (setReactionCenterHandlePosition neti reai x y s))"
  by (simp add: setReactionCenterHandlePosition_def priv_getNetwork_def priv_getNode_def priv_getReaction_def priv_getCompartment_def
        priv_raiseError_simps Let_def map_fst_map_entry split: option.splits sum.splits prod.splits)

lemma addCompartment_inv: "state_inv s \<Longrightarrow> state_inv (snd (addCompartment neti i x y w h s))"
  by (simp add: addCompartment_def priv_getNetwork_def priv_getNode_def priv_getReaction_def priv_getCompartment_def
        priv_raiseError_simps Let_def map_fst_map_entry split: option.splits sum.splits prod.splits)

lemma setCompartmentOfNode_inv: "state_inv s \<Longrightarrow> state_inv (snd (setCompartmentOfNode neti nodei ci s))"
  by (simp add: setCompartmentOfNode_def priv_getNetwork_def priv_getNode_def priv_getReaction_def priv_getCompartment_def
        priv_raiseError_simps Let_def map_fst_map_entry split: option.splits sum.splits prod.splits)

lemma setCompartmentPosition_inv: "state_inv s \<Longrightarrow> state_inv (snd (setCompartmentPosition neti ci x y s))"
  by (simp add: setCompartmentPosition_def priv_getNetwork_def priv_getNode_def priv_getReaction_def priv_getCompartment_def
        priv_raiseError_simps Let_def map_fst_map_entry split: option.splits sum.splits prod.splits)

lemma setCompartmentSize_inv: "state_inv s \<Longrightarrow> state_inv (snd (setCompartmentSize neti ci w h s))"
  by (simp add: setCompartmentSize_def priv_getNetwork_def priv_getNode_def priv_getReaction_def priv_getCompartment_def
        priv_raiseError_simps Let_def map_fst_map_entry split: option.splits sum.splits prod.splits)

lemma setCompartmentVolume_inv: "state_inv s \<Longrightarrow> state_inv (snd (setCompartmentVolume neti ci v s))"
  by (simp add: setCompartmentVolume_def priv_getNetwork_def priv_getNode_def priv_getReaction_def priv_getCompartment_def
        priv_raiseError_simps Let_def map_fst_map_entry split: option.splits sum.splits prod.splits)

lemma setCompartmentID_inv: "state_inv s \<Longrightarrow> state_inv (snd (setCompartmentID neti ci i s))"
  by (simp add: setCompartmentID_def priv_getNetwork_def priv_getNode_def priv_getReaction_def priv_getCompartment_def
        priv_raiseError_simps Let_def map_fst_map_entry split: option.splits sum.splits prod.splits)

lemma setCompartmentFillColor_inv: "state_inv s \<Longrightarrow> state_inv (snd (setCompartmentFillColor neti ci c s))"
  by (simp add: setCompartmentFillColor_def priv_getNetwork_def priv_getNode_def priv_getReaction_def priv_getCompartment_def
        priv_raiseError_simps Let_def map_fst_map_entry split: option.splits sum.splits prod.splits)

lemma setCompartmentOutlineColor_inv: "state_inv s \<Longrightarrow> state_inv (snd (setCompartmentOutlineColor neti ci c s))"
  by (simp add: setCompartmentOutlineColor_def priv_getNetwork_def priv_getNode_def priv_getReaction_def priv_getCompartment_def
        priv_raiseError_simps Let_def map_fst_map_entry split: option.splits sum.splits prod.splits)

lemma setCompartmentOutlineThickness_inv: "state_inv s \<Longrightarrow> state_inv (snd (setCompartmentOutlineThickness neti ci t s))"
  by (simp add: setCompartmentOutlineThickness_def priv_getNetwork_def priv_getNode_def priv_getReaction_def priv_getCompartment_def
        priv_raiseError_simps Let_def map_fst_map_entry split: option.splits sum.splits prod.splits)



lemma createReaction_inv: "state_inv s \<Longrightarrow> state_inv (snd (createReaction neti i srcs tgts s))"
  by (simp add: createReaction_def priv_getNetwork_def priv_raiseError_simps Let_def
      net_inv_addReaction new_reaction_keys_ok split: option.splits sum.splits)

lemma deleteReaction_inv: "state_inv s \<Longrightarrow> state_inv (snd (deleteReaction neti reai s))"
proof (cases "map_of (networkDict s) neti")
  case None
  assume "state_inv s"
  with None show ?thesis by (simp add: deleteReaction_def Let_def)
next
  case (Some net)
  assume inv: "state_inv s"
  have ninv: "net_inv net" using inv Some by (rule state_inv_lookup)
  show ?thesis
  proof (cases "map_of (net_reactions net) reai")
    case None
    with Some inv show ?thesis by (simp add: deleteReaction_def Let_def)
  next
    case (Some reaction)
    note r = net_inv_deleteReaction [OF ninv Some]
    have "state_inv (update_net neti
            (\<lambda>n. n\<lparr>net_srcMap := (\<lambda>x. if x \<in> fst ` set (rea_reactants reaction)
                                        then net_srcMap net x - {reai} else net_srcMap net x),
                    net_destMap := (\<lambda>x. if x \<in> fst ` set (rea_products reaction)
                                         then net_destMap net x - {reai} else net_destMap net x),
                    net_reactions := AList.delete reai (net_reactions n)\<rparr>)
            (priv_pushUndoStack (s\<lparr>errCode := 0\<rparr>)))"
      using inv \<open>map_of (networkDict s) neti = Some net\<close> r(3)
      by (intro state_inv_update_net) auto
    then show ?thesis
      using \<open>map_of (networkDict s) neti = Some net\<close> Some
      by (simp add: deleteReaction_def Let_def r(1) r(2))
  qed
qed

lemma deleteCompartment_inv: "state_inv s \<Longrightarrow> state_inv (snd (deleteCompartment neti ci s))"
proof -
  assume inv: "state_inv s"
  have k: "\<And>net ks e net'. map_of (networkDict s) neti = Some net \<Longrightarrow>
      move_to_base ks ci net = (e, net') \<Longrightarrow> net_inv net'"
    using move_to_base_inv state_inv_lookup [OF inv] by blast
  have k': "\<And>net ks e net' cs. map_of (networkDict s) neti = Some net \<Longrightarrow>
      move_to_base ks ci net = (e, net') \<Longrightarrow> net_inv (net'\<lparr>net_compartments := cs\<rparr>)"
    using k by simp
  show ?thesis
    using inv
    by (auto simp add: deleteCompartment_def priv_getNetwork_def priv_raiseError_simps Let_def
        split: option.splits sum.splits prod.splits intro!: state_inv_update_net k k')
qed

lemma load_mapping_keys: "load_mapping f al = Inr bl \<Longrightarrow> map fst bl = map fst al"
  by (induction f al arbitrary: bl rule: load_mapping.induct) (auto split: sum.splits)

lemma load_mapping_all:
  "load_mapping f al = Inr bl \<Longrightarrow> list_all (\<lambda>(k, v). P v) al
   \<Longrightarrow> (\<And>v v'. P v \<Longrightarrow> f v = Inr v' \<Longrightarrow> Q v') \<Longrightarrow> list_all (\<lambda>(k, v'). Q v') bl"
  by (induction f al arbitrary: bl rule: load_mapping.induct) (auto split: sum.splits)

lemma load_reaction_keys:
  "load_reaction obj = Inr r \<Longrightarrow>
   map fst (rea_reactants r) = map fst (jr_reactants obj) \<and> map fst (rea_products r) = map fst (jr_products obj)"
  by (auto simp add: load_reaction_def comp_def split_def split: sum.splits)

lemma net_schema_load_inv:
  assumes l: "net_schema_load t obj = Inr net" and ok: "obj_keys_ok obj"
  shows "net_inv net"
proof -
  from l obtain ns rs cs where
    rs: "load_mapping load_reaction (jnet_reactions obj) = Inr rs"
    and net: "net = TNetwork_init (jnet_id obj) ns rs cs"
    by (auto simp add: net_schema_load_def split: sum.splits)
  have d: "distinct (map fst rs)"
    using load_mapping_keys [OF rs] ok by (simp add: obj_keys_ok_def)
  have "list_all (\<lambda>(k, r). distinct (map fst (jr_reactants r)) \<and> distinct (map fst (jr_products r)))
          (jnet_reactions obj)"
    using ok by (simp add: obj_keys_ok_def)
  then have k: "list_all (\<lambda>(i, r). reaction_keys_ok r) rs"
    using load_reaction_keys by (intro load_mapping_all [OF rs]) (auto simp add: reaction_keys_ok_def)
  show ?thesis unfolding net using d k by (rule net_inv_init)
qed

lemma priv_addNetwork_inv: "state_inv s \<Longrightarrow> net_inv net \<Longrightarrow> state_inv (snd (priv_addNetwork net s))"
  by (auto simp add: priv_addNetwork_def priv_raiseError_simps Let_def
      intro!: state_inv_networkDict dict_inv_update dest: state_inv_dict)

lemma loadNetwork_inv: "state_inv s \<Longrightarrow> obj_keys_ok obj \<Longrightarrow> state_inv (snd (loadNetwork obj s))"
proof -
  assume inv: "state_inv s" and ok: "obj_keys_ok obj"
  have "\<And>net. net_schema_load s obj = Inr net \<Longrightarrow> state_inv (snd (priv_addNetwork net (clearNetworks s)))"
    using priv_addNetwork_inv [OF clearNetworks_inv [OF inv] net_schema_load_inv [OF _ ok]] .
  then show ?thesis
    using inv
    by (simp add: loadNetwork_def then_do_def split: sum.splits prod.splits) (metis snd_conv)
qed


lemma list_all_last: "list_all P xs \<Longrightarrow> xs \<noteq> [] \<Longrightarrow> P (last xs)"
  by (simp add: list_all_iff)

lemma list_all_butlast: "list_all P xs \<Longrightarrow> list_all P (butlast xs)"
  by (auto simp add: list_all_iff dest: in_set_butlastD)

lemma undo_inv: "state_inv s \<Longrightarrow> state_inv (snd (undo s))"
  by (auto simp add: undo_def Let_def state_inv_def list_all_last list_all_butlast raise_errCode_simps)

lemma redo_inv: "state_inv s \<Longrightarrow> state_inv (snd (redo s))"
  by (auto simp add: redo_def Let_def state_inv_def list_all_last list_all_butlast
      raise_errCode_def split: option.splits)

lemma startGroup_inv: "state_inv s \<Longrightarrow> state_inv (startGroup s)"
  by (simp add: startGroup_def state_inv_def)

lemma endGroup_inv: "state_inv s \<Longrightarrow> state_inv (endGroup s)"
  by (simp add: endGroup_def state_inv_def)

lemma reset_inv: "state_inv reset"
  by (simp add: reset_def state_inv_def)

lemma reset_globals_inv: "state_inv (reset_globals s)"
  by (simp add: reset_globals_def reset_def state_inv_def)

lemma getReactionIndex_inv: "state_inv s \<Longrightarrow> state_inv (snd (getReactionIndex neti i s))"
  by (simp add: getReactionIndex_def Let_def split: option.splits prod.splits)

lemma then_do_inv:
  "state_inv (snd m) \<Longrightarrow> (\<And>v s. state_inv s \<Longrightarrow> state_inv (snd (f v s))) \<Longrightarrow> state_inv (snd (then_do m f))"
  by (cases m) (auto simp add: then_do_def split: sum.splits)

lemmas step_invs = createReaction_inv getReactionIndex_inv setReactionSrcNodeStoich_inv
  setReactionDestNodeStoich_inv setRateLaw_inv startGroup_inv endGroup_inv

lemma createUniUni_inv: "state_inv s \<Longrightarrow> state_inv (snd (createUniUni neti i l a b sa sb s))"
  unfolding createUniUni_def
  by (intro then_do_inv step_invs) (auto simp add: endGroup_def state_inv_def)

lemma CreateUniBi_inv: "state_inv s \<Longrightarrow> state_inv (snd (CreateUniBi neti i l a b c sa sb sc s))"
  unfolding CreateUniBi_def
  by (intro then_do_inv step_invs) (auto simp add: endGroup_def state_inv_def)

lemma CreateBiUni_inv: "state_inv s \<Longrightarrow> state_inv (snd (CreateBiUni neti i l a b c sa sb sc s))"
  unfolding CreateBiUni_def
  by (intro then_do_inv step_invs) (auto simp add: endGroup_def state_inv_def)

lemma CreateBiBi_inv: "state_inv s \<Longrightarrow> state_inv (snd (CreateBiBi neti i l a b c d sa sb sc sd s))"
  unfolding CreateBiBi_def
  by (intro then_do_inv step_invs) (auto simp add: endGroup_def state_inv_def)

lemma node_op_inv: "state_inv s \<Longrightarrow> state_inv (apply_node_op m s)"
  by (cases m) (simp_all add: addNode_inv deleteNode_inv setNodeID_inv setNodeCoordinate_inv setNodeSize_inv setNodeFloatingStatus_inv setNodeFillColorRGB_inv setNodeFillColorAlpha_inv setNodeOutlineColorRGB_inv setNodeOutlineColorAlpha_inv setNodeOutlineThickness_inv
      setNodeFontPointSize_inv setNodeFontFamily_inv setNodeFontStyle_inv setNodeFontWeight_inv
      setNodeFontName_inv setNodeFontColorRGB_inv setNodeFontColorAlpha_inv)

lemma reaction_op_inv: "state_inv s \<Longrightarrow> state_inv (apply_reaction_op m s)"
  by (cases m) (simp_all add: createReaction_inv deleteReaction_inv clearReactions_inv setReactionID_inv setRateLaw_inv setReactionCenterPos_inv setReactionSrcNodeStoich_inv setReactionDestNodeStoich_inv setReactionSrcNodeHandlePosition_inv setReactionDestNodeHandlePosition_inv setReactionFillColorRGB_inv setReactionFillColorAlpha_inv setReactionLineThickness_inv setReactionBezierCurves_inv setReactionCenterHandlePosition_inv)

lemma compartment_op_inv: "state_inv s \<Longrightarrow> state_inv (apply_compartment_op m s)"
  by (cases m) (simp_all add: addCompartment_inv deleteCompartment_inv setCompartmentOfNode_inv setCompartmentPosition_inv setCompartmentSize_inv setCompartmentVolume_inv setCompartmentID_inv setCompartmentFillColor_inv setCompartmentOutlineColor_inv setCompartmentOutlineThickness_inv)

lemma net_op_inv: "state_inv s \<Longrightarrow> call_ok (Mutate (Net m)) \<Longrightarrow> state_inv (apply_net_op m s)"
  by (cases m) (simp_all add: newNetwork_inv deleteNetwork_inv clearNetworks_inv clearNetwork_inv loadNetwork_inv)

lemma apply_call_inv: "state_inv s \<Longrightarrow> call_ok c \<Longrightarrow> state_inv (apply_call c s)"
proof (cases c)
  case (Mutate m)
  assume "state_inv s" "call_ok c"
  with Mutate show ?thesis
    by (cases m) (simp_all add: net_op_inv node_op_inv reaction_op_inv compartment_op_inv)
qed (simp_all add: undo_inv redo_inv startGroup_inv endGroup_inv reset_globals_inv createUniUni_inv
      CreateUniBi_inv CreateBiUni_inv CreateBiBi_inv)

lemma run_calls_inv: "state_inv s \<Longrightarrow> list_all call_ok cs \<Longrightarrow> state_inv (run_calls cs s)"
  unfolding run_calls_def
  by (induction cs arbitrary: s) (simp_all add: apply_call_inv)

text \<open>
  C3. After every sequence of calls on the freshly loaded module (mutating calls,
  compound operations, \<open>undo\<close>, \<open>redo\<close>, \<open>startGroup\<close>, \<open>endGroup\<close>, \<open>reset\<close>; every
  object given to \<open>loadNetwork\<close> a dict of dicts), each network of the registry has
  \<open>srcMap\<close> and \<open>destMap\<close> equal to the full scan of its reactions: at every node index
  they read the set of reaction indices whose reactants, respectively products, contain
  it, and as functions they are what the scanning loop of \<open>TNetwork.__init__\<close> builds from
  the network's reactions map. \<open>createReaction\<close>, \<open>deleteReaction\<close> and \<open>clearReactions\<close>
  are among the calls.
\<close>

theorem indices_equal_full_scan:
  assumes calls: "list_all call_ok cs"
      and net: "(neti, net) \<in> set (networkDict (run_calls cs reset))"
  shows "net_srcMap net n = scan_src (net_reactions net) n
       \<and> net_destMap net n = scan_dest (net_reactions net) n
       \<and> net_srcMap net =
           net_srcMap (TNetwork_init (net_id net) (net_nodes net) (net_reactions net) (net_compartments net))
       \<and> net_destMap net =
           net_destMap (TNetwork_init (net_id net) (net_nodes net) (net_reactions net) (net_compartments net))"
proof -
  have "state_inv (run_calls cs reset)"
    using reset_inv calls by (rule run_calls_inv)
  then have "dict_inv (networkDict (run_calls cs reset))" by (rule state_inv_dict)
  with net have inv: "net_inv net" by (auto simp add: dict_inv_def list_all_iff)
  then have ok: "indices_ok net" and d: "distinct (map fst (net_reactions net))"
    by (simp_all add: net_inv_def)
  have ok': "indices_ok (TNetwork_init (net_id net) (net_nodes net) (net_reactions net) (net_compartments net))"
    using d by (rule TNetwork_init_indices)
  have r: "net_reactions (TNetwork_init (net_id net) (net_nodes net) (net_reactions net) (net_compartments net))
      = net_reactions net" by (simp add: TNetwork_init_def)
  show ?thesis
    using ok ok' by (auto simp add: indices_ok_def r fun_eq_iff)
qed

text \<open>
  An instance, the example of the spec: after \<open>createReaction(0, "r", [0], [1])\<close> on nodes
  0 and 1 the reaction has index 0, \<open>srcMap[0]\<close> and \<open>destMap[1]\<close> are \<open>{0}\<close>, and so is
  the scan; after \<open>deleteReaction(0, 0)\<close> both are empty.
\<close>

theorem indices_equal_full_scan_witness:
  "list_all call_ok
     [Mutate (Net (Op_newNetwork ''net'')), Mutate (Node (Op_addNode 0 ''A'' 0 0 10 10 False)),
      Mutate (Node (Op_addNode 0 ''B'' 20 0 10 10 False)),
      Mutate (Reaction (Op_createReaction 0 ''r'' [0] [1]))]
   \<and> run_calls
     [Mutate (Net (Op_newNetwork ''net'')), Mutate (Node (Op_addNode 0 ''A'' 0 0 10 10 False)),
      Mutate (Node (Op_addNode 0 ''B'' 20 0 10 10 False)),
      Mutate (Reaction (Op_createReaction 0 ''r'' [0] [1]))] reset = state_with_reaction
   \<and> map fst (networkDict state_with_reaction) = [0]
   \<and> net_srcMap (the (map_of (networkDict state_with_reaction) 0)) 0 = {0}
   \<and> net_destMap (the (map_of (networkDict state_with_reaction) 0)) 1 = {0}
   \<and> scan_src (net_reactions (the (map_of (networkDict state_with_reaction) 0))) 0 = {0}
   \<and> scan_dest (net_reactions (the (map_of (networkDict state_with_reaction) 0))) 1 = {0}
   \<and> net_srcMap (the (map_of (networkDict (snd (deleteReaction 0 0 state_with_reaction))) 0)) 0 = {}
   \<and> net_destMap (the (map_of (networkDict (snd (deleteReaction 0 0 state_with_reaction))) 0)) 1 = {}"
proof -
  let ?cs = "[Mutate (Net (Op_newNetwork ''net'')), Mutate (Node (Op_addNode 0 ''A'' 0 0 10 10 False)),
      Mutate (Node (Op_addNode 0 ''B'' 20 0 10 10 False)),
      Mutate (Reaction (Op_createReaction 0 ''r'' [0] [1]))]"
  define net where "net = the (map_of (networkDict state_with_reaction) 0)"
  have ok: "list_all call_ok ?cs" by simp
  have run: "run_calls ?cs reset = state_with_reaction"
    by (simp add: run_calls_def example_defs)
  have keys: "map fst (networkDict state_with_reaction) = [0]"
    by (simp add: example_defs eval_defs)
  have mem: "(0, net) \<in> set (networkDict (run_calls ?cs reset))"
    unfolding run net_def by (simp add: example_defs eval_defs)
  have s: "net_srcMap net 0 = {0}" and d: "net_destMap net 1 = {0}"
    unfolding net_def by (simp_all add: example_defs eval_defs)
  from indices_equal_full_scan [OF ok mem, of 0] s
  have s': "scan_src (net_reactions net) 0 = {0}" by simp
  from indices_equal_full_scan [OF ok mem, of 1] d
  have d': "scan_dest (net_reactions net) 1 = {0}" by simp
  have del: "net_srcMap (the (map_of (networkDict (snd (deleteReaction 0 0 state_with_reaction))) 0)) 0 = {}"
    "net_destMap (the (map_of (networkDict (snd (deleteReaction 0 0 state_with_reaction))) 0)) 1 = {}"
    by (simp_all add: deleteReaction_def example_defs eval_defs)
  show ?thesis
    using ok run keys s d s' d' del unfolding net_def by blast
qed

subsection \<open>The names of the font objects\<close>

text \<open>
  Every state that a sequence of calls reaches from the freshly loaded module satisfies
  \<open>font_inv\<close>: in the registry and in every snapshot, nodes that carry one name carry one
  font value, the name of the class default stands for its value, and no node carries a
  name beyond it. So the name that \<open>undo()\<close> and \<open>redo()\<close> give the class default is
  carried by no node of the snapshot they restore.
\<close>

lemma cells_ok_mono: "cells_ok k C \<Longrightarrow> C' \<subseteq> C \<Longrightarrow> cells_ok k C'"
  unfolding cells_ok_def by blast

lemma cells_ok_next:
  assumes "cells_ok k C"
  shows "cells_ok (Suc k) (insert (Suc k, F) C)"
proof -
  have sv: "\<And>a v w. (a, v) \<in> C \<Longrightarrow> (a, w) \<in> C \<Longrightarrow> v = w"
    and le: "\<And>a v. (a, v) \<in> C \<Longrightarrow> a \<le> k"
    using assms unfolding cells_ok_def by blast+
  have n: "\<And>v. (Suc k, v) \<notin> C"
    using le by fastforce
  show ?thesis
    unfolding cells_ok_def
  proof (intro conjI allI impI)
    fix a v w
    assume "(a, v) \<in> insert (Suc k, F) C" "(a, w) \<in> insert (Suc k, F) C"
    then show "v = w" using sv n by auto
  next
    fix a v
    assume "(a, v) \<in> insert (Suc k, F) C"
    then show "a \<le> Suc k" using le by (auto simp add: le_Suc_eq)
  qed
qed

lemma cells_ok_Suc: "cells_ok k C \<Longrightarrow> cells_ok (Suc k) C"
  by (rule cells_ok_mono [OF cells_ok_next subset_insertI])

lemma cells_ok_write:
  assumes "cells_ok k C"
  shows "cells_ok k ((\<lambda>(a, v). (a, if a = obj then f v else v)) ` C)"
proof -
  have sv: "\<And>a v w. (a, v) \<in> C \<Longrightarrow> (a, w) \<in> C \<Longrightarrow> v = w"
    and le: "\<And>a v. (a, v) \<in> C \<Longrightarrow> a \<le> k"
    using assms unfolding cells_ok_def by blast+
  show ?thesis
    unfolding cells_ok_def
  proof (intro conjI allI impI)
    fix a v w
    assume "(a, v) \<in> (\<lambda>(a, v). (a, if a = obj then f v else v)) ` C"
       and "(a, w) \<in> (\<lambda>(a, v). (a, if a = obj then f v else v)) ` C"
    then obtain v' w' where "(a, v') \<in> C" "v = (if a = obj then f v' else v')"
        "(a, w') \<in> C" "w = (if a = obj then f w' else w')"
      by (auto split: if_splits)
    then show "v = w" using sv [of a v' w'] by simp
  next
    fix a v
    assume "(a, v) \<in> (\<lambda>(a, v). (a, if a = obj then f v else v)) ` C"
    then show "a \<le> k" using le by auto
  qed
qed

lemma cells_ok_empty [simp]: "cells_ok k {}"
  by (simp add: cells_ok_def)

lemma node_cells_Nil [simp]: "node_cells [] = {}"
  by (simp add: node_cells_def)

lemma node_cells_Cons [simp]:
  "node_cells (x # ns) = insert (node_fontObj (snd x), node_font (snd x)) (node_cells ns)"
  by (simp add: node_cells_def split_def)

lemma node_cells_delete [simp]: "node_cells (AList.delete k ns) \<subseteq> node_cells ns"
  by (induction ns) (auto simp del: node_cells_Cons simp add: node_cells_def)

lemma node_cells_map_entry [simp]:
  "(\<And>nd. node_font (g nd) = node_font nd) \<Longrightarrow> (\<And>nd. node_fontObj (g nd) = node_fontObj nd)
   \<Longrightarrow> node_cells (AList.map_entry k g ns) \<subseteq> node_cells ns"
  by (induction ns) auto

lemma node_cells_update:
  "node_cells (AList.update k v ns) \<subseteq> insert (node_fontObj v, node_font v) (node_cells ns)"
  by (induction ns) auto

lemma font_cells_Nil [simp]: "font_cells [] = {}"
  by (simp add: font_cells_def)

lemma font_cells_Cons [simp]: "font_cells (x # d) = node_cells (net_nodes (snd x)) \<union> font_cells d"
  by (simp add: font_cells_def split_def)

lemma font_cells_map_entry:
  "font_cells (AList.map_entry neti f d) \<subseteq>
     font_cells d \<union> (case map_of d neti of None \<Rightarrow> {} | Some n \<Rightarrow> node_cells (net_nodes (f n)))"
  by (induction d) auto

lemma font_cells_delete: "font_cells (AList.delete neti d) \<subseteq> font_cells d"
  by (induction d) auto

lemma font_cells_update:
  "font_cells (AList.update neti n d) \<subseteq> node_cells (net_nodes n) \<union> font_cells d"
  by (induction d) auto

lemma font_cells_lookup: "map_of d neti = Some net \<Longrightarrow> node_cells (net_nodes net) \<subseteq> font_cells d"
  by (induction d) (auto split: if_splits)

lemma node_cells_write:
  "node_cells (map (\<lambda>(nodei, node). (nodei, if node_fontObj node = obj then node\<lparr>node_font := f (node_font node)\<rparr> else node)) ns)
   = (\<lambda>(a, v). (a, if a = obj then f v else v)) ` node_cells ns"
  by (induction ns) auto

lemma font_cells_write:
  "font_cells (map (\<lambda>(neti, n). (neti, n\<lparr>net_nodes :=
       map (\<lambda>(nodei, node). (nodei, if node_fontObj node = obj then node\<lparr>node_font := f (node_font node)\<rparr> else node))
           (net_nodes n)\<rparr>)) d)
   = (\<lambda>(a, v). (a, if a = obj then f v else v)) ` font_cells d"
proof (induction d)
  case Nil
  then show ?case by simp
next
  case (Cons x d)
  then show ?case by (cases x) (simp add: node_cells_write image_Un)
qed

lemma font_inv_errCode [simp]: "font_inv (s\<lparr>errCode := c\<rparr>) = font_inv s"
  by (simp add: font_inv_def)

lemma font_inv_lastNetIndex [simp]: "font_inv (s\<lparr>lastNetIndex := c\<rparr>) = font_inv s"
  by (simp add: font_inv_def)

lemma font_inv_stackFlag [simp]: "font_inv (s\<lparr>stackFlag := c\<rparr>) = font_inv s"
  by (simp add: font_inv_def)

lemma font_inv_raise [simp]: "font_inv (snd (raise_errCode s)) = font_inv s"
  by (simp add: raise_errCode_def split: option.splits)

lemma font_inv_raiseError [simp]: "font_inv (snd (priv_raiseError c s)) = font_inv s"
  by (simp add: priv_raiseError_def)

lemma font_inv_live: "font_inv s \<Longrightarrow> cells_ok (defaultFontObj s) (font_cells (networkDict s))"
proof -
  assume "font_inv s"
  then have "cells_ok (defaultFontObj s) (insert (defaultFontObj s, defaultFont s) (font_cells (networkDict s)))"
    by (simp add: font_inv_def)
  then show ?thesis by (rule cells_ok_mono) (rule subset_insertI)
qed

lemma font_inv_push [simp]: "font_inv s \<Longrightarrow> font_inv (priv_pushUndoStack s)"
  using font_inv_live [of s] by (simp add: font_inv_def priv_pushUndoStack_def)

lemma default_push [simp]:
  "defaultFont (priv_pushUndoStack s) = defaultFont s"
  "defaultFontObj (priv_pushUndoStack s) = defaultFontObj s"
  by (simp_all add: priv_pushUndoStack_def)

lemma font_inv_networkDict:
  assumes inv: "font_inv s"
      and sub: "font_cells d \<subseteq> insert (defaultFontObj s, defaultFont s) (font_cells (networkDict s))"
  shows "font_inv (s\<lparr>networkDict := d\<rparr>)"
proof -
  have "cells_ok (defaultFontObj s) (insert (defaultFontObj s, defaultFont s) (font_cells (networkDict s)))"
    using inv by (simp add: font_inv_def)
  then have "cells_ok (defaultFontObj s) (insert (defaultFontObj s, defaultFont s) (font_cells d))"
    by (rule cells_ok_mono) (use sub in blast)
  then show ?thesis using inv by (simp add: font_inv_def)
qed

lemma font_inv_update_net:
  assumes inv: "font_inv s"
      and f: "\<And>net. map_of (networkDict s) neti = Some net \<Longrightarrow>
                node_cells (net_nodes (f net)) \<subseteq>
                  insert (defaultFontObj s, defaultFont s) (font_cells (networkDict s))"
  shows "font_inv (update_net neti f s)"
  unfolding update_net_def
proof (rule font_inv_networkDict [OF inv])
  show "font_cells (AList.map_entry neti f (networkDict s))
          \<subseteq> insert (defaultFontObj s, defaultFont s) (font_cells (networkDict s))"
  proof (cases "map_of (networkDict s) neti")
    case None
    then show ?thesis using font_cells_map_entry [of neti f "networkDict s"] by auto
  next
    case (Some net)
    then show ?thesis using font_cells_map_entry [of neti f "networkDict s"] f [OF Some] by auto
  qed
qed

lemma font_inv_update_net_any [simp]:
  assumes "\<And>net. node_cells (net_nodes (f net)) \<subseteq> node_cells (net_nodes net)" and "font_inv s"
  shows "font_inv (update_net neti f s)"
proof (rule font_inv_update_net [OF assms(2)])
  fix net assume "map_of (networkDict s) neti = Some net"
  then have "node_cells (net_nodes net) \<subseteq> font_cells (networkDict s)" by (rule font_cells_lookup)
  with assms(1) [of net]
  show "node_cells (net_nodes (f net)) \<subseteq> insert (defaultFontObj s, defaultFont s) (font_cells (networkDict s))"
    by blast
qed

lemma font_inv_update_node [simp]:
  "(\<And>nd. node_font (g nd) = node_font nd) \<Longrightarrow> (\<And>nd. node_fontObj (g nd) = node_fontObj nd)
   \<Longrightarrow> font_inv s \<Longrightarrow> font_inv (update_node neti k g s)"
  by (simp add: update_node_def)

lemma font_inv_update_reaction [simp]: "font_inv s \<Longrightarrow> font_inv (update_reaction neti k g s)"
  by (simp add: update_reaction_def)

lemma font_inv_update_compartment [simp]: "font_inv s \<Longrightarrow> font_inv (update_compartment neti k g s)"
  by (simp add: update_compartment_def)

lemma font_inv_write_font [simp]: "font_inv s \<Longrightarrow> font_inv (write_font obj f s)"
proof -
  assume inv: "font_inv s"
  let ?w = "\<lambda>(a, v). (a, if a = obj then f v else v)"
  have "cells_ok (defaultFontObj s) (?w ` insert (defaultFontObj s, defaultFont s) (font_cells (networkDict s)))"
    using inv unfolding font_inv_def by (intro cells_ok_write) simp
  then show ?thesis
    using inv by (simp add: font_inv_def write_font_def font_cells_write)
qed

lemma addNode_font_inv: "font_inv s \<Longrightarrow> font_inv (snd (addNode neti i x y w h fl s))"
proof -
  assume inv: "font_inv s"
  have "\<And>net. map_of (networkDict s) neti = Some net \<Longrightarrow>
     node_cells (net_nodes (TNetwork_addNode (TNode_new (s\<lparr>errCode := 0\<rparr>) i (x, y) (w, h) fl) net))
       \<subseteq> insert (defaultFontObj s, defaultFont s) (font_cells (networkDict s))"
    using node_cells_update font_cells_lookup
    by (fastforce simp add: TNetwork_addNode_def TNode_new_def)
  then have "font_inv (update_net neti (TNetwork_addNode (TNode_new (s\<lparr>errCode := 0\<rparr>) i (x, y) (w, h) fl))
      (priv_pushUndoStack (s\<lparr>errCode := 0\<rparr>)))"
    using inv by (intro font_inv_update_net) simp_all
  then show ?thesis
    using inv by (simp add: addNode_def priv_getNetwork_def Let_def split: option.splits)
qed

lemma undo_font_inv: "font_inv s \<Longrightarrow> font_inv (snd (undo s))"
proof (cases "netSetStack s = []")
  case True
  assume "font_inv s"
  then show ?thesis using True by (simp add: undo_def Let_def raise_errCode_simps)
next
  case False
  assume inv: "font_inv s"
  have l: "cells_ok (defaultFontObj s) (font_cells (last (netSetStack s)))"
    using list_all_last [of "\<lambda>d. cells_ok (defaultFontObj s) (font_cells d)" "netSetStack s"] inv False
    by (simp add: font_inv_def)
  have a: "cells_ok (Suc (defaultFontObj s)) (insert (Suc (defaultFontObj s), defaultFont s) (font_cells (last (netSetStack s))))"
    using l by (rule cells_ok_next)
  have b: "list_all (\<lambda>d. cells_ok (Suc (defaultFontObj s)) (font_cells d)) (butlast (netSetStack s))"
    using inv by (auto simp add: font_inv_def intro!: list_all_butlast elim!: list_all_mono' intro: cells_ok_Suc)
  have c: "list_all (\<lambda>d. cells_ok (Suc (defaultFontObj s)) (font_cells d)) (redoStack s)"
    using inv by (auto simp add: font_inv_def elim!: list_all_mono' intro: cells_ok_Suc)
  have d: "cells_ok (Suc (defaultFontObj s)) (font_cells (networkDict s))"
    using font_inv_live [OF inv] by (rule cells_ok_Suc)
  show ?thesis
    using False a b c d by (simp add: undo_def Let_def font_inv_def)
qed

lemma net_nodes_simps [simp]:
  "net_nodes (TNetwork_addReaction r n) = net_nodes n"
  "net_nodes (TNetwork_addCompartment c n) = net_nodes n"
  "net_nodes (TNetwork_init i ns rs cs) = ns"
  by (simp_all add: TNetwork_addReaction_def TNetwork_addCompartment_def TNetwork_init_def)

lemma deleteNode_font_inv: "font_inv s \<Longrightarrow> font_inv (snd (deleteNode neti nodei s))"
  by (simp add: deleteNode_def priv_getNetwork_def priv_getNode_def priv_getReaction_def priv_getCompartment_def
        priv_raiseError_simps Let_def split: option.splits sum.splits prod.splits)

lemma setNodeID_font_inv: "font_inv s \<Longrightarrow> font_inv (snd (setNodeID neti nodei i s))"
  by (simp add: setNodeID_def priv_getNetwork_def priv_getNode_def priv_getReaction_def priv_getCompartment_def
        priv_raiseError_simps Let_def split: option.splits sum.splits prod.splits)

lemma setNodeCoordinate_font_inv: "font_inv s \<Longrightarrow> font_inv (snd (setNodeCoordinate neti nodei x y neg s))"
  by (simp add: setNodeCoordinate_def priv_getNetwork_def priv_getNode_def priv_getReaction_def priv_getCompartment_def
        priv_raiseError_simps Let_def split: option.splits sum.splits prod.splits)

lemma setNodeSize_font_inv: "font_inv s \<Longrightarrow> font_inv (snd (setNodeSize neti nodei w h s))"
  by (simp add: setNodeSize_def priv_getNetwork_def priv_getNode_def priv_getReaction_def priv_getCompartment_def
        priv_raiseError_simps Let_def split: option.splits sum.splits prod.splits)

lemma setNodeFloatingStatus_font_inv: "font_inv s \<Longrightarrow> font_inv (snd (setNodeFloatingStatus neti nodei fl s))"
  by (simp add: setNodeFloatingStatus_def priv_getNetwork_def priv_getNode_def priv_getReaction_def priv_getCompartment_def
        priv_raiseError_simps Let_def split: option.splits sum.splits prod.splits)

lemma setNodeFillColorRGB_font_inv: "font_inv s \<Longrightarrow> font_inv (snd (setNodeFillColorRGB neti nodei r g b s))"
  by (simp add: setNodeFillColorRGB_def priv_getNetwork_def priv_getNode_def priv_getReaction_def priv_getCompartment_def
        priv_raiseError_simps Let_def split: option.splits sum.splits prod.splits)

lemma setNodeFillColorAlpha_font_inv: "font_inv s \<Longrightarrow> font_inv (snd (setNodeFillColorAlpha neti nodei a s))"
  by (simp add: setNodeFillColorAlpha_def priv_getNetwork_def priv_getNode_def priv_getReaction_def priv_getCompartment_def
        priv_raiseError_simps Let_def split: option.splits sum.splits prod.splits)

lemma setNodeOutlineColorRGB_font_inv: "font_inv s \<Longrightarrow> font_inv (snd (setNodeOutlineColorRGB neti nodei r g b s))"
  by (simp add: setNodeOutlineColorRGB_def priv_getNetwork_def priv_getNode_def priv_getReaction_def priv_getCompartment_def
        priv_raiseError_simps Let_def split: option.splits sum.splits prod.splits)

lemma setNodeOutlineColorAlpha_font_inv: "font_inv s \<Longrightarrow> font_inv (snd (setNodeOutlineColorAlpha neti nodei a s))"
  by (simp add: setNodeOutlineColorAlpha_def priv_getNetwork_def priv_getNode_def priv_getReaction_def priv_getCompartment_def
        priv_raiseError_simps Let_def split: option.splits sum.splits prod.splits)

lemma setNodeOutlineThickness_font_inv: "font_inv s \<Longrightarrow> font_inv (snd (setNodeOutlineThickness neti nodei t s))"
  by (simp add: setNodeOutlineThickness_def priv_getNetwork_def priv_getNode_def priv_getReaction_def priv_getCompartment_def
        priv_raiseError_simps Let_def split: option.splits sum.splits prod.splits)

lemma setNodeFontPointSize_font_inv: "font_inv s \<Longrightarrow> font_inv (snd (setNodeFontPointSize neti nodei v s))"
  by (simp add: setNodeFontPointSize_def priv_getNetwork_def priv_getNode_def priv_getReaction_def priv_getCompartment_def
        priv_raiseError_simps Let_def split: option.splits sum.splits prod.splits)

lemma setNodeFontFamily_font_inv: "font_inv s \<Longrightarrow> font_inv (snd (setNodeFontFamily neti nodei v s))"
  by (simp add: setNodeFontFamily_def priv_getNetwork_def priv_getNode_def priv_getReaction_def priv_getCompartment_def
        priv_raiseError_simps Let_def split: option.splits sum.splits prod.splits)

lemma setNodeFontStyle_font_inv: "font_inv s \<Longrightarrow> font_inv (snd (setNodeFontStyle neti nodei v s))"
  by (simp add: setNodeFontStyle_def priv_getNetwork_def priv_getNode_def priv_getReaction_def priv_getCompartment_def
        priv_raiseError_simps Let_def split: option.splits sum.splits prod.splits)

lemma setNodeFontWeight_font_inv: "font_inv s \<Longrightarrow> font_inv (snd (setNodeFontWeight neti nodei v s))"
  by (simp add: setNodeFontWeight_def priv_getNetwork_def priv_getNode_def priv_getReaction_def priv_getCompartment_def
        priv_raiseError_simps Let_def split: option.splits sum.splits prod.splits)

lemma setNodeFontName_font_inv: "font_inv s \<Longrightarrow> font_inv (snd (setNodeFontName neti nodei v s))"
  by (simp add: setNodeFontName_def priv_getNetwork_def priv_getNode_def priv_getReaction_def priv_getCompartment_def
        priv_raiseError_simps Let_def split: option.splits sum.splits prod.splits)

lemma setNodeFontColorRGB_font_inv: "font_inv s \<Longrightarrow> font_inv (snd (setNodeFontColorRGB neti nodei r g b s))"
  by (simp add: setNodeFontColorRGB_def priv_getNetwork_def priv_getNode_def priv_getReaction_def priv_getCompartment_def
        priv_raiseError_simps Let_def split: option.splits sum.splits prod.splits)

lemma setNodeFontColorAlpha_font_inv: "font_inv s \<Longrightarrow> font_inv (snd (setNodeFontColorAlpha neti nodei a s))"
  by (simp add: setNodeFontColorAlpha_def priv_getNetwork_def priv_getNode_def priv_getReaction_def priv_getCompartment_def
        priv_raiseError_simps Let_def split: option.splits sum.splits prod.splits)

lemma createReaction_font_inv: "font_inv s \<Longrightarrow> font_inv (snd (createReaction neti i srcs tgts s))"
  by (simp add: createReaction_def priv_getNetwork_def priv_getNode_def priv_getReaction_def priv_getCompartment_def
        priv_raiseError_simps Let_def split: option.splits sum.splits prod.splits)

lemma deleteReaction_font_inv: "font_inv s \<Longrightarrow> font_inv (snd (deleteReaction neti reai s))"
  by (simp add: deleteReaction_def priv_getNetwork_def priv_getNode_def priv_getReaction_def priv_getCompartment_def
        priv_raiseError_simps Let_def split: option.splits sum.splits prod.splits)

lemma clearReactions_font_inv: "font_inv s \<Longrightarrow> font_inv (snd (clearReactions neti s))"
  by (simp add: clearReactions_def priv_getNetwork_def priv_getNode_def priv_getReaction_def priv_getCompartment_def
        priv_raiseError_simps Let_def split: option.splits sum.splits prod.splits)

lemma setReactionID_font_inv: "font_inv s \<Longrightarrow> font_inv (snd (setReactionID neti reai i s))"
  by (simp add: setReactionID_def priv_getNetwork_def priv_getNode_def priv_getReaction_def priv_getCompartment_def
        priv_raiseError_simps Let_def split: option.splits sum.splits prod.splits)

lemma setRateLaw_font_inv: "font_inv s \<Longrightarrow> font_inv (snd (setRateLaw neti reai l s))"
  by (simp add: setRateLaw_def priv_getNetwork_def priv_getNode_def priv_getReaction_def priv_getCompartment_def
        priv_raiseError_simps Let_def split: option.splits sum.splits prod.splits)

lemma setReactionCenterPos_font_inv: "font_inv s \<Longrightarrow> font_inv (snd (setReactionCenterPos neti reai p s))"
  by (simp add: setReactionCenterPos_def priv_getNetwork_def priv_getNode_def priv_getReaction_def priv_getCompartment_def
        priv_raiseError_simps Let_def split: option.splits sum.splits prod.splits)

lemma setReactionSrcNodeStoich_font_inv: "font_inv s \<Longrightarrow> font_inv (snd (setReactionSrcNodeStoich neti reai n st s))"
  by (simp add: setReactionSrcNodeStoich_def priv_getNetwork_def priv_getNode_def priv_getReaction_def priv_getCompartment_def
        priv_raiseError_simps Let_def split: option.splits sum.splits prod.splits)

lemma setReactionDestNodeStoich_font_inv: "font_inv s \<Longrightarrow> font_inv (snd (setReactionDestNodeStoich neti reai n st s))"
  by (simp add: setReactionDestNodeStoich_def priv_getNetwork_def priv_getNode_def priv_getReaction_def priv_getCompartment_def
        priv_raiseError_simps Let_def split: option.splits sum.splits prod.splits)

lemma setReactionSrcNodeHandlePosition_font_inv: "font_inv s \<Longrightarrow> font_inv (snd (setReactionSrcNodeHandlePosition neti reai n x y s))"
  by (simp add: setReactionSrcNodeHandlePosition_def priv_getNetwork_def priv_getNode_def priv_getReaction_def priv_getCompartment_def
        priv_raiseError_simps Let_def split: option.splits sum.splits prod.splits)

lemma setReactionDestNodeHandlePosition_font_inv: "font_inv s \<Longrightarrow> font_inv (snd (setReactionDestNodeHandlePosition neti reai n x y s))"
  by (simp add: setReactionDestNodeHandlePosition_def priv_getNetwork_def priv_getNode_def priv_getReaction_def priv_getCompartment_def
        priv_raiseError_simps Let_def split: option.splits sum.splits prod.splits)

lemma setReactionFillColorRGB_font_inv: "font_inv s \<Longrightarrow> font_inv (snd (setReactionFillColorRGB neti reai r g b s))"
  by (simp add: setReactionFillColorRGB_def priv_getNetwork_def priv_getNode_def priv_getReaction_def priv_getCompartment_def
        priv_raiseError_simps Let_def split: option.splits sum.splits prod.splits)

lemma setReactionFillColorAlpha_font_inv: "font_inv s \<Longrightarrow> font_inv (snd (setReactionFillColorAlpha neti reai a s))"
  by (simp add: setReactionFillColorAlpha_def priv_getNetwork_def priv_getNode_def priv_getReaction_def priv_getCompartment_def
        priv_raiseError_simps Let_def split: option.splits sum.splits prod.splits)

lemma setReactionLineThickness_font_inv: "font_inv s \<Longrightarrow> font_inv (snd (setReactionLineThickness neti reai t s))"
  by (simp add: setReactionLineThickness_def priv_getNetwork_def priv_getNode_def priv_getReaction_def priv_getCompartment_def
        priv_raiseError_simps Let_def split: option.splits sum.splits prod.splits)

lemma setReactionBezierCurves_font_inv: "font_inv s \<Longrightarrow> font_inv (snd (setReactionBezierCurves neti reai bz s))"
  by (simp add: setReactionBezierCurves_def priv_getNetwork_def priv_getNode_def priv_getReaction_def priv_getCompartment_def
        priv_raiseError_simps Let_def split: option.splits sum.splits prod.splits)

lemma setReactionCenterHandlePosition_font_inv: "font_inv s \<Longrightarrow> font_inv (snd (setReactionCenterHandlePosition neti reai x y s))"
  by (simp add: setReactionCenterHandlePosition_def priv_getNetwork_def priv_getNode_def priv_getReaction_def priv_getCompartment_def
        priv_raiseError_simps Let_def split: option.splits sum.splits prod.splits)

lemma addCompartment_font_inv: "font_inv s \<Longrightarrow> font_inv (snd (addCompartment neti i x y w h s))"
  by (simp add: addCompartment_def priv_getNetwork_def priv_getNode_def priv_getReaction_def priv_getCompartment_def
        priv_raiseError_simps Let_def split: option.splits sum.splits prod.splits)

lemma setCompartmentOfNode_font_inv: "font_inv s \<Longrightarrow> font_inv (snd (setCompartmentOfNode neti nodei ci s))"
  by (simp add: setCompartmentOfNode_def priv_getNetwork_def priv_getNode_def priv_getReaction_def priv_getCompartment_def
        priv_raiseError_simps Let_def split: option.splits sum.splits prod.splits)

lemma setCompartmentPosition_font_inv: "font_inv s \<Longrightarrow> font_inv (snd (setCompartmentPosition neti ci x y s))"
  by (simp add: setCompartmentPosition_def priv_getNetwork_def priv_getNode_def priv_getReaction_def priv_getCompartment_def
        priv_raiseError_simps Let_def split: option.splits sum.splits prod.splits)

lemma setCompartmentSize_font_inv: "font_inv s \<Longrightarrow> font_inv (snd (setCompartmentSize neti ci w h s))"
  by (simp add: setCompartmentSize_def priv_getNetwork_def priv_getNode_def priv_getReaction_def priv_getCompartment_def
        priv_raiseError_simps Let_def split: option.splits sum.splits prod.splits)

lemma setCompartmentVolume_font_inv: "font_inv s \<Longrightarrow> font_inv (snd (setCompartmentVolume neti ci v s))"
  by (simp add: setCompartmentVolume_def priv_getNetwork_def priv_getNode_def priv_getReaction_def priv_getCompartment_def
        priv_raiseError_simps Let_def split: option.splits sum.splits prod.splits)

lemma setCompartmentID_font_inv: "font_inv s \<Longrightarrow> font_inv (snd (setCompartmentID neti ci i s))"
  by (simp add: setCompartmentID_def priv_getNetwork_def priv_getNode_def priv_getReaction_def priv_getCompartment_def
        priv_raiseError_simps Let_def split: option.splits sum.splits prod.splits)

lemma setCompartmentFillColor_font_inv: "font_inv s \<Longrightarrow> font_inv (snd (setCompartmentFillColor neti ci c s))"
  by (simp add: setCompartmentFillColor_def priv_getNetwork_def priv_getNode_def priv_getReaction_def priv_getCompartment_def
        priv_raiseError_simps Let_def split: option.splits sum.splits prod.splits)

lemma setCompartmentOutlineColor_font_inv: "font_inv s \<Longrightarrow> font_inv (snd (setCompartmentOutlineColor neti ci c s))"
  by (simp add: setCompartmentOutlineColor_def priv_getNetwork_def priv_getNode_def priv_getReaction_def priv_getCompartment_def
        priv_raiseError_simps Let_def split: option.splits sum.splits prod.splits)

lemma setCompartmentOutlineThickness_font_inv: "font_inv s \<Longrightarrow> font_inv (snd (setCompartmentOutlineThickness neti ci t s))"
  by (simp add: setCompartmentOutlineThickness_def priv_getNetwork_def priv_getNode_def priv_getReaction_def priv_getCompartment_def
        priv_raiseError_simps Let_def split: option.splits sum.splits prod.splits)

lemma clearNetwork_font_inv: "font_inv s \<Longrightarrow> font_inv (snd (clearNetwork neti s))"
  by (simp add: clearNetwork_def priv_getNetwork_def priv_getNode_def priv_getReaction_def priv_getCompartment_def
        priv_raiseError_simps Let_def split: option.splits sum.splits prod.splits)

lemma getReactionIndex_font_inv: "font_inv s \<Longrightarrow> font_inv (snd (getReactionIndex neti i s))"
  by (simp add: getReactionIndex_def priv_getNetwork_def priv_getNode_def priv_getReaction_def priv_getCompartment_def
        priv_raiseError_simps Let_def split: option.splits sum.splits prod.splits)

lemma font_inv_dict_update:
  assumes inv: "font_inv s"
      and n: "node_cells (net_nodes n) \<subseteq> {(defaultFontObj s, defaultFont s)}"
  shows "font_inv (s\<lparr>networkDict := AList.update k n (networkDict s)\<rparr>)"
  using inv
proof (rule font_inv_networkDict)
  show "font_cells (AList.update k n (networkDict s))
      \<subseteq> insert (defaultFontObj s, defaultFont s) (font_cells (networkDict s))"
    using font_cells_update [of k n "networkDict s"] n by blast
qed

lemma font_inv_dict_delete: "font_inv s \<Longrightarrow> font_inv (s\<lparr>networkDict := AList.delete k (networkDict s)\<rparr>)"
proof (erule font_inv_networkDict)
  show "font_cells (AList.delete k (networkDict s))
      \<subseteq> insert (defaultFontObj s, defaultFont s) (font_cells (networkDict s))"
    using font_cells_delete [of k "networkDict s"] by blast
qed

lemma font_inv_dict_Nil: "font_inv s \<Longrightarrow> font_inv (s\<lparr>networkDict := []\<rparr>)"
  by (erule font_inv_networkDict) simp

lemma newNetwork_font_inv: "font_inv s \<Longrightarrow> font_inv (snd (newNetwork i s))"
proof -
  assume inv: "font_inv s"
  have "font_inv ((priv_pushUndoStack (s\<lparr>errCode := 0\<rparr>))
      \<lparr>networkDict := AList.update (lastNetIndex (priv_pushUndoStack (s\<lparr>errCode := 0\<rparr>)))
          (TNetwork_init i [] [] []) (networkDict (priv_pushUndoStack (s\<lparr>errCode := 0\<rparr>)))\<rparr>)"
    using inv by (intro font_inv_dict_update) simp_all
  then show ?thesis
    using inv by (simp add: newNetwork_def Let_def)
qed

lemma deleteNetwork_font_inv: "font_inv s \<Longrightarrow> font_inv (snd (deleteNetwork neti s))"
proof -
  assume inv: "font_inv s"
  have "font_inv ((priv_pushUndoStack (s\<lparr>errCode := 0\<rparr>))
      \<lparr>networkDict := AList.delete neti (networkDict (priv_pushUndoStack (s\<lparr>errCode := 0\<rparr>)))\<rparr>)"
    using inv by (intro font_inv_dict_delete) simp
  then show ?thesis
    using inv by (simp add: deleteNetwork_def Let_def)
qed

lemma clearNetworks_font_inv: "font_inv s \<Longrightarrow> font_inv (clearNetworks s)"
proof -
  assume inv: "font_inv s"
  have "font_inv ((priv_pushUndoStack (s\<lparr>errCode := 0\<rparr>))\<lparr>networkDict := []\<rparr>)"
    using inv by (intro font_inv_dict_Nil) simp
  then show ?thesis
    by (simp add: clearNetworks_def Let_def)
qed

lemma clearNetworks_default [simp]:
  "defaultFont (clearNetworks s) = defaultFont s"
  "defaultFontObj (clearNetworks s) = defaultFontObj s"
  by (simp_all add: clearNetworks_def Let_def)

lemma priv_addNetwork_font_inv:
  assumes inv: "font_inv s"
      and n: "node_cells (net_nodes net) \<subseteq> {(defaultFontObj s, defaultFont s)}"
  shows "font_inv (snd (priv_addNetwork net s))"
proof -
  have "font_inv ((priv_pushUndoStack s)
      \<lparr>networkDict := AList.update (lastNetIndex (priv_pushUndoStack s)) net
          (networkDict (priv_pushUndoStack s))\<rparr>)"
    using inv n by (intro font_inv_dict_update) simp_all
  then show ?thesis
    using inv by (simp add: priv_addNetwork_def priv_raiseError_simps Let_def)
qed

lemma load_mapping_cells:
  "load_mapping f al = Inr bl \<Longrightarrow> (\<And>v v'. f v = Inr v' \<Longrightarrow> (node_fontObj v', node_font v') = c)
   \<Longrightarrow> node_cells bl \<subseteq> {c}"
proof (induction al arbitrary: bl)
  case Nil
  then show ?case by simp
next
  case (Cons x al)
  obtain k v where x: "x = (k, v)" by (cases x)
  from Cons.prems(1) x obtain v' rest where
    v: "f v = Inr v'" and r: "load_mapping f al = Inr rest" and bl: "bl = (k, v') # rest"
    by (auto split: sum.splits)
  have "node_cells rest \<subseteq> {c}" using r Cons.prems(2) by (rule Cons.IH)
  moreover have "(node_fontObj v', node_font v') = c" using v by (rule Cons.prems(2))
  ultimately show ?case using bl by simp
qed

lemma load_node_cell:
  "load_node s obj = Inr node \<Longrightarrow> (node_fontObj node, node_font node) = (defaultFontObj s, defaultFont s)"
  by (auto simp add: load_node_def TNode_new_def split: sum.splits)

lemma net_schema_load_cells:
  "net_schema_load s obj = Inr net \<Longrightarrow> node_cells (net_nodes net) \<subseteq> {(defaultFontObj s, defaultFont s)}"
  by (auto simp add: net_schema_load_def split: sum.splits
      dest!: load_mapping_cells [where c = "(defaultFontObj s, defaultFont s)", OF _ load_node_cell])

lemma loadNetwork_font_inv: "font_inv s \<Longrightarrow> font_inv (snd (loadNetwork obj s))"
proof (cases "net_schema_load s obj")
  case (Inl e)
  assume "font_inv s"
  with Inl show ?thesis by (simp add: loadNetwork_def)
next
  case (Inr net)
  assume inv: "font_inv s"
  have "font_inv (snd (priv_addNetwork net (clearNetworks s)))"
    using clearNetworks_font_inv [OF inv] net_schema_load_cells [OF Inr]
    by (intro priv_addNetwork_font_inv) simp_all
  then show ?thesis
    using Inr by (cases "priv_addNetwork net (clearNetworks s)")
      (auto simp add: loadNetwork_def then_do_def split: sum.splits)
qed

lemma move_to_base_cells:
  "move_to_base ks ci net = (e, net') \<Longrightarrow> node_cells (net_nodes net') \<subseteq> node_cells (net_nodes net)"
proof (induction ks ci net rule: move_to_base.induct)
  case (1 ci net)
  then show ?case by simp
next
  case (2 nodei rest ci net)
  show ?case
  proof (cases "map_of (net_nodes net) nodei")
    case None
    with 2 show ?thesis by simp
  next
    case (Some node)
    show ?thesis
    proof (cases "node_compi node = ci")
      case False
      with 2 Some show ?thesis by simp
    next
      case True
      let ?net = "net\<lparr>net_nodes := AList.map_entry nodei (\<lambda>n. n\<lparr>node_compi := -1\<rparr>) (net_nodes net),
                      net_baseNodes := insert nodei (net_baseNodes net)\<rparr>"
      have "move_to_base rest ci ?net = (e, net')" using 2(2) Some True by simp
      then have "node_cells (net_nodes net') \<subseteq> node_cells (net_nodes ?net)"
        using 2(1) [OF Some] True by simp
      moreover have "node_cells (net_nodes ?net) \<subseteq> node_cells (net_nodes net)" by simp
      ultimately show ?thesis by blast
    qed
  qed
qed

lemma deleteCompartment_font_inv: "font_inv s \<Longrightarrow> font_inv (snd (deleteCompartment neti ci s))"
proof (cases "map_of (networkDict s) neti")
  case None
  assume "font_inv s"
  with None show ?thesis by (simp add: deleteCompartment_def priv_getNetwork_def)
next
  case (Some net)
  assume inv: "font_inv s"
  show ?thesis
  proof (cases "map_of (net_compartments net) ci")
    case None
    with Some inv show ?thesis
      by (simp add: deleteCompartment_def priv_getNetwork_def priv_raiseError_simps)
  next
    case (Some c)
    obtain e net' where m: "move_to_base (sorted_list_of_set (comp_node_indices c)) ci net = (e, net')"
      by (cases "move_to_base (sorted_list_of_set (comp_node_indices c)) ci net")
    have sub: "node_cells (net_nodes net') \<subseteq> font_cells (networkDict s)"
      using move_to_base_cells [OF m] font_cells_lookup [OF \<open>map_of (networkDict s) neti = Some net\<close>]
      by blast
    have a: "font_inv (update_net neti (\<lambda>_. net') (priv_pushUndoStack s))"
      using inv sub by (intro font_inv_update_net) auto
    have b: "font_inv (update_net neti
        (\<lambda>_. net'\<lparr>net_compartments := AList.delete ci (net_compartments net')\<rparr>) (priv_pushUndoStack s))"
      using inv sub by (intro font_inv_update_net) auto
    show ?thesis
      using \<open>map_of (networkDict s) neti = Some net\<close> Some m a b
      by (simp add: deleteCompartment_def priv_getNetwork_def Let_def split: option.splits)
  qed
qed

lemma redo_font_inv: "font_inv s \<Longrightarrow> font_inv (snd (redo s))"
proof (cases "redoStack s = []")
  case True
  assume "font_inv s"
  then show ?thesis using True by (simp add: redo_def Let_def)
next
  case False
  assume inv: "font_inv s"
  have l: "cells_ok (defaultFontObj s) (font_cells (last (redoStack s)))"
    using list_all_last [of "\<lambda>d. cells_ok (defaultFontObj s) (font_cells d)" "redoStack s"] inv False
    by (simp add: font_inv_def)
  have a: "cells_ok (Suc (defaultFontObj s)) (insert (Suc (defaultFontObj s), defaultFont s) (font_cells (last (redoStack s))))"
    using l by (rule cells_ok_next)
  have b: "list_all (\<lambda>d. cells_ok (Suc (defaultFontObj s)) (font_cells d)) (butlast (redoStack s))"
    using inv by (auto simp add: font_inv_def intro!: list_all_butlast elim!: list_all_mono' intro: cells_ok_Suc)
  have c: "list_all (\<lambda>d. cells_ok (Suc (defaultFontObj s)) (font_cells d)) (netSetStack s)"
    using inv by (auto simp add: font_inv_def elim!: list_all_mono' intro: cells_ok_Suc)
  have d: "cells_ok (Suc (defaultFontObj s)) (font_cells (networkDict s))"
    using font_inv_live [OF inv] by (rule cells_ok_Suc)
  have "font_inv (s\<lparr>netSetStack := netSetStack s @ [networkDict s],
                       networkDict := last (redoStack s),
                       redoStack := butlast (redoStack s),
                       defaultFontObj := defaultFontObj s + 1\<rparr>)"
    using a b c d by (simp add: font_inv_def)
  then show ?thesis
    using False by (simp add: redo_def Let_def)
qed

lemma startGroup_font_inv: "font_inv s \<Longrightarrow> font_inv (startGroup s)"
  using font_inv_live [of s] by (simp add: font_inv_def startGroup_def)

lemma endGroup_font_inv: "font_inv s \<Longrightarrow> font_inv (endGroup s)"
  by (simp add: endGroup_def)

lemma reset_font_inv: "font_inv reset"
  by (simp add: reset_def font_inv_def cells_ok_def)

lemma reset_globals_font_inv: "font_inv s \<Longrightarrow> font_inv (reset_globals s)"
  by (simp add: reset_globals_def reset_def font_inv_def cells_ok_def)

lemma then_do_font_inv:
  "font_inv (snd m) \<Longrightarrow> (\<And>v s. font_inv s \<Longrightarrow> font_inv (snd (f v s))) \<Longrightarrow> font_inv (snd (then_do m f))"
  by (cases m) (auto simp add: then_do_def split: sum.splits)

lemmas step_font_invs = createReaction_font_inv getReactionIndex_font_inv setReactionSrcNodeStoich_font_inv
  setReactionDestNodeStoich_font_inv setRateLaw_font_inv startGroup_font_inv

lemma createUniUni_font_inv: "font_inv s \<Longrightarrow> font_inv (snd (createUniUni neti i l a b sa sb s))"
  unfolding createUniUni_def
  by (intro then_do_font_inv step_font_invs) (simp_all add: endGroup_def)

lemma CreateUniBi_font_inv: "font_inv s \<Longrightarrow> font_inv (snd (CreateUniBi neti i l a b c sa sb sc s))"
  unfolding CreateUniBi_def
  by (intro then_do_font_inv step_font_invs) (simp_all add: endGroup_def)

lemma CreateBiUni_font_inv: "font_inv s \<Longrightarrow> font_inv (snd (CreateBiUni neti i l a b c sa sb sc s))"
  unfolding CreateBiUni_def
  by (intro then_do_font_inv step_font_invs) (simp_all add: endGroup_def)

lemma CreateBiBi_font_inv: "font_inv s \<Longrightarrow> font_inv (snd (CreateBiBi neti i l a b c d sa sb sc sd s))"
  unfolding CreateBiBi_def
  by (intro then_do_font_inv step_font_invs) (simp_all add: endGroup_def)

lemma node_op_font_inv: "font_inv s \<Longrightarrow> font_inv (apply_node_op m s)"
  by (cases m) (simp_all add: addNode_font_inv deleteNode_font_inv setNodeID_font_inv setNodeCoordinate_font_inv
      setNodeSize_font_inv setNodeFloatingStatus_font_inv setNodeFillColorRGB_font_inv setNodeFillColorAlpha_font_inv
      setNodeOutlineColorRGB_font_inv setNodeOutlineColorAlpha_font_inv setNodeOutlineThickness_font_inv
      setNodeFontPointSize_font_inv setNodeFontFamily_font_inv setNodeFontStyle_font_inv setNodeFontWeight_font_inv
      setNodeFontName_font_inv setNodeFontColorRGB_font_inv setNodeFontColorAlpha_font_inv)

lemma reaction_op_font_inv: "font_inv s \<Longrightarrow> font_inv (apply_reaction_op m s)"
  by (cases m) (simp_all add: createReaction_font_inv deleteReaction_font_inv clearReactions_font_inv
      setReactionID_font_inv setRateLaw_font_inv setReactionCenterPos_font_inv setReactionSrcNodeStoich_font_inv
      setReactionDestNodeStoich_font_inv setReactionSrcNodeHandlePosition_font_inv
      setReactionDestNodeHandlePosition_font_inv setReactionFillColorRGB_font_inv setReactionFillColorAlpha_font_inv
      setReactionLineThickness_font_inv setReactionBezierCurves_font_inv setReactionCenterHandlePosition_font_inv)

lemma compartment_op_font_inv: "font_inv s \<Longrightarrow> font_inv (apply_compartment_op m s)"
  by (cases m) (simp_all add: addCompartment_font_inv deleteCompartment_font_inv setCompartmentOfNode_font_inv
      setCompartmentPosition_font_inv setCompartmentSize_font_inv setCompartmentVolume_font_inv
      setCompartmentID_font_inv setCompartmentFillColor_font_inv setCompartmentOutlineColor_font_inv
      setCompartmentOutlineThickness_font_inv)

lemma net_op_font_inv: "font_inv s \<Longrightarrow> font_inv (apply_net_op m s)"
  by (cases m) (simp_all add: newNetwork_font_inv deleteNetwork_font_inv clearNetworks_font_inv
      clearNetwork_font_inv loadNetwork_font_inv)

lemma apply_call_font_inv: "font_inv s \<Longrightarrow> font_inv (apply_call c s)"
proof (cases c)
  case (Mutate m)
  assume "font_inv s"
  with Mutate show ?thesis
    by (cases m) (simp_all add: net_op_font_inv node_op_font_inv reaction_op_font_inv compartment_op_font_inv)
qed (simp_all add: undo_font_inv redo_font_inv startGroup_font_inv endGroup_font_inv reset_globals_font_inv
      createUniUni_font_inv CreateUniBi_font_inv CreateBiUni_font_inv CreateBiBi_font_inv)

lemma run_calls_font_inv: "font_inv s \<Longrightarrow> font_inv (run_calls cs s)"
  unfolding run_calls_def
  by (induction cs arbitrary: s) (simp_all add: apply_call_font_inv)

lemma font_names_reachable: "font_inv (run_calls cs reset)"
  using reset_font_inv by (rule run_calls_font_inv)

subsection \<open>Raising calls and the registry\<close>

text \<open>
  Apart from \<open>setCompartmentOfNode\<close>, a mutating call that raises leaves the registry as
  it was: each function validates first. (\<open>deleteReaction\<close> and \<open>deleteCompartment\<close> can
  raise from inside their loops only when the indices, respectively the members of the
  compartment, are not what the other functions maintain.) The compartment setters and
  \<open>deleteNode\<close> may have pushed a snapshot by then; the history is not in the statement.
\<close>

lemma newNetwork_atomic: "atomic_failure (newNetwork i s) s"
  by (simp add: atomic_failure_def newNetwork_def priv_getNetwork_def priv_getNode_def priv_getReaction_def
        priv_getCompartment_def priv_raiseError_simps raise_errCode_simps Let_def
        split: option.splits sum.splits prod.splits)

lemma deleteNetwork_atomic: "atomic_failure (deleteNetwork neti s) s"
  by (simp add: atomic_failure_def deleteNetwork_def priv_getNetwork_def priv_getNode_def priv_getReaction_def
        priv_getCompartment_def priv_raiseError_simps raise_errCode_simps Let_def
        split: option.splits sum.splits prod.splits)

lemma clearNetwork_atomic: "atomic_failure (clearNetwork neti s) s"
  by (simp add: atomic_failure_def clearNetwork_def priv_getNetwork_def priv_getNode_def priv_getReaction_def
        priv_getCompartment_def priv_raiseError_simps raise_errCode_simps Let_def
        split: option.splits sum.splits prod.splits)

lemma loadNetwork_atomic: "atomic_failure (loadNetwork obj s) s"
  by (simp add: atomic_failure_def loadNetwork_def then_do_def priv_addNetwork_def clearNetworks_def
      Let_def split: sum.splits)

lemma addNode_atomic: "atomic_failure (addNode neti i x y w h fl s) s"
  by (simp add: atomic_failure_def addNode_def priv_getNetwork_def priv_getNode_def priv_getReaction_def
        priv_getCompartment_def priv_raiseError_simps raise_errCode_simps Let_def
        split: option.splits sum.splits prod.splits)

lemma deleteNode_atomic: "atomic_failure (deleteNode neti nodei s) s"
  by (simp add: atomic_failure_def deleteNode_def priv_getNetwork_def priv_getNode_def priv_getReaction_def
        priv_getCompartment_def priv_raiseError_simps raise_errCode_simps Let_def
        split: option.splits sum.splits prod.splits)

lemma setNodeID_atomic: "atomic_failure (setNodeID neti nodei i s) s"
  by (simp add: atomic_failure_def setNodeID_def priv_getNetwork_def priv_getNode_def priv_getReaction_def
        priv_getCompartment_def priv_raiseError_simps raise_errCode_simps Let_def
        split: option.splits sum.splits prod.splits)

lemma setNodeCoordinate_atomic: "atomic_failure (setNodeCoordinate neti nodei x y neg s) s"
  by (simp add: atomic_failure_def setNodeCoordinate_def priv_getNetwork_def priv_getNode_def priv_getReaction_def
        priv_getCompartment_def priv_raiseError_simps raise_errCode_simps Let_def
        split: option.splits sum.splits prod.splits)

lemma setNodeSize_atomic: "atomic_failure (setNodeSize neti nodei w h s) s"
  by (simp add: atomic_failure_def setNodeSize_def priv_getNetwork_def priv_getNode_def priv_getReaction_def
        priv_getCompartment_def priv_raiseError_simps raise_errCode_simps Let_def
        split: option.splits sum.splits prod.splits)

lemma setNodeFloatingStatus_atomic: "atomic_failure (setNodeFloatingStatus neti nodei fl s) s"
  by (simp add: atomic_failure_def setNodeFloatingStatus_def priv_getNetwork_def priv_getNode_def priv_getReaction_def
        priv_getCompartment_def priv_raiseError_simps raise_errCode_simps Let_def
        split: option.splits sum.splits prod.splits)

lemma setNodeFillColorRGB_atomic: "atomic_failure (setNodeFillColorRGB neti nodei r g b s) s"
  by (simp add: atomic_failure_def setNodeFillColorRGB_def priv_getNetwork_def priv_getNode_def priv_getReaction_def
        priv_getCompartment_def priv_raiseError_simps raise_errCode_simps Let_def
        split: option.splits sum.splits prod.splits)

lemma setNodeFillColorAlpha_atomic: "atomic_failure (setNodeFillColorAlpha neti nodei a s) s"
  by (simp add: atomic_failure_def setNodeFillColorAlpha_def priv_getNetwork_def priv_getNode_def priv_getReaction_def
        priv_getCompartment_def priv_raiseError_simps raise_errCode_simps Let_def
        split: option.splits sum.splits prod.splits)

lemma setNodeOutlineColorRGB_atomic: "atomic_failure (setNodeOutlineColorRGB neti nodei r g b s) s"
  by (simp add: atomic_failure_def setNodeOutlineColorRGB_def priv_getNetwork_def priv_getNode_def priv_getReaction_def
        priv_getCompartment_def priv_raiseError_simps raise_errCode_simps Let_def
        split: option.splits sum.splits prod.splits)

lemma setNodeOutlineColorAlpha_atomic: "atomic_failure (setNodeOutlineColorAlpha neti nodei a s) s"
  by (simp add: atomic_failure_def setNodeOutlineColorAlpha_def priv_getNetwork_def priv_getNode_def priv_getReaction_def
        priv_getCompartment_def priv_raiseError_simps raise_errCode_simps Let_def
        split: option.splits sum.splits prod.splits)

lemma setNodeOutlineThickness_atomic: "atomic_failure (setNodeOutlineThickness neti nodei t s) s"
  by (simp add: atomic_failure_def setNodeOutlineThickness_def priv_getNetwork_def priv_getNode_def priv_getReaction_def
        priv_getCompartment_def priv_raiseError_simps raise_errCode_simps Let_def
        split: option.splits sum.splits prod.splits)

lemma setNodeFontPointSize_atomic: "atomic_failure (setNodeFontPointSize neti nodei v s) s"
  by (simp add: atomic_failure_def setNodeFontPointSize_def raise_errCode_simps Let_def split: option.splits)

lemma setNodeFontFamily_atomic: "atomic_failure (setNodeFontFamily neti nodei v s) s"
  by (simp add: atomic_failure_def setNodeFontFamily_def raise_errCode_simps Let_def split: option.splits)

lemma setNodeFontStyle_atomic: "atomic_failure (setNodeFontStyle neti nodei v s) s"
  by (simp add: atomic_failure_def setNodeFontStyle_def raise_errCode_simps Let_def split: option.splits)

lemma setNodeFontWeight_atomic: "atomic_failure (setNodeFontWeight neti nodei v s) s"
  by (simp add: atomic_failure_def setNodeFontWeight_def raise_errCode_simps Let_def split: option.splits)

lemma setNodeFontName_atomic: "atomic_failure (setNodeFontName neti nodei v s) s"
  by (simp add: atomic_failure_def setNodeFontName_def raise_errCode_simps Let_def split: option.splits)

lemma setNodeFontColorRGB_atomic: "atomic_failure (setNodeFontColorRGB neti nodei r g b s) s"
  by (simp add: atomic_failure_def setNodeFontColorRGB_def raise_errCode_simps Let_def split: option.splits)

lemma setNodeFontColorAlpha_atomic: "atomic_failure (setNodeFontColorAlpha neti nodei a s) s"
  by (simp add: atomic_failure_def setNodeFontColorAlpha_def raise_errCode_simps Let_def split: option.splits)

lemma createReaction_atomic: "atomic_failure (createReaction neti i srcs tgts s) s"
  by (simp add: atomic_failure_def createReaction_def priv_getNetwork_def priv_getNode_def priv_getReaction_def
        priv_getCompartment_def priv_raiseError_simps raise_errCode_simps Let_def
        split: option.splits sum.splits prod.splits)

lemma clearReactions_atomic: "atomic_failure (clearReactions neti s) s"
  by (simp add: atomic_failure_def clearReactions_def priv_getNetwork_def priv_getNode_def priv_getReaction_def
        priv_getCompartment_def priv_raiseError_simps raise_errCode_simps Let_def
        split: option.splits sum.splits prod.splits)

lemma setReactionID_atomic: "atomic_failure (setReactionID neti reai i s) s"
  by (simp add: atomic_failure_def setReactionID_def priv_getNetwork_def priv_getNode_def priv_getReaction_def
        priv_getCompartment_def priv_raiseError_simps raise_errCode_simps Let_def
        split: option.splits sum.splits prod.splits)

lemma setRateLaw_atomic: "atomic_failure (setRateLaw neti reai l s) s"
  by (simp add: atomic_failure_def setRateLaw_def priv_getNetwork_def priv_getNode_def priv_getReaction_def
        priv_getCompartment_def priv_raiseError_simps raise_errCode_simps Let_def
        split: option.splits sum.splits prod.splits)

lemma setReactionCenterPos_atomic: "atomic_failure (setReactionCenterPos neti reai p s) s"
  by (simp add: atomic_failure_def setReactionCenterPos_def priv_getNetwork_def priv_getNode_def priv_getReaction_def
        priv_getCompartment_def priv_raiseError_simps raise_errCode_simps Let_def
        split: option.splits sum.splits prod.splits)

lemma setReactionSrcNodeStoich_atomic: "atomic_failure (setReactionSrcNodeStoich neti reai n st s) s"
  by (simp add: atomic_failure_def setReactionSrcNodeStoich_def priv_getNetwork_def priv_getNode_def priv_getReaction_def
        priv_getCompartment_def priv_raiseError_simps raise_errCode_simps Let_def
        split: option.splits sum.splits prod.splits)

lemma setReactionDestNodeStoich_atomic: "atomic_failure (setReactionDestNodeStoich neti reai n st s) s"
  by (simp add: atomic_failure_def setReactionDestNodeStoich_def priv_getNetwork_def priv_getNode_def priv_getReaction_def
        priv_getCompartment_def priv_raiseError_simps raise_errCode_simps Let_def
        split: option.splits sum.splits prod.splits)

lemma setReactionSrcNodeHandlePosition_atomic: "atomic_failure (setReactionSrcNodeHandlePosition neti reai n x y s) s"
  by (simp add: atomic_failure_def setReactionSrcNodeHandlePosition_def priv_getNetwork_def priv_getNode_def priv_getReaction_def
        priv_getCompartment_def priv_raiseError_simps raise_errCode_simps Let_def
        split: option.splits sum.splits prod.splits)

lemma setReactionDestNodeHandlePosition_atomic: "atomic_failure (setReactionDestNodeHandlePosition neti reai n x y s) s"
  by (simp add: atomic_failure_def setReactionDestNodeHandlePosition_def priv_getNetwork_def priv_getNode_def priv_getReaction_def
        priv_getCompartment_def priv_raiseError_simps raise_errCode_simps Let_def
        split: option.splits sum.splits prod.splits)

lemma setReactionFillColorRGB_atomic: "atomic_failure (setReactionFillColorRGB neti reai r g b s) s"
  by (simp add: atomic_failure_def setReactionFillColorRGB_def priv_getNetwork_def priv_getNode_def priv_getReaction_def
        priv_getCompartment_def priv_raiseError_simps raise_errCode_simps Let_def
        split: option.splits sum.splits prod.splits)

lemma setReactionFillColorAlpha_atomic: "atomic_failure (setReactionFillColorAlpha neti reai a s) s"
  by (simp add: atomic_failure_def setReactionFillColorAlpha_def priv_getNetwork_def priv_getNode_def priv_getReaction_def
        priv_getCompartment_def priv_raiseError_simps raise_errCode_simps Let_def
        split: option.splits sum.splits prod.splits)

lemma setReactionLineThickness_atomic: "atomic_failure (setReactionLineThickness neti reai t s) s"
  by (simp add: atomic_failure_def setReactionLineThickness_def priv_getNetwork_def priv_getNode_def priv_getReaction_def
        priv_getCompartment_def priv_raiseError_simps raise_errCode_simps Let_def
        split: option.splits sum.splits prod.splits)

lemma setReactionBezierCurves_atomic: "atomic_failure (setReactionBezierCurves neti reai bz s) s"
  by (simp add: atomic_failure_def setReactionBezierCurves_def priv_getNetwork_def priv_getNode_def priv_getReaction_def
        priv_getCompartment_def priv_raiseError_simps raise_errCode_simps Let_def
        split: option.splits sum.splits prod.splits)

lemma setReactionCenterHandlePosition_atomic: "atomic_failure (setReactionCenterHandlePosition neti reai x y s) s"
  by (simp add: atomic_failure_def setReactionCenterHandlePosition_def priv_getNetwork_def priv_getNode_def priv_getReaction_def
        priv_getCompartment_def priv_raiseError_simps raise_errCode_simps Let_def
        split: option.splits sum.splits prod.splits)

lemma addCompartment_atomic: "atomic_failure (addCompartment neti i x y w h s) s"
  by (simp add: atomic_failure_def addCompartment_def priv_getNetwork_def priv_getNode_def priv_getReaction_def
        priv_getCompartment_def priv_raiseError_simps raise_errCode_simps Let_def
        split: option.splits sum.splits prod.splits)

lemma setCompartmentPosition_atomic: "atomic_failure (setCompartmentPosition neti ci x y s) s"
  by (simp add: atomic_failure_def setCompartmentPosition_def priv_getNetwork_def priv_getNode_def priv_getReaction_def
        priv_getCompartment_def priv_raiseError_simps raise_errCode_simps Let_def
        split: option.splits sum.splits prod.splits)

lemma setCompartmentSize_atomic: "atomic_failure (setCompartmentSize neti ci w h s) s"
  by (simp add: atomic_failure_def setCompartmentSize_def priv_getNetwork_def priv_getNode_def priv_getReaction_def
        priv_getCompartment_def priv_raiseError_simps raise_errCode_simps Let_def
        split: option.splits sum.splits prod.splits)

lemma setCompartmentVolume_atomic: "atomic_failure (setCompartmentVolume neti ci v s) s"
  by (simp add: atomic_failure_def setCompartmentVolume_def priv_getNetwork_def priv_getNode_def priv_getReaction_def
        priv_getCompartment_def priv_raiseError_simps raise_errCode_simps Let_def
        split: option.splits sum.splits prod.splits)

lemma setCompartmentID_atomic: "atomic_failure (setCompartmentID neti ci i s) s"
  by (simp add: atomic_failure_def setCompartmentID_def priv_getNetwork_def priv_getNode_def priv_getReaction_def
        priv_getCompartment_def priv_raiseError_simps raise_errCode_simps Let_def
        split: option.splits sum.splits prod.splits)

lemma setCompartmentFillColor_atomic: "atomic_failure (setCompartmentFillColor neti ci c s) s"
  by (simp add: atomic_failure_def setCompartmentFillColor_def priv_getNetwork_def priv_getNode_def priv_getReaction_def
        priv_getCompartment_def priv_raiseError_simps raise_errCode_simps Let_def
        split: option.splits sum.splits prod.splits)

lemma setCompartmentOutlineColor_atomic: "atomic_failure (setCompartmentOutlineColor neti ci c s) s"
  by (simp add: atomic_failure_def setCompartmentOutlineColor_def priv_getNetwork_def priv_getNode_def priv_getReaction_def
        priv_getCompartment_def priv_raiseError_simps raise_errCode_simps Let_def
        split: option.splits sum.splits prod.splits)

lemma setCompartmentOutlineThickness_atomic: "atomic_failure (setCompartmentOutlineThickness neti ci t s) s"
  by (simp add: atomic_failure_def setCompartmentOutlineThickness_def priv_getNetwork_def priv_getNode_def priv_getReaction_def
        priv_getCompartment_def priv_raiseError_simps raise_errCode_simps Let_def
        split: option.splits sum.splits prod.splits)



lemma deleteReaction_atomic: "state_inv s \<Longrightarrow> atomic_failure (deleteReaction neti reai s) s"
proof (cases "map_of (networkDict s) neti")
  case None
  then show ?thesis by (simp add: atomic_failure_def deleteReaction_def Let_def raise_errCode_simps)
next
  case (Some net)
  assume inv: "state_inv s"
  have ninv: "net_inv net" using inv Some by (rule state_inv_lookup)
  show ?thesis
  proof (cases "map_of (net_reactions net) reai")
    case None
    with Some show ?thesis by (simp add: atomic_failure_def deleteReaction_def Let_def raise_errCode_simps)
  next
    case (Some reaction)
    note r = net_inv_deleteReaction [OF ninv Some]
    show ?thesis
      using \<open>map_of (networkDict s) neti = Some net\<close> Some
      by (simp add: atomic_failure_def deleteReaction_def Let_def r(1) r(2))
  qed
qed

lemma move_to_base_succeeds:
  "distinct ks \<Longrightarrow>
   (\<And>k. k \<in> set ks \<Longrightarrow> \<exists>node. map_of (net_nodes net) k = Some node \<and> node_compi node = ci) \<Longrightarrow>
   fst (move_to_base ks ci net) = None"
proof (induction ks ci net rule: move_to_base.induct)
  case (1 ci net)
  then show ?case by simp
next
  case (2 nodei rest ci net)
  from "2.prems"(2) [of nodei] obtain node where
    n: "map_of (net_nodes net) nodei = Some node" "node_compi node = ci" by auto
  let ?net = "net\<lparr>net_nodes := AList.map_entry nodei (\<lambda>n. n\<lparr>node_compi := -1\<rparr>) (net_nodes net),
                   net_baseNodes := insert nodei (net_baseNodes net)\<rparr>"
  have "fst (move_to_base rest ci ?net) = None"
  proof (rule "2.IH" [OF n(1)])
    show "\<not> node_compi node \<noteq> ci" using n by simp
    show "distinct rest" using "2.prems"(1) by simp
    fix k assume k: "k \<in> set rest"
    then have ne: "k \<noteq> nodei" using "2.prems"(1) by auto
    from "2.prems"(2) [of k] k obtain nd where "map_of (net_nodes net) k = Some nd" "node_compi nd = ci"
      by auto
    then show "\<exists>node. map_of (net_nodes ?net) k = Some node \<and> node_compi node = ci"
      using ne by (simp add: map_of_map_entry)
  qed
  then show ?case using n by simp
qed

lemma deleteCompartment_atomic:
  assumes "\<And>net c k. map_of (networkDict s) neti = Some net \<Longrightarrow> map_of (net_compartments net) ci = Some c
     \<Longrightarrow> k \<in> comp_node_indices c \<Longrightarrow> \<exists>node. map_of (net_nodes net) k = Some node \<and> node_compi node = ci"
  shows "atomic_failure (deleteCompartment neti ci s) s"
proof -
  have m: "fst (move_to_base (sorted_list_of_set (comp_node_indices c)) ci net) = None"
    if a: "map_of (networkDict s) neti = Some net" "map_of (net_compartments net) ci = Some c" for net c
  proof (rule move_to_base_succeeds)
    show "distinct (sorted_list_of_set (comp_node_indices c))" by simp
    fix k assume k: "k \<in> set (sorted_list_of_set (comp_node_indices c))"
    have "k \<in> comp_node_indices c"
    proof (cases "finite (comp_node_indices c)")
      case True
      then show ?thesis using k by simp
    next
      case False
      then show ?thesis using k by (simp add: sorted_list_of_set.fold_insort_key.infinite)
    qed
    then show "\<exists>node. map_of (net_nodes net) k = Some node \<and> node_compi node = ci"
      using assms a by blast
  qed
  show ?thesis
  proof (cases "map_of (networkDict s) neti")
    case None
    then show ?thesis
      by (simp add: atomic_failure_def deleteCompartment_def priv_getNetwork_def)
  next
    case (Some net)
    show ?thesis
    proof (cases "map_of (net_compartments net) ci")
      case None
      with Some show ?thesis
        by (simp add: atomic_failure_def deleteCompartment_def priv_getNetwork_def priv_raiseError_simps)
    next
      case (Some c)
      obtain net' where r: "move_to_base (sorted_list_of_set (comp_node_indices c)) ci net = (None, net')"
        using m [OF \<open>map_of (networkDict s) neti = Some net\<close> Some]
        by (cases "move_to_base (sorted_list_of_set (comp_node_indices c)) ci net") auto
      show ?thesis
        using \<open>map_of (networkDict s) neti = Some net\<close> Some r
        by (simp add: atomic_failure_def deleteCompartment_def priv_getNetwork_def Let_def)
    qed
  qed
qed

text \<open>
  A compound operation that raises midway keeps what its earlier steps did and leaves the
  group open: \<open>createUniUni\<close> with a source stoichiometry of \<open>-1\<close> raises \<open>StoichError\<close>
  after the reaction was created.
\<close>

lemma createUniUni_partial:
  "fst (createUniUni 0 ''r'' [] 0 1 (-1) 1 state_two_nodes) = Inl StoichError
   \<and> map_option (map fst \<circ> net_reactions) (map_of (networkDict state_two_nodes) 0) = Some []
   \<and> map_option (map fst \<circ> net_reactions)
       (map_of (networkDict (snd (createUniUni 0 ''r'' [] 0 1 (-1) 1 state_two_nodes))) 0) = Some [0]
   \<and> \<not> stackFlag (snd (createUniUni 0 ''r'' [] 0 1 (-1) 1 state_two_nodes))"
  by (simp add: createUniUni_def getReactionIndex_def setReactionSrcNodeStoich_def raise_errCode_simps
      example_defs eval_defs)

subsection \<open>Groups\<close>

lemma same_history_refl [simp]: "same_history s s"
  by (simp add: same_history_def)

lemma same_history_errCode [simp]: "same_history s (s'\<lparr>errCode := c\<rparr>) = same_history s s'"
  by (simp add: same_history_def)

lemma same_history_fields [simp]:
  "same_history s (s'\<lparr>networkDict := d\<rparr>) = same_history s s'"
  "same_history s (s'\<lparr>lastNetIndex := k\<rparr>) = same_history s s'"
  by (simp_all add: same_history_def)



lemma same_history_raise [simp]: "same_history s (snd (raise_errCode s')) = same_history s s'"
  by (simp add: raise_errCode_def split: option.splits)

lemma same_history_raiseError [simp]: "same_history s (snd (priv_raiseError c s')) = same_history s s'"
  by (simp add: priv_raiseError_def)

lemma same_history_update_net [simp]: "same_history s (update_net neti f s') = same_history s s'"
  by (simp add: same_history_def update_net_def)

lemma same_history_update_node [simp]: "same_history s (update_node neti k f s') = same_history s s'"
  by (simp add: update_node_def)

lemma same_history_update_reaction [simp]: "same_history s (update_reaction neti k f s') = same_history s s'"
  by (simp add: update_reaction_def)

lemma same_history_update_compartment [simp]: "same_history s (update_compartment neti k f s') = same_history s s'"
  by (simp add: update_compartment_def)

lemma same_history_write_font [simp]: "same_history s (write_font obj f s') = same_history s s'"
  by (simp add: same_history_def write_font_def)

lemma same_history_push [simp]: "\<not> stackFlag s' \<Longrightarrow> same_history s (priv_pushUndoStack s') = same_history s s'"
  by (simp add: priv_pushUndoStack_def)

lemma stackFlag_errCode_push [simp]: "\<not> stackFlag s \<Longrightarrow> priv_pushUndoStack (s\<lparr>errCode := c\<rparr>) = s\<lparr>errCode := c\<rparr>"
  by (simp add: priv_pushUndoStack_def)

lemma push_closed [simp]: "\<not> stackFlag s \<Longrightarrow> priv_pushUndoStack s = s"
  by (simp add: priv_pushUndoStack_def)



























































text \<open>
  C7, as amended. \<open>startGroup()\<close> has no guard: every call pushes a snapshot, also while a
  group is already open. Two calls in a row leave exactly two more snapshots on the undo
  stack, both of the registry as it was, clear the redo stack and leave the flag down.
\<close>

theorem startGroup_twice_pushes_two:
  "netSetStack (startGroup (startGroup s)) = netSetStack s @ [networkDict s, networkDict s]
   \<and> length (netSetStack (startGroup (startGroup s))) = length (netSetStack s) + 2
   \<and> stackFlag (startGroup (startGroup s)) = False
   \<and> stackFlag (startGroup s) = False
   \<and> networkDict (startGroup (startGroup s)) = networkDict s
   \<and> redoStack (startGroup (startGroup s)) = []"
  by (simp add: startGroup_def)

text \<open>
  C7 as stated fails on the freshly loaded module: after two calls of \<open>startGroup()\<close> the
  undo stack holds two snapshots, not one.
\<close>

theorem startGroup_twice_counterexample:
  "length (netSetStack (startGroup (startGroup reset))) \<noteq> length (netSetStack reset) + 1"
  by (simp add: startGroup_def reset_def)

end
